theory Spec2Isabelle
  imports Complex_Main
begin

section \<open>Tensors\<close>

text \<open>
  A \<^verbatim>\<open>torch.Tensor\<close> is modelled by its shape and its elements in logical
  (row-major) order. Strides are not tracked: every tensor is held as if it were
  contiguous, so \<^verbatim>\<open>view\<close> and \<^verbatim>\<open>reshape\<close> coincide and
  \<^verbatim>\<open>contiguous\<close> is the identity. Floating-point numbers are idealised by
  exact arithmetic: the correlation is stated over any commutative semiring, the layers
  over the reals, the samplers over the reals extended by the infinities and NaN.
\<close>

datatype error =
    RuntimeError
  | TypeError
  | ValueError
  | IndexError
  | AttributeError
  | ZeroDivisionError
  | NotImplementedError
  | AssertionError string

record 'a tensor =
  shape :: "nat list"
  data :: "'a list"

definition wf :: "'a tensor \<Rightarrow> bool" where
  "wf t \<longleftrightarrow> length (data t) = prod_list (shape t)"

text \<open>Exceptions propagate: the first failing statement decides the result.\<close>

definition rbind :: "error + 'a \<Rightarrow> ('a \<Rightarrow> error + 'b) \<Rightarrow> error + 'b" where
  "rbind m f = (case m of Inl e \<Rightarrow> Inl e | Inr x \<Rightarrow> f x)"

definition rmap :: "('a \<Rightarrow> 'b) \<Rightarrow> error + 'a \<Rightarrow> error + 'b" where
  "rmap f m = (case m of Inl e \<Rightarrow> Inl e | Inr x \<Rightarrow> Inr (f x))"

subsection \<open>Row-major addressing\<close>

fun strides :: "nat list \<Rightarrow> nat list" where
  "strides [] = []"
| "strides (n # ns) = prod_list ns # strides ns"

definition offset :: "nat list \<Rightarrow> nat list \<Rightarrow> nat" where
  "offset idx sts = sum_list (map2 (*) idx sts)"

definition ravel :: "nat list \<Rightarrow> nat list \<Rightarrow> nat" where
  "ravel s idx = offset idx (strides s)"

fun unravel :: "nat list \<Rightarrow> nat \<Rightarrow> nat list" where
  "unravel [] k = []"
| "unravel (n # ns) k = (k div prod_list ns) # unravel ns (k mod prod_list ns)"

definition valid_index :: "nat list \<Rightarrow> nat list \<Rightarrow> bool" where
  "valid_index s idx \<longleftrightarrow> list_all2 (<) idx s"

definition tget :: "'a tensor \<Rightarrow> nat list \<Rightarrow> 'a" where
  "tget t idx = data t ! ravel (shape t) idx"

definition tabulate :: "nat list \<Rightarrow> (nat list \<Rightarrow> 'a) \<Rightarrow> 'a tensor" where
  "tabulate s f = \<lparr>shape = s, data = map (\<lambda>k. f (unravel s k)) [0..<prod_list s]\<rparr>"

subsection \<open>Shape operations\<close>

text \<open>
  \<^verbatim>\<open>t.view(*s)\<close> and \<^verbatim>\<open>t.reshape(*s)\<close> with every size given: the
  element count must agree.
\<close>

definition view :: "nat list \<Rightarrow> 'a tensor \<Rightarrow> error + 'a tensor" where
  "view s t = (if prod_list s = length (data t) then Inr (t\<lparr>shape := s\<rparr>) else Inl RuntimeError)"

definition reshape :: "nat list \<Rightarrow> 'a tensor \<Rightarrow> error + 'a tensor" where
  "reshape s t = view s t"

text \<open>
  \<^verbatim>\<open>t.permute(*ps)\<close>: axis \<open>a\<close> of the result is axis \<open>ps ! a\<close> of
  \<open>t\<close>, so the element at a result index lies at the offset computed with the
  permuted strides.
\<close>

definition pick :: "nat list \<Rightarrow> 'b list \<Rightarrow> 'b list" where
  "pick ps xs = map (\<lambda>p. xs ! p) ps"

definition is_perm :: "nat list \<Rightarrow> nat \<Rightarrow> bool" where
  "is_perm ps n \<longleftrightarrow> length ps = n \<and> distinct ps \<and> list_all (\<lambda>p. p < n) ps"

definition permute :: "nat list \<Rightarrow> 'a tensor \<Rightarrow> error + 'a tensor" where
  "permute ps t =
     (if is_perm ps (length (shape t))
      then Inr (tabulate (pick ps (shape t))
                  (\<lambda>idx. data t ! offset idx (pick ps (strides (shape t)))))
      else Inl RuntimeError)"

definition swap_axes :: "nat \<Rightarrow> nat \<Rightarrow> nat \<Rightarrow> nat list" where
  "swap_axes n d0 d1 = ([0..<n])[d0 := d1, d1 := d0]"

definition transpose_t :: "nat \<Rightarrow> nat \<Rightarrow> 'a tensor \<Rightarrow> error + 'a tensor" where
  "transpose_t d0 d1 t =
     (if d0 < length (shape t) \<and> d1 < length (shape t)
      then permute (swap_axes (length (shape t)) d0 d1) t
      else Inl IndexError)"

text \<open>\<^verbatim>\<open>torch.bmm(a, b)\<close>: a batch of matrix products of 3-D tensors.\<close>

definition bmm :: "'a::comm_semiring_0 tensor \<Rightarrow> 'a tensor \<Rightarrow> error + 'a tensor" where
  "bmm a b =
     (case (shape a, shape b) of
        ([n, p, q], [n', q', r]) \<Rightarrow>
          if n = n' \<and> q = q'
          then Inr (tabulate [n, p, r]
                 (\<lambda>idx. \<Sum>m\<leftarrow>[0..<q]. tget a [idx ! 0, idx ! 1, m] * tget b [idx ! 0, m, idx ! 2]))
          else Inl RuntimeError
      | _ \<Rightarrow> Inl RuntimeError)"

text \<open>\<^verbatim>\<open>s * t\<close> for a scalar \<open>s\<close>.\<close>

definition scale :: "'a::comm_semiring_0 \<Rightarrow> 'a tensor \<Rightarrow> 'a tensor" where
  "scale s t = t\<lparr>data := map (\<lambda>x. s * x) (data t)\<rparr>"

section \<open>The correlation builder\<close>

text \<open>
  \<^verbatim>\<open>MemoryEncoder.corr\<close> of \<^verbatim>\<open>encoder.py\<close>; \<open>heads\<close> is
  \<^verbatim>\<open>self.cfg.cost_heads_num\<close>. Unpacking the shape of a tensor that is not 4-D
  raises \<^verbatim>\<open>ValueError\<close>, the floor division by zero heads
  \<^verbatim>\<open>ZeroDivisionError\<close>.
\<close>

definition corr :: "nat \<Rightarrow> 'a::comm_semiring_0 tensor \<Rightarrow> 'a tensor \<Rightarrow> error + 'a tensor" where
  "corr heads fmap1 fmap2 =
     (case shape fmap1 of
        [batch, cdim, ht, wd] \<Rightarrow>
          if heads = 0 then Inl ZeroDivisionError
          else
            let d = cdim div heads in
            rbind (view [batch, heads, d, ht, wd] fmap1) (\<lambda>f1.
            rbind (permute [0, 1, 3, 4, 2] f1) (\<lambda>f1.
            rbind (reshape [batch, heads, ht * wd, d] f1) (\<lambda>f1.
            rbind (view [batch, heads, d, ht, wd] fmap2) (\<lambda>f2.
            rbind (permute [0, 1, 3, 4, 2] f2) (\<lambda>f2.
            rbind (reshape [batch, heads, ht * wd, d] f2) (\<lambda>f2.
            rbind (reshape [batch * heads, ht * wd, d] f1) (\<lambda>fmap1_bmm.
            rbind (reshape [batch * heads, ht * wd, d] f2) (\<lambda>fmap2_bmm.
            rbind (transpose_t 1 2 fmap2_bmm) (\<lambda>fmap2_t.
            rbind (bmm fmap1_bmm fmap2_t) (\<lambda>corr_bmm.
            rbind (view [batch, heads, ht * wd, ht * wd] corr_bmm) (\<lambda>c.
            rbind (permute [0, 2, 1, 3] c) (\<lambda>c.
            rbind (reshape [batch * ht * wd, heads, ht, wd] c) (\<lambda>c.
            rbind (reshape [batch, ht * wd, heads, ht * wd] c) (\<lambda>c.
            rbind (permute [0, 2, 1, 3] c) (\<lambda>c.
            reshape [batch, heads, ht, wd, ht, wd] c)))))))))))))))
      | _ \<Rightarrow> Inl ValueError)"

section \<open>Further tensor operations\<close>

text \<open>Python's \<^verbatim>\<open>a // b\<close> and \<^verbatim>\<open>a % b\<close> on non-negative integers.\<close>

definition floordiv :: "nat \<Rightarrow> nat \<Rightarrow> error + nat" where
  "floordiv a b = (if b = 0 then Inl ZeroDivisionError else Inr (a div b))"

definition pymod :: "nat \<Rightarrow> nat \<Rightarrow> error + nat" where
  "pymod a b = (if b = 0 then Inl ZeroDivisionError else Inr (a mod b))"

text \<open>An axis given as a Python integer: a negative one counts from the end.\<close>

definition norm_dim :: "int \<Rightarrow> nat \<Rightarrow> error + nat" where
  "norm_dim d n =
     (if - int n \<le> d \<and> d < int n then Inr (nat (if d < 0 then d + int n else d))
      else Inl IndexError)"

definition transpose_i :: "int \<Rightarrow> int \<Rightarrow> 'a tensor \<Rightarrow> error + 'a tensor" where
  "transpose_i d0 d1 t =
     rbind (norm_dim d0 (length (shape t))) (\<lambda>a.
     rbind (norm_dim d1 (length (shape t))) (\<lambda>b. transpose_t a b t))"

text \<open>
  \<^verbatim>\<open>t.view(*sizes)\<close> and \<^verbatim>\<open>t.reshape(*sizes)\<close> where one size may be
  \<open>-1\<close>: it is inferred from the element count, which must then be a multiple of the
  product of the other sizes, and that product must not be zero.
\<close>

definition infer_size :: "int list \<Rightarrow> nat \<Rightarrow> error + nat list" where
  "infer_size sizes n =
     (if list_ex (\<lambda>s. s < - 1) sizes then Inl RuntimeError
      else if count_list sizes (- 1) = 0 then
        (if prod_list (map nat sizes) = n then Inr (map nat sizes) else Inl RuntimeError)
      else if count_list sizes (- 1) = 1 then
        (let known = prod_list (map nat (filter (\<lambda>s. s \<noteq> - 1) sizes)) in
         if known = 0 \<or> n mod known \<noteq> 0 then Inl RuntimeError
         else Inr (map (\<lambda>s. if s = - 1 then n div known else nat s) sizes))
      else Inl RuntimeError)"

definition view_i :: "int list \<Rightarrow> 'a tensor \<Rightarrow> error + 'a tensor" where
  "view_i sizes t = rbind (infer_size sizes (length (data t))) (\<lambda>s. Inr (t\<lparr>shape := s\<rparr>))"

definition reshape_i :: "int list \<Rightarrow> 'a tensor \<Rightarrow> error + 'a tensor" where
  "reshape_i sizes t = view_i sizes t"

text \<open>\<^verbatim>\<open>t.repeat(*reps)\<close>: the tensor tiled \<open>reps ! a\<close> times along axis \<open>a\<close>.\<close>

definition repeat_t :: "nat list \<Rightarrow> 'a tensor \<Rightarrow> error + 'a tensor" where
  "repeat_t reps t =
     (if length reps < length (shape t) then Inl RuntimeError
      else
        let s = replicate (length reps - length (shape t)) 1 @ shape t in
        Inr (tabulate (map2 (*) reps s)
               (\<lambda>idx. data t ! ravel s (map2 (\<lambda>i n. i mod n) idx s))))"

text \<open>\<^verbatim>\<open>torch.cat([a, b], dim=d)\<close>.\<close>

definition torch_cat :: "'a tensor \<Rightarrow> 'a tensor \<Rightarrow> int \<Rightarrow> error + 'a tensor" where
  "torch_cat a b d =
     rbind (norm_dim d (length (shape a))) (\<lambda>ax.
       if length (shape b) \<noteq> length (shape a) \<or> (shape a)[ax := 0] \<noteq> (shape b)[ax := 0]
       then Inl RuntimeError
       else Inr (tabulate ((shape a)[ax := shape a ! ax + shape b ! ax])
              (\<lambda>idx. if idx ! ax < shape a ! ax then tget a idx
                      else tget b (idx[ax := idx ! ax - shape a ! ax]))))"

text \<open>Elementwise operations; two tensors are broadcast against each other.\<close>

definition map_t :: "('a \<Rightarrow> 'b) \<Rightarrow> 'a tensor \<Rightarrow> 'b tensor" where
  "map_t f t = \<lparr>shape = shape t, data = map f (data t)\<rparr>"

definition broadcast_shapes :: "nat list \<Rightarrow> nat list \<Rightarrow> error + nat list" where
  "broadcast_shapes s1 s2 =
     (let n = max (length s1) (length s2);
          a = replicate (n - length s1) 1 @ s1;
          b = replicate (n - length s2) 1 @ s2 in
      if list_all2 (\<lambda>x y. x = y \<or> x = 1 \<or> y = 1) a b
      then Inr (map2 (\<lambda>x y. if x = 1 then y else x) a b)
      else Inl RuntimeError)"

definition bc_index :: "nat list \<Rightarrow> nat list \<Rightarrow> nat list" where
  "bc_index s idx = map2 (\<lambda>i n. if n = 1 then 0 else i) (drop (length idx - length s) idx) s"

definition binop_t :: "('a \<Rightarrow> 'a \<Rightarrow> 'a) \<Rightarrow> 'a tensor \<Rightarrow> 'a tensor \<Rightarrow> error + 'a tensor" where
  "binop_t f a b =
     rbind (broadcast_shapes (shape a) (shape b)) (\<lambda>s.
       Inr (tabulate s (\<lambda>idx. f (tget a (bc_index (shape a) idx)) (tget b (bc_index (shape b) idx)))))"

definition add_t :: "real tensor \<Rightarrow> real tensor \<Rightarrow> error + real tensor" where
  "add_t a b = binop_t (+) a b"

text \<open>
  \<^verbatim>\<open>a @ b\<close> for tensors of at least two axes with the same leading axes (nothing
  in the sources multiplies tensors whose leading axes differ).
\<close>

definition matmul :: "'a::comm_semiring_0 tensor \<Rightarrow> 'a tensor \<Rightarrow> error + 'a tensor" where
  "matmul a b =
     (case (rev (shape a), rev (shape b)) of
        (q # p # la, r # q' # lb) \<Rightarrow>
          if q = q' \<and> la = lb
          then Inr (tabulate (rev la @ [p, r])
                 (\<lambda>idx. \<Sum>m\<leftarrow>[0..<q].
                    tget a (butlast (butlast idx) @ [last (butlast idx), m]) *
                    tget b (butlast (butlast idx) @ [m, last idx])))
          else Inl RuntimeError
      | _ \<Rightarrow> Inl RuntimeError)"

text \<open>\<^verbatim>\<open>t.softmax(dim=-1)\<close>.\<close>

definition softmax_last :: "real tensor \<Rightarrow> real tensor" where
  "softmax_last t =
     tabulate (shape t)
       (\<lambda>idx. exp (tget t idx) /
          (\<Sum>j\<leftarrow>[0..<last (shape t)]. exp (tget t (butlast idx @ [j]))))"

text \<open>\<^verbatim>\<open>t[0]\<close>, \<^verbatim>\<open>t[a:b]\<close> along the first axis, and slices \<^verbatim>\<open>:m\<close> of every axis.\<close>

definition select0 :: "'a tensor \<Rightarrow> error + 'a tensor" where
  "select0 t =
     (case shape t of
        [] \<Rightarrow> Inl IndexError
      | n # s \<Rightarrow> if n = 0 then Inl IndexError
                 else Inr \<lparr>shape = s, data = take (prod_list s) (data t)\<rparr>)"

definition slice0 :: "nat \<Rightarrow> nat option \<Rightarrow> 'a tensor \<Rightarrow> error + 'a tensor" where
  "slice0 a b t =
     (case shape t of
        [] \<Rightarrow> Inl IndexError
      | n # s \<Rightarrow>
          let lo = min a n; hi = (case b of None \<Rightarrow> n | Some m \<Rightarrow> min m n) in
          Inr \<lparr>shape = (hi - lo) # s,
               data = take ((hi - lo) * prod_list s) (drop (lo * prod_list s) (data t))\<rparr>)"

definition slice_upto :: "nat option list \<Rightarrow> 'a tensor \<Rightarrow> error + 'a tensor" where
  "slice_upto ms t =
     (if length (shape t) < length ms then Inl IndexError
      else Inr (tabulate
             (map2 (\<lambda>m n. case m of None \<Rightarrow> n | Some k \<Rightarrow> min k n)
                (ms @ replicate (length (shape t) - length ms) None) (shape t))
             (\<lambda>idx. tget t idx)))"


section \<open>Padding and slicing\<close>

text \<open>
  \<^verbatim>\<open>F.pad(x, pads, mode)\<close>: \<open>pads\<close> lists a pair (before, after) for the last
  axis first, then for the axis before it, and so on; axes not named are left alone.
  Mode \<^verbatim>\<open>constant\<close> fills with zeros. Mode \<^verbatim>\<open>replicate\<close> repeats the
  border element; PyTorch implements it for the last two axes of a 3-D or 4-D tensor
  (and the last one of a 2-D or 3-D, the last three of a 4-D or 5-D tensor) whose
  axes other than a leading batch axis are not empty, before and after the padding.
  A negative amount crops.
\<close>

fun pad_pairs :: "int list \<Rightarrow> (int \<times> int) list" where
  "pad_pairs (lo # hi # ps) = (lo, hi) # pad_pairs ps"
| "pad_pairs _ = []"

definition pad_bounds :: "nat \<Rightarrow> int list \<Rightarrow> (int \<times> int) list" where
  "pad_bounds n pads = replicate (n - length pads div 2) (0, 0) @ rev (pad_pairs pads)"

definition padded_shape :: "nat list \<Rightarrow> (int \<times> int) list \<Rightarrow> int list" where
  "padded_shape s bs = map2 (\<lambda>n (lo, hi). int n + lo + hi) s bs"

definition pad_source :: "nat list \<Rightarrow> (int \<times> int) list \<Rightarrow> int list" where
  "pad_source idx bs = map2 (\<lambda>i (lo, hi). int i - lo) idx bs"

definition clamp :: "int \<Rightarrow> int \<Rightarrow> int \<Rightarrow> int" where
  "clamp v lo hi = min (max v lo) hi"

definition F_pad :: "'a::zero tensor \<Rightarrow> int list \<Rightarrow> string \<Rightarrow> error + 'a tensor" where
  "F_pad x pads mode =
     (let n = length (shape x); k = length pads div 2; bs = pad_bounds n pads;
          out = padded_shape (shape x) bs in
      if odd (length pads) \<or> n < k then Inl RuntimeError
      else if mode = ''constant'' then
        if list_all (\<lambda>m. 0 \<le> m) out
        then Inr (tabulate (map nat out)
               (\<lambda>idx. let src = pad_source idx bs in
                  if list_all2 (\<lambda>i m. 0 \<le> i \<and> i < int m) src (shape x)
                  then tget x (map nat src) else 0))
        else Inl RuntimeError
      else if mode = ''replicate'' then
        if \<not> (1 \<le> k \<and> k \<le> 3 \<and> (n = k + 1 \<or> n = k + 2)) then Inl NotImplementedError
        else if \<not> list_all (\<lambda>m. 0 < m) (if n = k + 2 then tl (shape x) else shape x)
        then Inl RuntimeError
        else if \<not> list_all (\<lambda>m. 1 \<le> m) (if n = k + 2 then tl out else out)
        then Inl RuntimeError
        else Inr (tabulate (map nat out)
               (\<lambda>idx. tget x (map2 (\<lambda>i m. nat (clamp i 0 (int m - 1)))
                                  (pad_source idx bs) (shape x))))
      else Inl NotImplementedError)"

text \<open>
  A Python slice \<^verbatim>\<open>a:b\<close> of an axis of size \<open>n\<close>: a negative bound counts
  from the end, and both bounds are clipped to the axis.
\<close>

definition slice_bound :: "nat \<Rightarrow> int \<Rightarrow> nat" where
  "slice_bound n a = (if a < 0 then nat (max (a + int n) 0) else min (nat a) n)"

text \<open>\<^verbatim>\<open>x[..., a:b, c:d]\<close>: a slice of the last two axes.\<close>

definition slice_last2 :: "'a tensor \<Rightarrow> int \<Rightarrow> int \<Rightarrow> int \<Rightarrow> int \<Rightarrow> error + 'a tensor" where
  "slice_last2 x a b c d =
     (case rev (shape x) of
        w # h # _ \<Rightarrow>
          let r0 = slice_bound h a; r1 = slice_bound h b;
              c0 = slice_bound w c; c1 = slice_bound w d;
              lead = butlast (butlast (shape x)) in
          Inr (tabulate (lead @ [r1 - r0, c1 - c0])
                 (\<lambda>idx. tget x (butlast (butlast idx) @ [r0 + last (butlast idx), c0 + last idx])))
      | _ \<Rightarrow> Inl IndexError)"

section \<open>The input padder\<close>

text \<open>
  \<^verbatim>\<open>InputPadder\<close> of \<^verbatim>\<open>utils.py\<close>. The fields are \<^verbatim>\<open>self.ht\<close>,
  \<^verbatim>\<open>self.wd\<close> and \<^verbatim>\<open>self._pad\<close>.
\<close>

record InputPadder =
  padder_ht :: nat
  padder_wd :: nat
  padder_pad :: "int list"

definition InputPadder_init :: "nat list \<Rightarrow> string \<Rightarrow> error + InputPadder" where
  "InputPadder_init dims mode =
     (case rev dims of
        wd # ht # _ \<Rightarrow>
          let pad_ht = (((int ht div 8) + 1) * 8 - int ht) mod 8;
              pad_wd = (((int wd div 8) + 1) * 8 - int wd) mod 8 in
          Inr \<lparr>padder_ht = ht, padder_wd = wd,
               padder_pad =
                 (if mode = ''sintel''
                  then [pad_wd div 2, pad_wd - pad_wd div 2, pad_ht div 2, pad_ht - pad_ht div 2]
                  else if mode = ''kitti400'' then [0, 0, 0, 400 - int ht]
                  else [pad_wd div 2, pad_wd - pad_wd div 2, 0, pad_ht])\<rparr>
      | _ \<Rightarrow> Inl ValueError)"

fun sequence :: "(error + 'a) list \<Rightarrow> error + 'a list" where
  "sequence [] = Inr []"
| "sequence (m # ms) = rbind m (\<lambda>x. rbind (sequence ms) (\<lambda>xs. Inr (x # xs)))"

definition pad :: "InputPadder \<Rightarrow> 'a::zero tensor list \<Rightarrow> error + 'a tensor list" where
  "pad p inputs =
     (if sum_list (padder_pad p) = 0 then Inr inputs
      else sequence (map (\<lambda>x. F_pad x (padder_pad p) ''replicate'') inputs))"

definition unpad :: "InputPadder \<Rightarrow> 'a tensor \<Rightarrow> error + 'a tensor" where
  "unpad p x =
     (case rev (shape x) of
        wd # ht # _ \<Rightarrow>
          let c = [padder_pad p ! 2, int ht - padder_pad p ! 3,
                   padder_pad p ! 0, int wd - padder_pad p ! 1] in
          slice_last2 x (c ! 0) (c ! 1) (c ! 2) (c ! 3)
      | _ \<Rightarrow> Inl ValueError)"


section \<open>Samplers\<close>

text \<open>
  \<^verbatim>\<open>bilinear_sampler\<close> writes into its argument, so tensors live in a store and
  the functions take and return references. \<^verbatim>\<open>F.grid_sample\<close> is a library
  function: it is a parameter \<open>grid_sample mode img grid\<close> of the model. A function
  returns its result, or the exception it raised, together with the store it leaves.
\<close>

text \<open>
  The coordinates are floating-point numbers, and the samplers divide them by
  \<open>W - 1\<close> and \<open>H - 1\<close>, which are zero for an image of width or height one:
  the division then gives an infinity or a NaN and raises nothing. A value is therefore
  a real number (finite values are neither rounded nor overflow) or one of the three
  special values.
\<close>

datatype float_val = Finite real | PInf | NInf | NaN

text \<open>\<^verbatim>\<open>c * v\<close> for a Python number \<open>c\<close>.\<close>

fun scalar_mul :: "real \<Rightarrow> float_val \<Rightarrow> float_val" where
  "scalar_mul c (Finite x) = Finite (c * x)"
| "scalar_mul c PInf = (if 0 < c then PInf else if c < 0 then NInf else NaN)"
| "scalar_mul c NInf = (if 0 < c then NInf else if c < 0 then PInf else NaN)"
| "scalar_mul c NaN = NaN"

text \<open>\<^verbatim>\<open>v / d\<close> for a Python integer \<open>d\<close>; a division by zero raises nothing.\<close>

fun scalar_div :: "float_val \<Rightarrow> int \<Rightarrow> float_val" where
  "scalar_div (Finite x) d =
     (if d \<noteq> 0 then Finite (x / real_of_int d)
      else if 0 < x then PInf else if x < 0 then NInf else NaN)"
| "scalar_div PInf d = (if 0 \<le> d then PInf else NInf)"
| "scalar_div NInf d = (if 0 \<le> d then NInf else PInf)"
| "scalar_div NaN d = NaN"

text \<open>\<^verbatim>\<open>v - c\<close> for a Python number \<open>c\<close>.\<close>

fun scalar_sub :: "float_val \<Rightarrow> real \<Rightarrow> float_val" where
  "scalar_sub (Finite x) c = Finite (x - c)"
| "scalar_sub PInf c = PInf"
| "scalar_sub NInf c = NInf"
| "scalar_sub NaN c = NaN"

text \<open>\<^verbatim>\<open>v > c\<close> and \<^verbatim>\<open>v < c\<close>; every comparison with a NaN is false.\<close>

fun float_gt :: "float_val \<Rightarrow> real \<Rightarrow> bool" where
  "float_gt (Finite x) c = (c < x)"
| "float_gt PInf c = True"
| "float_gt NInf c = False"
| "float_gt NaN c = False"

fun float_lt :: "float_val \<Rightarrow> real \<Rightarrow> bool" where
  "float_lt (Finite x) c = (x < c)"
| "float_lt PInf c = False"
| "float_lt NInf c = True"
| "float_lt NaN c = False"

type_synonym store = "nat \<Rightarrow> float_val tensor"

text \<open>\<^verbatim>\<open>t[..., k]\<close> and the assignment \<^verbatim>\<open>t[..., k] = v\<close>.\<close>

definition select_last :: "'a tensor \<Rightarrow> nat \<Rightarrow> error + 'a tensor" where
  "select_last t k =
     (if shape t = [] \<or> last (shape t) \<le> k then Inl IndexError
      else Inr (tabulate (butlast (shape t)) (\<lambda>idx. tget t (idx @ [k]))))"

definition assign_last :: "'a tensor \<Rightarrow> nat \<Rightarrow> 'a tensor \<Rightarrow> error + 'a tensor" where
  "assign_last t k v =
     (if shape t = [] \<or> last (shape t) \<le> k then Inl IndexError
      else if shape v \<noteq> butlast (shape t) then Inl RuntimeError
      else Inr (tabulate (shape t)
             (\<lambda>idx. if last idx = k then tget v (butlast idx) else tget t idx)))"

text \<open>\<^verbatim>\<open>t.split([1, 1], dim=-1)\<close>.\<close>

definition split_1_1 :: "'a tensor \<Rightarrow> error + ('a tensor \<times> 'a tensor)" where
  "split_1_1 t =
     (if shape t = [] then Inl RuntimeError
      else if last (shape t) \<noteq> 2 then Inl RuntimeError
      else Inr (tabulate (butlast (shape t) @ [1]) (\<lambda>idx. tget t (butlast idx @ [0])),
                tabulate (butlast (shape t) @ [1]) (\<lambda>idx. tget t (butlast idx @ [1]))))"

text \<open>\<^verbatim>\<open>bilinear_sampler\<close> of \<^verbatim>\<open>utils.py\<close>.\<close>

definition bilinear_sampler ::
  "(string \<Rightarrow> float_val tensor \<Rightarrow> float_val tensor \<Rightarrow> error + float_val tensor) \<Rightarrow>
     store \<Rightarrow> nat \<Rightarrow> nat \<Rightarrow> (error + float_val tensor) \<times> store" where
  "bilinear_sampler grid_sample s img coords =
     (case rev (shape (s img)) of
        W # H # _ \<Rightarrow>
          (case select_last (s coords) 0 of
             Inl e \<Rightarrow> (Inl e, s)
           | Inr c0 \<Rightarrow>
          (case assign_last (s coords) 0
                  (map_t (\<lambda>x. scalar_sub (scalar_div (scalar_mul 2 x) (int W - 1)) 1) c0) of
             Inl e \<Rightarrow> (Inl e, s)
           | Inr coords1 \<Rightarrow>
          let s1 = s(coords := coords1) in
          (case select_last (s1 coords) 1 of
             Inl e \<Rightarrow> (Inl e, s1)
           | Inr c1 \<Rightarrow>
          (case assign_last (s1 coords) 1
                  (map_t (\<lambda>y. scalar_sub (scalar_div (scalar_mul 2 y) (int H - 1)) 1) c1) of
             Inl e \<Rightarrow> (Inl e, s1)
           | Inr coords2 \<Rightarrow>
          let s2 = s1(coords := coords2) in
          (grid_sample ''bilinear'' (s2 img) (s2 coords), s2)))))
      | _ \<Rightarrow> (Inl ValueError, s))"

text \<open>
  \<^verbatim>\<open>indexing\<close> of \<^verbatim>\<open>utils.py\<close>; with \<^verbatim>\<open>mask=True\<close> it also returns the
  mask as a tensor of zeros and ones.
\<close>

definition indexing ::
  "(string \<Rightarrow> float_val tensor \<Rightarrow> float_val tensor \<Rightarrow> error + float_val tensor) \<Rightarrow>
     store \<Rightarrow> nat \<Rightarrow> nat \<Rightarrow> bool \<Rightarrow>
     (error + float_val tensor \<times> float_val tensor option) \<times> store" where
  "indexing grid_sample s img coords want_mask =
     (case rev (shape (s img)) of
        W # H # _ \<Rightarrow>
          (case split_1_1 (s coords) of
             Inl e \<Rightarrow> (Inl e, s)
           | Inr (xgrid0, ygrid0) \<Rightarrow>
          let xgrid = map_t (\<lambda>x. scalar_sub (scalar_div (scalar_mul 2 x) (int W - 1)) 1) xgrid0;
              ygrid = map_t (\<lambda>y. scalar_sub (scalar_div (scalar_mul 2 y) (int H - 1)) 1) ygrid0 in
          (case torch_cat xgrid ygrid (- 1) of
             Inl e \<Rightarrow> (Inl e, s)
           | Inr grid \<Rightarrow>
          (case grid_sample ''nearest'' (s img) grid of
             Inl e \<Rightarrow> (Inl e, s)
           | Inr im \<Rightarrow>
          if want_mask
          then (Inr (im, Some \<lparr>shape = shape xgrid,
                   data = map2 (\<lambda>x y. if float_gt x (- 1) \<and> float_gt y (- 1) \<and>
                                          float_lt x 1 \<and> float_lt y 1
                                       then Finite 1 else Finite 0)
                            (data xgrid) (data ygrid)\<rparr>), s)
          else (Inr (im, None), s))))
      | _ \<Rightarrow> (Inl ValueError, s))"

section \<open>Library layers\<close>

text \<open>
  The layers of \<^verbatim>\<open>torch.nn\<close> and \<^verbatim>\<open>timm\<close> the sources build on. A module is
  a record of its hyperparameters and its learnable tensors. A constructor takes the
  values its parameters start from (the random initialiser, or a loaded checkpoint) as
  a function \<open>\<theta>\<close> from the parameter's name and a position to a number; a submodule
  reads its values under its own name.
\<close>

type_synonym init_values = "string \<Rightarrow> nat \<Rightarrow> real"

definition sub :: "init_values \<Rightarrow> string \<Rightarrow> init_values" where
  "sub \<theta> name = (\<lambda>n. \<theta> (name @ ''.'' @ n))"

definition new_param :: "init_values \<Rightarrow> string \<Rightarrow> nat list \<Rightarrow> real tensor" where
  "new_param \<theta> name s = \<lparr>shape = s, data = map (\<theta> name) [0..<prod_list s]\<rparr>"

subsection \<open>\<^verbatim>\<open>nn.Linear\<close>\<close>

record Linear =
  in_features :: nat
  out_features :: nat
  lin_weight :: "real tensor"
  lin_bias :: "real tensor"

definition nn_Linear :: "init_values \<Rightarrow> nat \<Rightarrow> nat \<Rightarrow> Linear" where
  "nn_Linear \<theta> n_in n_out =
     \<lparr>in_features = n_in, out_features = n_out,
      lin_weight = new_param \<theta> ''weight'' [n_out, n_in],
      lin_bias = new_param \<theta> ''bias'' [n_out]\<rparr>"

definition Linear_forward :: "Linear \<Rightarrow> real tensor \<Rightarrow> error + real tensor" where
  "Linear_forward l x =
     (if shape x = [] \<or> last (shape x) \<noteq> in_features l then Inl RuntimeError
      else Inr (tabulate (butlast (shape x) @ [out_features l])
             (\<lambda>idx. (\<Sum>i\<leftarrow>[0..<in_features l].
                        tget x (butlast idx @ [i]) * tget (lin_weight l) [last idx, i])
                     + tget (lin_bias l) [last idx])))"

subsection \<open>\<^verbatim>\<open>nn.LayerNorm\<close> over the last axis\<close>

record LayerNorm =
  normalized_shape :: nat
  ln_weight :: "real tensor"
  ln_bias :: "real tensor"
  ln_eps :: real

definition nn_LayerNorm :: "init_values \<Rightarrow> nat \<Rightarrow> LayerNorm" where
  "nn_LayerNorm \<theta> n =
     \<lparr>normalized_shape = n, ln_weight = new_param \<theta> ''weight'' [n],
      ln_bias = new_param \<theta> ''bias'' [n], ln_eps = 1 / 100000\<rparr>"

definition LayerNorm_forward :: "LayerNorm \<Rightarrow> real tensor \<Rightarrow> error + real tensor" where
  "LayerNorm_forward l x =
     (if shape x = [] \<or> last (shape x) \<noteq> normalized_shape l then Inl RuntimeError
      else Inr (tabulate (shape x)
             (\<lambda>idx.
                let n = normalized_shape l;
                    row = map (\<lambda>j. tget x (butlast idx @ [j])) [0..<n];
                    mean = sum_list row / real n;
                    var = (\<Sum>v\<leftarrow>row. (v - mean)\<^sup>2) / real n in
                (tget x idx - mean) / sqrt (var + ln_eps l) * tget (ln_weight l) [last idx]
                  + tget (ln_bias l) [last idx])))"

subsection \<open>\<^verbatim>\<open>nn.Conv2d\<close> on a batch of images\<close>

record Conv2d =
  in_channels :: nat
  out_channels :: nat
  kernel_size :: nat
  stride :: nat
  padding :: nat
  conv_weight :: "real tensor"
  conv_bias :: "real tensor option"

definition nn_Conv2d :: "init_values \<Rightarrow> nat \<Rightarrow> nat \<Rightarrow> nat \<Rightarrow> nat \<Rightarrow> nat \<Rightarrow> bool \<Rightarrow> Conv2d" where
  "nn_Conv2d \<theta> n_in n_out k s p with_bias =
     \<lparr>in_channels = n_in, out_channels = n_out, kernel_size = k, stride = s, padding = p,
      conv_weight = new_param \<theta> ''weight'' [n_out, n_in, k, k],
      conv_bias = (if with_bias then Some (new_param \<theta> ''bias'' [n_out]) else None)\<rparr>"

text \<open>
  The convolution raises \<^verbatim>\<open>RuntimeError\<close> on a weight with no output channel, on a
  stride of zero, on an input whose channel count is not the layer's, and on a kernel
  larger than the padded input.
\<close>

definition Conv2d_forward :: "Conv2d \<Rightarrow> real tensor \<Rightarrow> error + real tensor" where
  "Conv2d_forward c x =
     (case shape x of
        [B, C, H, W] \<Rightarrow>
          let k = kernel_size c; s = stride c; p = padding c in
          if out_channels c = 0 \<or> s = 0 \<or> C \<noteq> in_channels c \<or> H + 2 * p < k \<or> W + 2 * p < k
          then Inl RuntimeError
          else Inr (tabulate [B, out_channels c, (H + 2 * p - k) div s + 1, (W + 2 * p - k) div s + 1]
                 (\<lambda>idx.
                    (case conv_bias c of None \<Rightarrow> 0 | Some b \<Rightarrow> tget b [idx ! 1]) +
                    (\<Sum>ci\<leftarrow>[0..<C]. \<Sum>kr\<leftarrow>[0..<k]. \<Sum>kc\<leftarrow>[0..<k].
                       let r = int (idx ! 2 * s + kr) - int p;
                           q = int (idx ! 3 * s + kc) - int p in
                       if 0 \<le> r \<and> r < int H \<and> 0 \<le> q \<and> q < int W
                       then tget (conv_weight c) [idx ! 1, ci, kr, kc] * tget x [idx ! 0, ci, nat r, nat q]
                       else 0)))
      | _ \<Rightarrow> Inl RuntimeError)"

subsection \<open>Activations, dropout, \<^verbatim>\<open>timm\<close>'s MLP\<close>

definition ReLU :: "real tensor \<Rightarrow> real tensor" where
  "ReLU x = map_t (\<lambda>v. max 0 v) x"

definition erf :: "real \<Rightarrow> real" where
  "erf x = 2 / sqrt pi * (\<Sum>n. (- 1) ^ n * x ^ (2 * n + 1) / (fact n * real (2 * n + 1)))"

definition GELU :: "real tensor \<Rightarrow> real tensor" where
  "GELU x = map_t (\<lambda>v. v * (1 + erf (v / sqrt 2)) / 2) x"

text \<open>
  \<^verbatim>\<open>nn.Dropout(p)\<close> and \<^verbatim>\<open>DropPath\<close> draw random masks while training; in
  evaluation mode, and whenever \<open>p = 0\<close>, they are the identity, which is what is
  modelled.
\<close>

definition Dropout :: "real \<Rightarrow> real tensor \<Rightarrow> real tensor" where
  "Dropout p x = x"

definition DropPath :: "real \<Rightarrow> real tensor \<Rightarrow> real tensor" where
  "DropPath p x = x"

record Mlp =
  fc1 :: Linear
  fc2 :: Linear
  mlp_drop :: real

definition timm_Mlp :: "init_values \<Rightarrow> nat \<Rightarrow> nat \<Rightarrow> real \<Rightarrow> Mlp" where
  "timm_Mlp \<theta> n_in n_hidden drop_p =
     \<lparr>fc1 = nn_Linear (sub \<theta> ''fc1'') n_in n_hidden,
      fc2 = nn_Linear (sub \<theta> ''fc2'') n_hidden n_in, mlp_drop = drop_p\<rparr>"

definition Mlp_forward :: "Mlp \<Rightarrow> real tensor \<Rightarrow> error + real tensor" where
  "Mlp_forward m x =
     rbind (Linear_forward (fc1 m) x) (\<lambda>x.
     rbind (Linear_forward (fc2 m) (Dropout (mlp_drop m) (GELU x))) (\<lambda>x.
     Inr (Dropout (mlp_drop m) x)))"

section \<open>The coordinate grid\<close>

text \<open>
  In the model every tensor lives on one device and has one element type; they only
  matter as arguments of calls.
\<close>

datatype device = CPU

datatype dtype = Float32

definition device_of :: "'a tensor \<Rightarrow> device" where
  "device_of t = CPU"

definition dtype_of :: "'a tensor \<Rightarrow> dtype" where
  "dtype_of t = Float32"

text \<open>
  \<^verbatim>\<open>coords_grid(batch, ht, wd, device)\<close> of \<^verbatim>\<open>utils.py\<close>: channel 0 holds
  the column of a pixel, channel 1 its row.
\<close>

definition arange :: "nat \<Rightarrow> real tensor" where
  "arange n = \<lparr>shape = [n], data = map real [0..<n]\<rparr>"

definition meshgrid_ij :: "'a tensor \<Rightarrow> 'a tensor \<Rightarrow> 'a tensor \<times> 'a tensor" where
  "meshgrid_ij a b =
     (tabulate [length (data a), length (data b)] (\<lambda>idx. data a ! (idx ! 0)),
      tabulate [length (data a), length (data b)] (\<lambda>idx. data b ! (idx ! 1)))"

definition stack0 :: "'a tensor \<Rightarrow> 'a tensor \<Rightarrow> 'a tensor" where
  "stack0 a b = \<lparr>shape = 2 # shape a, data = data a @ data b\<rparr>"

definition unsqueeze0 :: "'a tensor \<Rightarrow> 'a tensor" where
  "unsqueeze0 t = t\<lparr>shape := 1 # shape t\<rparr>"

definition coords_grid :: "nat \<Rightarrow> nat \<Rightarrow> nat \<Rightarrow> device \<Rightarrow> error + real tensor" where
  "coords_grid batch ht wd dev =
     (let coords = meshgrid_ij (arange ht) (arange wd);
          coords = stack0 (snd coords) (fst coords) in
      repeat_t [batch, 1, 1, 1] (unsqueeze0 coords))"

text \<open>
  A call with positional arguments binds them to the parameters in order; Python
  raises \<^verbatim>\<open>TypeError\<close> when their number is not the number of parameters.
  \<^verbatim>\<open>coords_grid\<close> has four.
\<close>

datatype pyarg = IntArg nat | DeviceArg device | DtypeArg dtype

definition call_coords_grid :: "pyarg list \<Rightarrow> error + real tensor" where
  "call_coords_grid args =
     (case args of
        [IntArg batch, IntArg ht, IntArg wd, DeviceArg dev] \<Rightarrow> coords_grid batch ht wd dev
      | _ \<Rightarrow> Inl TypeError)"

section \<open>The attention module\<close>

text \<open>
  Modelled from the spec: the module \<^verbatim>\<open>attention.py\<close>, which defines
  \<^verbatim>\<open>MultiHeadAttention\<close>, \<^verbatim>\<open>BroadMultiHeadAttention\<close> and
  \<^verbatim>\<open>LinearPositionEmbeddingSine\<close>, is not among the sources. The specification
  describes the attention as standard scaled dot-product attention over \<open>heads\<close>
  groups of channels: the weights are the dot products of query and key, scaled by
  \<open>1 / sqrt head_dim\<close> and softmaxed over the keys, and are applied to the values.
  The broadcasting variant takes one bank of queries for the whole batch. The
  positional encoding is described only as sinusoidal, so it is a parameter
  \<open>pos\<close> of the functions that call it.
\<close>

definition scaled_dot_product :: "bool \<Rightarrow> nat \<Rightarrow> nat \<Rightarrow> real tensor \<Rightarrow> real tensor \<Rightarrow> real tensor \<Rightarrow> error + real tensor" where
  "scaled_dot_product broad n_dim heads Q K V =
     (case (shape Q, shape K, shape V) of
        ([Bq, N, dq], [B, M, dk], [Bv, Mv, dv]) \<Rightarrow>
          if heads = 0 then Inl ZeroDivisionError
          else if dq \<noteq> n_dim \<or> dk \<noteq> n_dim \<or> Bv \<noteq> B \<or> Mv \<noteq> M
                  \<or> n_dim mod heads \<noteq> 0 \<or> dv mod heads \<noteq> 0
                  \<or> (if broad then Bq \<noteq> 1 else Bq \<noteq> B)
          then Inl RuntimeError
          else Inr (tabulate [B, N, dv]
                 (\<lambda>idx.
                    let b = idx ! 0; i = idx ! 1; c = idx ! 2;
                        d = n_dim div heads; h = c div (dv div heads);
                        score = (\<lambda>j. (\<Sum>m\<leftarrow>[0..<d].
                                   tget Q [if broad then 0 else b, i, h * d + m] * tget K [b, j, h * d + m])
                                 / sqrt (real d)) in
                    \<Sum>j\<leftarrow>[0..<M]. exp (score j) / (\<Sum>j'\<leftarrow>[0..<M]. exp (score j')) * tget V [b, j, c]))
      | _ \<Rightarrow> Inl RuntimeError)"

definition MultiHeadAttention :: "nat \<Rightarrow> nat \<Rightarrow> real tensor \<Rightarrow> real tensor \<Rightarrow> real tensor \<Rightarrow> error + real tensor" where
  "MultiHeadAttention n_dim heads Q K V = scaled_dot_product False n_dim heads Q K V"

definition BroadMultiHeadAttention :: "nat \<Rightarrow> nat \<Rightarrow> real tensor \<Rightarrow> real tensor \<Rightarrow> real tensor \<Rightarrow> error + real tensor" where
  "BroadMultiHeadAttention n_dim heads Q K V = scaled_dot_product True n_dim heads Q K V"


section \<open>The spatial attention blocks of \<^verbatim>\<open>twins.py\<close>\<close>

text \<open>The decimal digits of a number, for the messages of the assertions.\<close>

fun str_nat :: "nat \<Rightarrow> string" where
  "str_nat n = (if n < 10 then [char_of (48 + n)] else str_nat (n div 10) @ [char_of (48 + n mod 10)])"

declare str_nat.simps [simp del]

definition head_msg :: "nat \<Rightarrow> nat \<Rightarrow> string" where
  "head_msg n_dim num_heads =
     ''dim '' @ str_nat n_dim @ '' should be divided by num_heads '' @ str_nat num_heads @ ''.''"

text \<open>
  The checks every attention constructor starts with:
  \<^verbatim>\<open>assert dim % num_heads == 0, f"dim {dim} should be divided by num_heads {num_heads}."\<close>,
  then \<^verbatim>\<open>head_dim = dim // num_heads\<close> and \<^verbatim>\<open>self.scale = head_dim ** -0.5\<close>.
  The remainder by zero heads and the negative power of a zero \<^verbatim>\<open>head_dim\<close>
  raise \<^verbatim>\<open>ZeroDivisionError\<close>. The result is the scale.
\<close>

definition head_scale :: "nat \<Rightarrow> nat \<Rightarrow> error + real" where
  "head_scale n_dim num_heads =
     rbind (floordiv n_dim num_heads) (\<lambda>head_dim.
       if head_dim = 0 then Inl ZeroDivisionError else Inr (1 / sqrt (real head_dim)))"

definition assert_heads :: "nat \<Rightarrow> nat \<Rightarrow> error + unit" where
  "assert_heads n_dim num_heads =
     rbind (pymod n_dim num_heads) (\<lambda>r.
       if r = 0 then Inr () else Inl (AssertionError (head_msg n_dim num_heads)))"

subsection \<open>\<^verbatim>\<open>LocallyGroupedAttnRPEContext\<close>\<close>

record LocallyGroupedAttnRPEContext =
  lg_dim :: nat
  lg_num_heads :: nat
  lg_scale :: real
  lg_vert_c_dim :: nat
  lg_context_proj :: Linear
  lg_q :: Linear
  lg_k :: Linear
  lg_v :: Linear
  lg_attn_drop :: real
  lg_proj :: Linear
  lg_proj_drop :: real
  lg_ws :: nat

definition LocallyGroupedAttnRPEContext_init ::
  "init_values \<Rightarrow> nat \<Rightarrow> nat \<Rightarrow> real \<Rightarrow> real \<Rightarrow> nat \<Rightarrow> nat \<Rightarrow> error + LocallyGroupedAttnRPEContext" where
  "LocallyGroupedAttnRPEContext_init \<theta> n_dim num_heads attn_drop proj_drop ws vert_c_dim =
     (if ws = 1 then Inl (AssertionError [])
      else
        rbind (assert_heads n_dim num_heads) (\<lambda>_.
        rbind (head_scale n_dim num_heads) (\<lambda>sc.
        Inr \<lparr>lg_dim = n_dim, lg_num_heads = num_heads, lg_scale = sc,
             lg_vert_c_dim = vert_c_dim,
             lg_context_proj = nn_Linear (sub \<theta> ''context_proj'') 256 vert_c_dim,
             lg_q = nn_Linear (sub \<theta> ''q'') (n_dim + vert_c_dim) n_dim,
             lg_k = nn_Linear (sub \<theta> ''k'') (n_dim + vert_c_dim) n_dim,
             lg_v = nn_Linear (sub \<theta> ''v'') n_dim n_dim,
             lg_attn_drop = attn_drop,
             lg_proj = nn_Linear (sub \<theta> ''proj'') n_dim n_dim,
             lg_proj_drop = proj_drop, lg_ws = ws\<rparr>)))"

text \<open>
  The statements shared by both forward functions: the context, tiled to the batch
  and projected, is laid out on the grid and concatenated to the tokens. A context of
  \<^verbatim>\<open>None\<close> has no \<^verbatim>\<open>shape\<close>.
\<close>

definition attach_context ::
  "Linear \<Rightarrow> real tensor \<Rightarrow> nat \<Rightarrow> nat \<Rightarrow> nat \<Rightarrow> nat \<Rightarrow> real tensor option \<Rightarrow>
     error + real tensor \<times> real tensor" where
  "attach_context context_proj x B H W C context =
     (case context of
        None \<Rightarrow> Inl AttributeError
      | Some context \<Rightarrow>
          (case shape context of
             [] \<Rightarrow> Inl IndexError
           | c0 # _ \<Rightarrow>
               rbind (floordiv B c0) (\<lambda>reps.
               rbind (repeat_t [reps, 1, 1, 1] context) (\<lambda>context.
               rbind (view_i [int B, - 1, int (H * W)] context) (\<lambda>context.
               rbind (permute [0, 2, 1] context) (\<lambda>context.
               rbind (Linear_forward context_proj context) (\<lambda>context.
               rbind (view_i [int B, int H, int W, - 1] context) (\<lambda>context.
               rbind (view [B, H, W, C] x) (\<lambda>x.
               rbind (torch_cat x context (- 1)) (\<lambda>x_qk.
               Inr (x, x_qk)))))))))))"

text \<open>
  \<^verbatim>\<open>self.q(x_qk).reshape(B, _h * _w, ws * ws, 1, num_heads, C // num_heads).permute(3, 0, 1, 4, 2, 5)[0]\<close>
\<close>

definition window_heads ::
  "Linear \<Rightarrow> real tensor \<Rightarrow> nat \<Rightarrow> nat \<Rightarrow> nat \<Rightarrow> nat \<Rightarrow> nat \<Rightarrow> error + real tensor" where
  "window_heads lin x B n_windows n_ws num_heads C =
     rbind (Linear_forward lin x) (\<lambda>y.
     rbind (floordiv C num_heads) (\<lambda>hd.
     rbind (reshape [B, n_windows, n_ws, 1, num_heads, hd] y) (\<lambda>y.
     rbind (permute [3, 0, 1, 4, 2, 5] y) (\<lambda>y.
     select0 y))))"

definition LocallyGroupedAttnRPEContext_forward ::
  "(real tensor \<Rightarrow> nat \<Rightarrow> error + real tensor) \<Rightarrow> LocallyGroupedAttnRPEContext \<Rightarrow>
     real tensor \<Rightarrow> nat \<times> nat \<Rightarrow> real tensor option \<Rightarrow> error + real tensor" where
  "LocallyGroupedAttnRPEContext_forward pos self x sz context =
     (case shape x of
        [B, N, C] \<Rightarrow>
          (case sz of (H, W) \<Rightarrow>
          let C_qk = C + lg_vert_c_dim self; ws = lg_ws self in
          rbind (attach_context (lg_context_proj self) x B H W C context) (\<lambda>(x, x_qk).
          rbind (pymod W ws) (\<lambda>wr.
          rbind (pymod H ws) (\<lambda>hr.
          let pad_l = 0; pad_t = 0; pad_r = (ws - wr) mod ws; pad_b = (ws - hr) mod ws in
          rbind (F_pad x [0, 0, pad_l, int pad_r, pad_t, int pad_b] ''constant'') (\<lambda>x.
          rbind (F_pad x_qk [0, 0, pad_l, int pad_r, pad_t, int pad_b] ''constant'') (\<lambda>x_qk.
          (case shape x of
             [_, Hp, Wp, _] \<Rightarrow>
               let h' = Hp div ws; w' = Wp div ws in
               rbind (reshape [B, h', ws, w', ws, C] x) (\<lambda>x.
               rbind (transpose_t 2 3 x) (\<lambda>x.
               rbind (reshape [B, h', ws, w', ws, C_qk] x_qk) (\<lambda>x_qk.
               rbind (transpose_t 2 3 x_qk) (\<lambda>x_qk.
               rbind (window_heads (lg_v self) x B (h' * w') (ws * ws) (lg_num_heads self) C) (\<lambda>v.
               rbind (call_coords_grid
                        [IntArg B, IntArg ws, IntArg ws, DeviceArg (device_of x), DtypeArg (dtype_of x)])
                 (\<lambda>coords.
               rbind (view_i [int B, 2, - 1] coords) (\<lambda>coords.
               rbind (permute [0, 2, 1] coords) (\<lambda>coords.
               rbind (pos coords C_qk) (\<lambda>coords_enc.
               rbind (view [B, ws, ws, C_qk] coords_enc) (\<lambda>coords_enc.
               rbind (view [B, 1, 1, ws, ws, C_qk] coords_enc) (\<lambda>coords_enc.
               rbind (add_t x_qk coords_enc) (\<lambda>x_qk.
               rbind (window_heads (lg_q self) x_qk B (h' * w') (ws * ws) (lg_num_heads self) C) (\<lambda>q.
               rbind (window_heads (lg_k self) x_qk B (h' * w') (ws * ws) (lg_num_heads self) C) (\<lambda>k.
               rbind (transpose_i (- 2) (- 1) k) (\<lambda>kt.
               rbind (matmul q kt) (\<lambda>attn.
               let attn = map_t (\<lambda>a. a * lg_scale self) attn;
                   attn = softmax_last attn;
                   attn = Dropout (lg_attn_drop self) attn in
               rbind (matmul attn v) (\<lambda>attn.
               rbind (transpose_t 2 3 attn) (\<lambda>attn.
               rbind (reshape [B, h', w', ws, ws, C] attn) (\<lambda>attn.
               rbind (transpose_t 2 3 attn) (\<lambda>x.
               rbind (reshape [B, h' * ws, w' * ws, C] x) (\<lambda>x.
               rbind (if pad_r > 0 \<or> pad_b > 0
                      then slice_upto [None, Some H, Some W, None] x else Inr x) (\<lambda>x.
               rbind (reshape [B, N, C] x) (\<lambda>x.
               rbind (Linear_forward (lg_proj self) x) (\<lambda>x.
               Inr (Dropout (lg_proj_drop self) x)))))))))))))))))))))))))
           | _ \<Rightarrow> Inl ValueError)))))))
      | _ \<Rightarrow> Inl ValueError)"

subsection \<open>\<^verbatim>\<open>GlobalSubSampleAttnRPEContext\<close>\<close>

text \<open>
  The constructor sets \<^verbatim>\<open>sr_key\<close>, \<^verbatim>\<open>sr_value\<close> and \<^verbatim>\<open>norm\<close> only when
  \<^verbatim>\<open>sr_ratio > 1\<close>; otherwise it sets \<^verbatim>\<open>sr\<close> and \<^verbatim>\<open>norm\<close> to
  \<^verbatim>\<open>None\<close>. An attribute that was never set is \<open>Unset\<close>: reading it raises
  \<^verbatim>\<open>AttributeError\<close>.
\<close>

datatype 'a attr = Unset | IsNone | Module 'a

record GlobalSubSampleAttnRPEContext =
  gs_dim :: nat
  gs_num_heads :: nat
  gs_scale :: real
  gs_vert_c_dim :: nat
  gs_context_proj :: Linear
  gs_q :: Linear
  gs_k :: Linear
  gs_v :: Linear
  gs_attn_drop :: real
  gs_proj :: Linear
  gs_proj_drop :: real
  gs_sr_ratio :: nat
  gs_sr_key :: "Conv2d attr"
  gs_sr_value :: "Conv2d attr"
  gs_norm :: "LayerNorm attr"
  gs_sr :: "unit attr"

definition GlobalSubSampleAttnRPEContext_init ::
  "init_values \<Rightarrow> nat \<Rightarrow> nat \<Rightarrow> real \<Rightarrow> real \<Rightarrow> nat \<Rightarrow> nat \<Rightarrow> error + GlobalSubSampleAttnRPEContext" where
  "GlobalSubSampleAttnRPEContext_init \<theta> n_dim num_heads attn_drop proj_drop sr_ratio vert_c_dim =
     rbind (assert_heads n_dim num_heads) (\<lambda>_.
     rbind (head_scale n_dim num_heads) (\<lambda>sc.
     Inr \<lparr>gs_dim = n_dim, gs_num_heads = num_heads, gs_scale = sc,
          gs_vert_c_dim = vert_c_dim,
          gs_context_proj = nn_Linear (sub \<theta> ''context_proj'') 256 vert_c_dim,
          gs_q = nn_Linear (sub \<theta> ''q'') (n_dim + vert_c_dim) n_dim,
          gs_k = nn_Linear (sub \<theta> ''k'') n_dim n_dim,
          gs_v = nn_Linear (sub \<theta> ''v'') n_dim n_dim,
          gs_attn_drop = attn_drop,
          gs_proj = nn_Linear (sub \<theta> ''proj'') n_dim n_dim,
          gs_proj_drop = proj_drop,
          gs_sr_ratio = sr_ratio,
          gs_sr_key = (if sr_ratio > 1
             then Module (nn_Conv2d (sub \<theta> ''sr_key'') (n_dim + vert_c_dim) n_dim sr_ratio sr_ratio 0 True)
             else Unset),
          gs_sr_value = (if sr_ratio > 1
             then Module (nn_Conv2d (sub \<theta> ''sr_value'') n_dim n_dim sr_ratio sr_ratio 0 True)
             else Unset),
          gs_norm = (if sr_ratio > 1 then Module (nn_LayerNorm (sub \<theta> ''norm'') n_dim) else IsNone),
          gs_sr = (if sr_ratio > 1 then Unset else IsNone)\<rparr>))"

text \<open>Calling an attribute: only a module can be called.\<close>

definition call_attr :: "('m \<Rightarrow> real tensor \<Rightarrow> error + real tensor) \<Rightarrow> 'm attr \<Rightarrow> real tensor \<Rightarrow> error + real tensor" where
  "call_attr f a x = (case a of Unset \<Rightarrow> Inl AttributeError | IsNone \<Rightarrow> Inl TypeError | Module m \<Rightarrow> f m x)"

text \<open>
  The branch \<^verbatim>\<open>if self.sr_key is not None:\<close> of the forward function: the strided
  convolutions that summarise keys and values.
\<close>

definition subsample ::
  "GlobalSubSampleAttnRPEContext \<Rightarrow> real tensor \<Rightarrow> real tensor \<Rightarrow> nat \<Rightarrow> nat \<Rightarrow> nat \<Rightarrow> nat \<Rightarrow> nat \<Rightarrow>
     error + real tensor \<times> real tensor" where
  "subsample self x x_qk B C C_qk Hp Wp =
     (case gs_sr_key self of
        Unset \<Rightarrow> Inl AttributeError
      | IsNone \<Rightarrow> Inr (x, x_qk)
      | Module _ \<Rightarrow>
          rbind (permute [0, 2, 1] x) (\<lambda>x.
          rbind (reshape [B, C, Hp, Wp] x) (\<lambda>x.
          rbind (permute [0, 2, 1] x_qk) (\<lambda>x_qk.
          rbind (reshape [B, C_qk, Hp, Wp] x_qk) (\<lambda>x_qk.
          rbind (call_attr Conv2d_forward (gs_sr_value self) x) (\<lambda>x.
          rbind (reshape_i [int B, int C, - 1] x) (\<lambda>x.
          rbind (permute [0, 2, 1] x) (\<lambda>x.
          rbind (call_attr Conv2d_forward (gs_sr_key self) x_qk) (\<lambda>x_qk.
          rbind (reshape_i [int B, int C, - 1] x_qk) (\<lambda>x_qk.
          rbind (permute [0, 2, 1] x_qk) (\<lambda>x_qk.
          rbind (call_attr LayerNorm_forward (gs_norm self) x) (\<lambda>x.
          rbind (call_attr LayerNorm_forward (gs_norm self) x_qk) (\<lambda>x_qk.
          Inr (x, x_qk))))))))))))))"

definition GlobalSubSampleAttnRPEContext_forward ::
  "(real tensor \<Rightarrow> nat \<Rightarrow> error + real tensor) \<Rightarrow> GlobalSubSampleAttnRPEContext \<Rightarrow>
     real tensor \<Rightarrow> nat \<times> nat \<Rightarrow> real tensor option \<Rightarrow> error + real tensor" where
  "GlobalSubSampleAttnRPEContext_forward pos self x sz context =
     (case shape x of
        [B, N, C] \<Rightarrow>
          let C_qk = C + gs_vert_c_dim self; sr = gs_sr_ratio self in
          (case sz of (H, W) \<Rightarrow>
          rbind (attach_context (gs_context_proj self) x B H W C context) (\<lambda>(x, x_qk).
          rbind (pymod W sr) (\<lambda>wr.
          rbind (pymod H sr) (\<lambda>hr.
          let pad_l = 0; pad_t = 0; pad_r = (sr - wr) mod sr; pad_b = (sr - hr) mod sr in
          rbind (F_pad x [0, 0, pad_l, int pad_r, pad_t, int pad_b] ''constant'') (\<lambda>x.
          rbind (F_pad x_qk [0, 0, pad_l, int pad_r, pad_t, int pad_b] ''constant'') (\<lambda>x_qk.
          (case shape x of
             [_, Hp, Wp, _] \<Rightarrow>
               let padded_N = Hp * Wp in
               rbind (view_i [int B, - 1, int C] x) (\<lambda>x.
               rbind (view_i [int B, - 1, int C_qk] x_qk) (\<lambda>x_qk.
               rbind (call_coords_grid
                        [IntArg B, IntArg Hp, IntArg Wp, DeviceArg (device_of x), DtypeArg (dtype_of x)])
                 (\<lambda>coords.
               rbind (view_i [int B, 2, - 1] coords) (\<lambda>coords.
               rbind (permute [0, 2, 1] coords) (\<lambda>coords.
               rbind (pos coords C_qk) (\<lambda>coords_enc.
               rbind (add_t x_qk coords_enc) (\<lambda>q_in.
               rbind (Linear_forward (gs_q self) q_in) (\<lambda>q.
               rbind (floordiv C (gs_num_heads self)) (\<lambda>hd.
               rbind (reshape [B, padded_N, gs_num_heads self, hd] q) (\<lambda>q.
               rbind (permute [0, 2, 1, 3] q) (\<lambda>q.
               rbind (subsample self x x_qk B C C_qk Hp Wp) (\<lambda>(x, x_qk).
               rbind (call_coords_grid
                        [IntArg B, IntArg (Hp div sr), IntArg (Wp div sr),
                         DeviceArg (device_of x), DtypeArg (dtype_of x)])
                 (\<lambda>coords.
               rbind (view_i [int B, 2, - 1] coords) (\<lambda>coords.
               rbind (permute [0, 2, 1] coords) (\<lambda>coords.
               let coords = map_t (\<lambda>c. c * real sr) coords in
               rbind (pos coords C) (\<lambda>coords_enc.
               rbind (add_t x_qk coords_enc) (\<lambda>k_in.
               rbind (Linear_forward (gs_k self) k_in) (\<lambda>k.
               rbind (reshape [B, (Hp div sr) * (Wp div sr), gs_num_heads self, hd] k) (\<lambda>k.
               rbind (permute [0, 2, 1, 3] k) (\<lambda>k.
               rbind (Linear_forward (gs_v self) x) (\<lambda>v.
               rbind (reshape [B, (Hp div sr) * (Wp div sr), gs_num_heads self, hd] v) (\<lambda>v.
               rbind (permute [0, 2, 1, 3] v) (\<lambda>v.
               rbind (transpose_i (- 2) (- 1) k) (\<lambda>kt.
               rbind (matmul q kt) (\<lambda>attn.
               let attn = map_t (\<lambda>a. a * gs_scale self) attn;
                   attn = softmax_last attn;
                   attn = Dropout (gs_attn_drop self) attn in
               rbind (matmul attn v) (\<lambda>x.
               rbind (transpose_t 1 2 x) (\<lambda>x.
               rbind (reshape [B, Hp, Wp, C] x) (\<lambda>x.
               rbind (if pad_r > 0 \<or> pad_b > 0
                      then slice_upto [None, Some H, Some W, None] x else Inr x) (\<lambda>x.
               rbind (reshape [B, N, C] x) (\<lambda>x.
               rbind (Linear_forward (gs_proj self) x) (\<lambda>x.
               Inr (Dropout (gs_proj_drop self) x))))))))))))))))))))))))))))))))
           | _ \<Rightarrow> Inl ValueError)))))))
      | _ \<Rightarrow> Inl ValueError)"

subsection \<open>\<^verbatim>\<open>Block\<close>\<close>

datatype spatial_attn =
    GSA GlobalSubSampleAttnRPEContext
  | LSA LocallyGroupedAttnRPEContext

record Block =
  blk_norm1 :: LayerNorm
  blk_attn :: spatial_attn
  blk_drop_path :: real
  blk_norm2 :: LayerNorm
  blk_mlp :: Mlp

definition Block_init ::
  "init_values \<Rightarrow> nat \<Rightarrow> nat \<Rightarrow> nat \<Rightarrow> real \<Rightarrow> real \<Rightarrow> real \<Rightarrow> nat \<Rightarrow> nat \<Rightarrow> nat \<Rightarrow> error + Block" where
  "Block_init \<theta> n_dim num_heads mlp_ratio drop_p attn_drop drop_path sr_ratio ws vert_c_dim =
     rbind (if ws = 1
            then rmap GSA (GlobalSubSampleAttnRPEContext_init (sub \<theta> ''attn'')
                             n_dim num_heads attn_drop drop_p sr_ratio vert_c_dim)
            else rmap LSA (LocallyGroupedAttnRPEContext_init (sub \<theta> ''attn'')
                             n_dim num_heads attn_drop drop_p ws vert_c_dim)) (\<lambda>attn.
     Inr \<lparr>blk_norm1 = nn_LayerNorm (sub \<theta> ''norm1'') n_dim,
          blk_attn = attn,
          blk_drop_path = (if drop_path > 0 then drop_path else 0),
          blk_norm2 = nn_LayerNorm (sub \<theta> ''norm2'') n_dim,
          blk_mlp = timm_Mlp (sub \<theta> ''mlp'') n_dim (n_dim * mlp_ratio) drop_p\<rparr>)"

definition attn_forward ::
  "(real tensor \<Rightarrow> nat \<Rightarrow> error + real tensor) \<Rightarrow> spatial_attn \<Rightarrow>
     real tensor \<Rightarrow> nat \<times> nat \<Rightarrow> real tensor option \<Rightarrow> error + real tensor" where
  "attn_forward pos a x sz context =
     (case a of
        GSA g \<Rightarrow> GlobalSubSampleAttnRPEContext_forward pos g x sz context
      | LSA l \<Rightarrow> LocallyGroupedAttnRPEContext_forward pos l x sz context)"

definition Block_forward ::
  "(real tensor \<Rightarrow> nat \<Rightarrow> error + real tensor) \<Rightarrow> Block \<Rightarrow>
     real tensor \<Rightarrow> nat \<times> nat \<Rightarrow> real tensor option \<Rightarrow> error + real tensor" where
  "Block_forward pos self x sz context =
     rbind (LayerNorm_forward (blk_norm1 self) x) (\<lambda>y.
     rbind (attn_forward pos (blk_attn self) y sz context) (\<lambda>y.
     rbind (add_t x (DropPath (blk_drop_path self) y)) (\<lambda>x.
     rbind (LayerNorm_forward (blk_norm2 self) x) (\<lambda>y.
     rbind (Mlp_forward (blk_mlp self) y) (\<lambda>y.
     add_t x (DropPath (blk_drop_path self) y))))))"


section \<open>The cost-volume encoder of \<^verbatim>\<open>encoder.py\<close>\<close>

subsection \<open>\<^verbatim>\<open>PatchEmbed\<close>\<close>

record PatchEmbed =
  pe_patch_size :: nat
  pe_dim :: nat
  pe_proj0 :: Conv2d
  pe_proj2 :: Conv2d
  pe_proj4 :: Conv2d
  pe_ffn0 :: Conv2d
  pe_ffn2 :: Conv2d
  pe_norm :: LayerNorm

definition PatchEmbed_init :: "init_values \<Rightarrow> nat \<Rightarrow> nat \<Rightarrow> PatchEmbed" where
  "PatchEmbed_init \<theta> in_chans embed_dim =
     \<lparr>pe_patch_size = 8, pe_dim = embed_dim,
      pe_proj0 = nn_Conv2d (sub \<theta> ''proj.0'') in_chans (embed_dim div 4) 6 2 2 True,
      pe_proj2 = nn_Conv2d (sub \<theta> ''proj.2'') (embed_dim div 4) (embed_dim div 2) 6 2 2 True,
      pe_proj4 = nn_Conv2d (sub \<theta> ''proj.4'') (embed_dim div 2) embed_dim 6 2 2 True,
      pe_ffn0 = nn_Conv2d (sub \<theta> ''ffn_with_coord.0'') (embed_dim * 2) (embed_dim * 2) 1 1 0 True,
      pe_ffn2 = nn_Conv2d (sub \<theta> ''ffn_with_coord.2'') (embed_dim * 2) (embed_dim * 2) 1 1 0 True,
      pe_norm = nn_LayerNorm (sub \<theta> ''norm'') (embed_dim * 2)\<rparr>"

text \<open>\<^verbatim>\<open>self.proj\<close> and \<^verbatim>\<open>self.ffn_with_coord\<close>, the two \<^verbatim>\<open>nn.Sequential\<close>s.\<close>

definition pe_proj :: "PatchEmbed \<Rightarrow> real tensor \<Rightarrow> error + real tensor" where
  "pe_proj self x =
     rbind (Conv2d_forward (pe_proj0 self) x) (\<lambda>x.
     rbind (Conv2d_forward (pe_proj2 self) (ReLU x)) (\<lambda>x.
     Conv2d_forward (pe_proj4 self) (ReLU x)))"

definition pe_ffn_with_coord :: "PatchEmbed \<Rightarrow> real tensor \<Rightarrow> error + real tensor" where
  "pe_ffn_with_coord self x =
     rbind (Conv2d_forward (pe_ffn0 self) x) (\<lambda>x.
     Conv2d_forward (pe_ffn2 self) (ReLU x))"

text \<open>\<^verbatim>\<open>t.flatten(k)\<close>: the axes from \<open>k\<close> on become one.\<close>

definition flatten_from :: "nat \<Rightarrow> 'a tensor \<Rightarrow> error + 'a tensor" where
  "flatten_from k t =
     (if length (shape t) \<le> k then Inl IndexError
      else Inr (t\<lparr>shape := take k (shape t) @ [prod_list (drop k (shape t))]\<rparr>))"

definition PatchEmbed_forward ::
  "(real tensor \<Rightarrow> nat \<Rightarrow> error + real tensor) \<Rightarrow> PatchEmbed \<Rightarrow> real tensor \<Rightarrow>
     error + real tensor \<times> nat list" where
  "PatchEmbed_forward pos self x =
     (case shape x of
        [B, C, H, W] \<Rightarrow>
          let ps = pe_patch_size self in
          rbind (pymod W ps) (\<lambda>wr.
          rbind (pymod H ps) (\<lambda>hr.
          let pad_l = 0; pad_t = 0; pad_r = (ps - wr) mod ps; pad_b = (ps - hr) mod ps in
          rbind (F_pad x [pad_l, int pad_r, pad_t, int pad_b] ''constant'') (\<lambda>x.
          rbind (pe_proj self x) (\<lambda>x.
          let out_size = drop 2 (shape x) in
          rbind (call_coords_grid
                   [IntArg B, IntArg (out_size ! 0), IntArg (out_size ! 1),
                    DeviceArg (device_of x), DtypeArg (dtype_of x)]) (\<lambda>patch_coord.
          let patch_coord = map_t (\<lambda>c. c * real ps + real ps / 2) patch_coord in
          rbind (view_i [int B, 2, - 1] patch_coord) (\<lambda>patch_coord.
          rbind (permute [0, 2, 1] patch_coord) (\<lambda>patch_coord.
          rbind (pos patch_coord (pe_dim self)) (\<lambda>patch_coord_enc.
          rbind (permute [0, 2, 1] patch_coord_enc) (\<lambda>patch_coord_enc.
          rbind (view_i [int B, - 1, int (out_size ! 0), int (out_size ! 1)] patch_coord_enc)
            (\<lambda>patch_coord_enc.
          rbind (torch_cat x patch_coord_enc 1) (\<lambda>x_pe.
          rbind (pe_ffn_with_coord self x_pe) (\<lambda>x.
          rbind (flatten_from 2 x) (\<lambda>x.
          rbind (transpose_t 1 2 x) (\<lambda>x.
          rbind (LayerNorm_forward (pe_norm self) x) (\<lambda>x.
          Inr (x, out_size))))))))))))))))
      | _ \<Rightarrow> Inl ValueError)"

subsection \<open>\<^verbatim>\<open>SelfAttentionLayer\<close>\<close>

record SelfAttentionLayer =
  sa_dim :: nat
  sa_num_heads :: nat
  sa_scale :: real
  sa_norm1 :: LayerNorm
  sa_norm2 :: LayerNorm
  sa_q :: Linear
  sa_k :: Linear
  sa_v :: Linear
  sa_proj :: Linear
  sa_proj_drop :: real
  sa_ffn0 :: Linear
  sa_ffn3 :: Linear
  sa_dropout :: real

definition SelfAttentionLayer_init ::
  "init_values \<Rightarrow> nat \<Rightarrow> nat \<Rightarrow> real \<Rightarrow> real \<Rightarrow> error + SelfAttentionLayer" where
  "SelfAttentionLayer_init \<theta> n_dim num_heads proj_drop dropout =
     rbind (assert_heads n_dim num_heads) (\<lambda>_.
     rbind (head_scale n_dim num_heads) (\<lambda>sc.
     Inr \<lparr>sa_dim = n_dim, sa_num_heads = num_heads, sa_scale = sc,
          sa_norm1 = nn_LayerNorm (sub \<theta> ''norm1'') n_dim,
          sa_norm2 = nn_LayerNorm (sub \<theta> ''norm2'') n_dim,
          sa_q = nn_Linear (sub \<theta> ''q'') n_dim n_dim,
          sa_k = nn_Linear (sub \<theta> ''k'') n_dim n_dim,
          sa_v = nn_Linear (sub \<theta> ''v'') n_dim n_dim,
          sa_proj = nn_Linear (sub \<theta> ''proj'') n_dim n_dim,
          sa_proj_drop = proj_drop,
          sa_ffn0 = nn_Linear (sub \<theta> ''ffn.0'') n_dim n_dim,
          sa_ffn3 = nn_Linear (sub \<theta> ''ffn.3'') n_dim n_dim,
          sa_dropout = dropout\<rparr>))"

text \<open>The feed-forward \<^verbatim>\<open>nn.Sequential(Linear, GELU, Dropout, Linear, Dropout)\<close>.\<close>

definition ffn :: "Linear \<Rightarrow> Linear \<Rightarrow> real \<Rightarrow> real tensor \<Rightarrow> error + real tensor" where
  "ffn l0 l3 dropout x =
     rbind (Linear_forward l0 x) (\<lambda>x.
     rbind (Linear_forward l3 (Dropout dropout (GELU x))) (\<lambda>x.
     Inr (Dropout dropout x)))"

definition SelfAttentionLayer_forward :: "SelfAttentionLayer \<Rightarrow> real tensor \<Rightarrow> error + real tensor" where
  "SelfAttentionLayer_forward self x =
     (let short_cut = x in
      rbind (LayerNorm_forward (sa_norm1 self) x) (\<lambda>x.
      rbind (Linear_forward (sa_q self) x) (\<lambda>q.
      rbind (Linear_forward (sa_k self) x) (\<lambda>k.
      rbind (Linear_forward (sa_v self) x) (\<lambda>v.
      rbind (MultiHeadAttention (sa_dim self) (sa_num_heads self) q k v) (\<lambda>x.
      rbind (Linear_forward (sa_proj self) x) (\<lambda>x.
      rbind (add_t short_cut (Dropout (sa_proj_drop self) x)) (\<lambda>x.
      rbind (LayerNorm_forward (sa_norm2 self) x) (\<lambda>y.
      rbind (ffn (sa_ffn0 self) (sa_ffn3 self) (sa_dropout self) y) (\<lambda>y.
      add_t x y))))))))))"

subsection \<open>\<^verbatim>\<open>CrossAttentionLayer\<close>\<close>

record CrossAttentionLayer =
  ca_qk_dim :: nat
  ca_num_heads :: nat
  ca_scale :: real
  ca_norm1 :: LayerNorm
  ca_norm2 :: LayerNorm
  ca_q :: Linear
  ca_k :: Linear
  ca_v :: Linear
  ca_proj :: Linear
  ca_proj_drop :: real
  ca_ffn0 :: Linear
  ca_ffn3 :: Linear
  ca_dropout :: real

definition CrossAttentionLayer_init ::
  "init_values \<Rightarrow> nat \<Rightarrow> nat \<Rightarrow> nat \<Rightarrow> nat \<Rightarrow> nat \<Rightarrow> real \<Rightarrow> real \<Rightarrow> error + CrossAttentionLayer" where
  "CrossAttentionLayer_init \<theta> qk_dim v_dim query_token_dim tgt_token_dim num_heads proj_drop dropout =
     rbind (assert_heads qk_dim num_heads) (\<lambda>_.
     rbind (assert_heads v_dim num_heads) (\<lambda>_.
     rbind (head_scale qk_dim num_heads) (\<lambda>sc.
     Inr \<lparr>ca_qk_dim = qk_dim, ca_num_heads = num_heads, ca_scale = sc,
          ca_norm1 = nn_LayerNorm (sub \<theta> ''norm1'') query_token_dim,
          ca_norm2 = nn_LayerNorm (sub \<theta> ''norm2'') query_token_dim,
          ca_q = nn_Linear (sub \<theta> ''q'') query_token_dim qk_dim,
          ca_k = nn_Linear (sub \<theta> ''k'') tgt_token_dim qk_dim,
          ca_v = nn_Linear (sub \<theta> ''v'') tgt_token_dim v_dim,
          ca_proj = nn_Linear (sub \<theta> ''proj'') v_dim query_token_dim,
          ca_proj_drop = proj_drop,
          ca_ffn0 = nn_Linear (sub \<theta> ''ffn.0'') query_token_dim query_token_dim,
          ca_ffn3 = nn_Linear (sub \<theta> ''ffn.3'') query_token_dim query_token_dim,
          ca_dropout = dropout\<rparr>)))"

definition CrossAttentionLayer_forward ::
  "CrossAttentionLayer \<Rightarrow> real tensor \<Rightarrow> real tensor \<Rightarrow> error + real tensor" where
  "CrossAttentionLayer_forward self query tgt_token =
     (let short_cut = query in
      rbind (LayerNorm_forward (ca_norm1 self) query) (\<lambda>query.
      rbind (Linear_forward (ca_q self) query) (\<lambda>q.
      rbind (Linear_forward (ca_k self) tgt_token) (\<lambda>k.
      rbind (Linear_forward (ca_v self) tgt_token) (\<lambda>v.
      rbind (BroadMultiHeadAttention (ca_qk_dim self) (ca_num_heads self) q k v) (\<lambda>x.
      rbind (Linear_forward (ca_proj self) x) (\<lambda>x.
      rbind (add_t short_cut (Dropout (ca_proj_drop self) x)) (\<lambda>x.
      rbind (LayerNorm_forward (ca_norm2 self) x) (\<lambda>y.
      rbind (ffn (ca_ffn0 self) (ca_ffn3 self) (ca_dropout self) y) (\<lambda>y.
      add_t x y))))))))))"

subsection \<open>The configuration\<close>

record cfg =
  cost_heads_num :: nat
  cost_latent_token_num :: nat
  cost_latent_dim :: nat
  cost_latent_input_dim :: nat
  encoder_depth :: nat
  dropout :: real
  vert_c_dim :: nat
  encoder_latent_dim :: nat
  pretrain :: bool

subsection \<open>\<^verbatim>\<open>VerticalSelfAttentionLayer\<close>\<close>

record VerticalSelfAttentionLayer =
  vs_dim :: nat
  vs_num_heads :: nat
  vs_scale :: real
  vs_local_block :: Block
  vs_global_block :: Block

definition VerticalSelfAttentionLayer_init ::
  "init_values \<Rightarrow> nat \<Rightarrow> cfg \<Rightarrow> nat \<Rightarrow> real \<Rightarrow> error + VerticalSelfAttentionLayer" where
  "VerticalSelfAttentionLayer_init \<theta> n_dim c num_heads drop_rate =
     rbind (head_scale n_dim num_heads) (\<lambda>sc.
     let embed_dim = n_dim; mlp_ratio = 4; ws = 7; sr_ratio = 4; attn_drop_rate = 0 in
     rbind (Block_init (sub \<theta> ''local_block'') embed_dim num_heads mlp_ratio drop_rate
              attn_drop_rate 0 sr_ratio ws (vert_c_dim c)) (\<lambda>local_block.
     rbind (Block_init (sub \<theta> ''global_block'') embed_dim num_heads mlp_ratio drop_rate
              attn_drop_rate 0 sr_ratio 1 (vert_c_dim c)) (\<lambda>global_block.
     Inr \<lparr>vs_dim = n_dim, vs_num_heads = num_heads, vs_scale = sc,
          vs_local_block = local_block, vs_global_block = global_block\<rparr>)))"

definition VerticalSelfAttentionLayer_forward ::
  "(real tensor \<Rightarrow> nat \<Rightarrow> error + real tensor) \<Rightarrow> VerticalSelfAttentionLayer \<Rightarrow>
     real tensor \<Rightarrow> nat \<times> nat \<Rightarrow> real tensor option \<Rightarrow> error + real tensor" where
  "VerticalSelfAttentionLayer_forward pos self x sz context =
     rbind (Block_forward pos (vs_local_block self) x sz context) (\<lambda>x.
     Block_forward pos (vs_global_block self) x sz context)"

subsection \<open>\<^verbatim>\<open>CostPerceiverEncoder\<close>\<close>

record CostPerceiverEncoder =
  cpe_cfg :: cfg
  cpe_patch_size :: nat
  cpe_cost_heads_num :: nat
  cpe_cost_latent_token_num :: nat
  cpe_patch_embed :: PatchEmbed
  cpe_depth :: nat
  cpe_latent_tokens :: "real tensor"
  cpe_input_layer :: CrossAttentionLayer
  cpe_encoder_layers :: "SelfAttentionLayer list"
  cpe_vertical_encoder_layers :: "VerticalSelfAttentionLayer list"

definition CostPerceiverEncoder_init :: "init_values \<Rightarrow> cfg \<Rightarrow> error + CostPerceiverEncoder" where
  "CostPerceiverEncoder_init \<theta> c =
     (let patch_embed = PatchEmbed_init (sub \<theta> ''patch_embed'') (cost_heads_num c) (cost_latent_input_dim c);
          depth = encoder_depth c;
          latent_tokens = new_param \<theta> ''latent_tokens'' [1, cost_latent_token_num c, cost_latent_dim c];
          query_token_dim = cost_latent_dim c; tgt_token_dim = cost_latent_input_dim c * 2;
          qk_dim = query_token_dim; v_dim = query_token_dim in
      rbind (CrossAttentionLayer_init (sub \<theta> ''input_layer'') qk_dim v_dim query_token_dim tgt_token_dim
               8 0 (dropout c)) (\<lambda>input_layer.
      rbind (sequence (map (\<lambda>idx. SelfAttentionLayer_init (sub \<theta> (''encoder_layers.'' @ str_nat idx))
                                     (cost_latent_dim c) 8 0 (dropout c)) [0..<depth])) (\<lambda>encoder_layers.
      rbind (sequence (map (\<lambda>idx. VerticalSelfAttentionLayer_init
                                     (sub \<theta> (''vertical_encoder_layers.'' @ str_nat idx))
                                     (cost_latent_dim c) c 8 (dropout c)) [0..<depth]))
        (\<lambda>vertical_encoder_layers.
      Inr \<lparr>cpe_cfg = c, cpe_patch_size = 8, cpe_cost_heads_num = cost_heads_num c,
           cpe_cost_latent_token_num = cost_latent_token_num c,
           cpe_patch_embed = patch_embed, cpe_depth = depth,
           cpe_latent_tokens = latent_tokens, cpe_input_layer = input_layer,
           cpe_encoder_layers = encoder_layers,
           cpe_vertical_encoder_layers = vertical_encoder_layers\<rparr>))))"

text \<open>
  The loop \<^verbatim>\<open>for layer, vert_layer in zip(self.encoder_layers, self.vertical_encoder_layers)\<close>
  of the forward function; \<open>T\<close> is \<^verbatim>\<open>self.cost_latent_token_num\<close>.
\<close>

fun encoder_stack ::
  "(real tensor \<Rightarrow> nat \<Rightarrow> error + real tensor) \<Rightarrow>
     (SelfAttentionLayer \<times> VerticalSelfAttentionLayer) list \<Rightarrow>
     nat \<Rightarrow> nat \<Rightarrow> nat \<Rightarrow> nat \<Rightarrow> real tensor option \<Rightarrow> real tensor \<Rightarrow> error + real tensor" where
  "encoder_stack pos [] B H1 W1 T context x = Inr x"
| "encoder_stack pos ((layer, vert_layer) # layers) B H1 W1 T context x =
     rbind (SelfAttentionLayer_forward layer x) (\<lambda>x.
     rbind (view_i [int B, int (H1 * W1), int T, - 1] x) (\<lambda>x.
     rbind (permute [0, 2, 1, 3] x) (\<lambda>x.
     rbind (reshape_i [int (B * T), int (H1 * W1), - 1] x) (\<lambda>x.
     rbind (VerticalSelfAttentionLayer_forward pos vert_layer x (H1, W1) context) (\<lambda>x.
     rbind (view_i [int B, int T, int (H1 * W1), - 1] x) (\<lambda>x.
     rbind (permute [0, 2, 1, 3] x) (\<lambda>x.
     rbind (reshape_i [int (B * H1 * W1), int T, - 1] x) (\<lambda>x.
     encoder_stack pos layers B H1 W1 T context x))))))))"

definition CostPerceiverEncoder_forward ::
  "(real tensor \<Rightarrow> nat \<Rightarrow> error + real tensor) \<Rightarrow> CostPerceiverEncoder \<Rightarrow>
     real tensor \<Rightarrow> real tensor option \<Rightarrow> error + real tensor \<times> real tensor \<times> nat \<times> nat" where
  "CostPerceiverEncoder_forward pos self cost_volume context =
     (case shape cost_volume of
        [B, heads, H1, W1, H2, W2] \<Rightarrow>
          rbind (permute [0, 2, 3, 1, 4, 5] cost_volume) (\<lambda>cost_maps.
          rbind (view [B * H1 * W1, cpe_cost_heads_num self, H2, W2] cost_maps) (\<lambda>cost_maps.
          rbind (PatchEmbed_forward pos (cpe_patch_embed self) cost_maps) (\<lambda>(x, sz).
          rbind (CrossAttentionLayer_forward (cpe_input_layer self) (cpe_latent_tokens self) x) (\<lambda>x.
          let short_cut = x in
          rbind (encoder_stack pos (zip (cpe_encoder_layers self) (cpe_vertical_encoder_layers self))
                   B H1 W1 (cpe_cost_latent_token_num self) context x) (\<lambda>x.
          rbind (add_t x short_cut) (\<lambda>x.
          Inr (x, cost_maps, sz ! 0, sz ! 1)))))))
      | _ \<Rightarrow> Inl ValueError)"

subsection \<open>\<^verbatim>\<open>MemoryEncoder\<close>\<close>

text \<open>
  The feature backbone \<^verbatim>\<open>TwinsSVTLarge\<close> of \<^verbatim>\<open>twins_svt.py\<close> is not among
  the sources: its constructor is a parameter, which builds the function the module
  computes. The dictionary \<^verbatim>\<open>data\<close> the forward function writes into is returned
  updated.
\<close>

datatype data_value = TensorValue "real tensor" | SizeValue "nat \<times> nat"

record MemoryEncoder =
  me_cfg :: cfg
  me_feat_encoder :: "real tensor \<Rightarrow> error + real tensor"
  me_channel_convertor :: Conv2d
  me_cost_perceiver_encoder :: CostPerceiverEncoder

definition MemoryEncoder_init ::
  "(bool \<Rightarrow> error + (real tensor \<Rightarrow> error + real tensor)) \<Rightarrow> init_values \<Rightarrow> cfg \<Rightarrow> error + MemoryEncoder" where
  "MemoryEncoder_init TwinsSVTLarge \<theta> c =
     rbind (TwinsSVTLarge (pretrain c)) (\<lambda>feat_encoder.
     let channel_convertor = nn_Conv2d (sub \<theta> ''channel_convertor'')
                               (encoder_latent_dim c) (encoder_latent_dim c) 1 1 0 False in
     rbind (CostPerceiverEncoder_init (sub \<theta> ''cost_perceiver_encoder'') c) (\<lambda>cost_perceiver_encoder.
     Inr \<lparr>me_cfg = c, me_feat_encoder = feat_encoder, me_channel_convertor = channel_convertor,
          me_cost_perceiver_encoder = cost_perceiver_encoder\<rparr>))"

definition MemoryEncoder_forward ::
  "(real tensor \<Rightarrow> nat \<Rightarrow> error + real tensor) \<Rightarrow> MemoryEncoder \<Rightarrow> real tensor \<Rightarrow> real tensor \<Rightarrow>
     (string \<rightharpoonup> data_value) \<Rightarrow> real tensor option \<Rightarrow> error + real tensor \<times> (string \<rightharpoonup> data_value)" where
  "MemoryEncoder_forward pos self img1 img2 dat context =
     rbind (torch_cat img1 img2 0) (\<lambda>imgs.
     rbind (me_feat_encoder self imgs) (\<lambda>feats.
     rbind (Conv2d_forward (me_channel_convertor self) feats) (\<lambda>feats.
     (case shape feats of
        [] \<Rightarrow> Inl IndexError
      | n # _ \<Rightarrow>
          let B = n div 2 in
          rbind (slice0 0 (Some B) feats) (\<lambda>feat_s.
          rbind (slice0 B None feats) (\<lambda>feat_t.
          rbind (corr (cost_heads_num (me_cfg self)) feat_s feat_t) (\<lambda>cost_volume.
          rbind (CostPerceiverEncoder_forward pos (me_cost_perceiver_encoder self) cost_volume context)
            (\<lambda>(x, cost_maps, h3w3).
          Inr (x, dat(''cost_maps'' \<mapsto> TensorValue cost_maps, ''H3W3'' \<mapsto> SizeValue h3w3))))))))))"


section \<open>Sample inputs\<close>

text \<open>
  Concrete values at which the model is evaluated: initial parameter values that are
  all zero, \<^verbatim>\<open>torch.zeros\<close>, a positional encoding and a backbone that stand for
  the modules that are not among the sources, and two configurations.
\<close>

definition zero_init :: init_values where
  "zero_init name k = 0"

definition zeros :: "nat list \<Rightarrow> real tensor" where
  "zeros s = \<lparr>shape = s, data = replicate (prod_list s) 0\<rparr>"

definition sample_pos :: "real tensor \<Rightarrow> nat \<Rightarrow> error + real tensor" where
  "sample_pos coords n = Inr (zeros (butlast (shape coords) @ [n]))"

definition sample_backbone :: "bool \<Rightarrow> error + (real tensor \<Rightarrow> error + real tensor)" where
  "sample_backbone pretrained = Inr Inr"

definition sample_cfg :: cfg where
  "sample_cfg = \<lparr>cost_heads_num = 1, cost_latent_token_num = 2, cost_latent_dim = 8,
     cost_latent_input_dim = 4, encoder_depth = 1, dropout = 0, vert_c_dim = 0,
     encoder_latent_dim = 4, pretrain = False\<rparr>"

definition uneven_cfg :: cfg where
  "uneven_cfg = \<lparr>cost_heads_num = 3, cost_latent_token_num = 2, cost_latent_dim = 8,
     cost_latent_input_dim = 4, encoder_depth = 1, dropout = 0, vert_c_dim = 0,
     encoder_latent_dim = 4, pretrain = False\<rparr>"


section \<open>Properties of the addressing\<close>

lemma ravel_Nil [simp]: "ravel [] [] = 0"
  by (simp add: ravel_def offset_def)

lemma ravel_Cons [simp]: "ravel (n # ns) (i # is) = i * prod_list ns + ravel ns is"
  by (simp add: ravel_def offset_def)

lemma valid_index_Nil [simp]: "valid_index [] idx \<longleftrightarrow> idx = []"
  by (simp add: valid_index_def)

lemma valid_index_Cons [simp]:
  "valid_index (n # ns) (i # is) \<longleftrightarrow> i < n \<and> valid_index ns is"
  by (simp add: valid_index_def)

lemma valid_index_Cons_iff:
  "valid_index (n # ns) idx \<longleftrightarrow> (\<exists>i is. idx = i # is \<and> i < n \<and> valid_index ns is)"
  by (auto simp: valid_index_def list_all2_Cons2)

lemma valid_index_length: "valid_index s idx \<Longrightarrow> length idx = length s"
  by (simp add: valid_index_def list_all2_lengthD)

lemma mult_add_less: "(i::nat) < n \<Longrightarrow> r < p \<Longrightarrow> i * p + r < n * p"
proof -
  assume a: "i < n" "r < p"
  then have "i * p + r < i * p + p" by simp
  also have "\<dots> = Suc i * p" by simp
  also from a have "\<dots> \<le> n * p" by (intro mult_le_mono1) simp
  finally show ?thesis .
qed

lemma ravel_less: "valid_index s idx \<Longrightarrow> ravel s idx < prod_list s"
proof (induction s arbitrary: idx)
  case Nil
  then show ?case by simp
next
  case (Cons n ns)
  then obtain i "is" where "idx = i # is" "i < n" "valid_index ns is"
    by (auto simp: valid_index_Cons_iff)
  with Cons.IH [of "is"] show ?case by (simp add: mult_add_less)
qed

lemma unravel_ravel: "valid_index s idx \<Longrightarrow> unravel s (ravel s idx) = idx"
proof (induction s arbitrary: idx)
  case Nil
  then show ?case by simp
next
  case (Cons n ns)
  then obtain i "is" where *: "idx = i # is" "i < n" "valid_index ns is"
    by (auto simp: valid_index_Cons_iff)
  then have "ravel ns is < prod_list ns" by (rule_tac ravel_less)
  with * Cons.IH [of "is"] show ?case by simp
qed

lemma valid_unravel: "k < prod_list s \<Longrightarrow> valid_index s (unravel s k)"
proof (induction s arbitrary: k)
  case Nil
  then show ?case by simp
next
  case (Cons n ns)
  then have "0 < prod_list ns" by (cases "prod_list ns = 0") auto
  moreover from Cons.prems have "k div prod_list ns < n"
    by (simp add: less_mult_imp_div_less mult.commute)
  ultimately show ?case using Cons.IH by simp
qed

lemma ravel_unravel: "k < prod_list s \<Longrightarrow> ravel s (unravel s k) = k"
proof (induction s arbitrary: k)
  case Nil
  then show ?case by simp
next
  case (Cons n ns)
  then have "0 < prod_list ns" by (cases "prod_list ns = 0") auto
  with Cons.IH [of "k mod prod_list ns"] show ?case by simp
qed

lemma wf_tabulate [simp]: "wf (tabulate s f)"
  by (simp add: wf_def tabulate_def)

lemma shape_tabulate [simp]: "shape (tabulate s f) = s"
  by (simp add: tabulate_def)

lemma tget_tabulate: "valid_index s idx \<Longrightarrow> tget (tabulate s f) idx = f idx"
  by (simp add: tget_def tabulate_def ravel_less unravel_ravel)

lemma tensor_eqI:
  fixes a b :: "'a tensor"
  assumes "wf a" "wf b" "shape a = shape b"
    and "\<And>idx. valid_index (shape a) idx \<Longrightarrow> tget a idx = tget b idx"
  shows "a = b"
proof -
  have "data a = data b"
  proof (rule nth_equalityI)
    show "length (data a) = length (data b)" using assms by (simp add: wf_def)
  next
    fix k assume "k < length (data a)"
    then have k: "k < prod_list (shape a)" using assms by (simp add: wf_def)
    from assms(4) [OF valid_unravel [OF k]] show "data a ! k = data b ! k"
      using assms(3) k by (simp add: tget_def ravel_unravel)
  qed
  with assms(3) show ?thesis by simp
qed


lemma rbind_Inr [simp]: "rbind (Inr x) f = f x"
  by (simp add: rbind_def)

lemma rbind_Inl [simp]: "rbind (Inl e) f = Inl e"
  by (simp add: rbind_def)

lemma view_Inr: "prod_list s = length (data t) \<Longrightarrow> view s t = Inr (t\<lparr>shape := s\<rparr>)"
  by (simp add: view_def)

lemma tget_shape_update: "tget (t\<lparr>shape := s\<rparr>) idx = data t ! ravel s idx"
  by (simp add: tget_def)

lemma data_nth_tabulate:
  "valid_index s idx \<Longrightarrow> data (tabulate s f) ! ravel s idx = f idx"
  by (simp add: tabulate_def ravel_less unravel_ravel)

section \<open>The cost volume\<close>

lemma mult_add_less': "(i::nat) < n \<Longrightarrow> r < p \<Longrightarrow> r + i * p < n * p"
  using mult_add_less [of i n r p] by (simp add: add.commute)

lemma sum_list_upt_cong:
  "(\<And>m. m < n \<Longrightarrow> f m = g m) \<Longrightarrow> (\<Sum>m\<leftarrow>[0..<n]. f m) = (\<Sum>m\<leftarrow>[0..<n]. g m)"
  by (rule arg_cong [where f = sum_list]) simp

lemma corr_entries:
  fixes fmap1 fmap2 :: "'a::comm_semiring_0 tensor"
  assumes wf1: "wf fmap1" and wf2: "wf fmap2"
    and s1: "shape fmap1 = [batch, heads * d, ht, wd]"
    and s2: "shape fmap2 = [batch, heads * d, ht, wd]"
    and hd: "0 < heads"
  shows "\<exists>c. corr heads fmap1 fmap2 = Inr c \<and> wf c \<and> shape c = [batch, heads, ht, wd, ht, wd] \<and>
     (\<forall>b h i j k l. b < batch \<longrightarrow> h < heads \<longrightarrow> i < ht \<longrightarrow> j < wd \<longrightarrow> k < ht \<longrightarrow> l < wd \<longrightarrow>
        tget c [b, h, i, j, k, l] =
          (\<Sum>m\<leftarrow>[0..<d]. tget fmap1 [b, h * d + m, i, j] * tget fmap2 [b, h * d + m, k, l]))"
proof -
  let ?S5 = "[batch, heads, d, ht, wd]"
  let ?S3 = "[batch * heads, ht * wd, d]"
  let ?S4 = "[batch, heads, ht * wd, ht * wd]"
  let ?S4' = "[batch, ht * wd, heads, ht * wd]"
  let ?S6 = "[batch, heads, ht, wd, ht, wd]"
  define P :: "'a tensor \<Rightarrow> 'a tensor" where
    "P f = tabulate [batch, heads, ht, wd, d]
       (\<lambda>idx. data f ! offset idx (pick [0, 1, 3, 4, 2] (strides ?S5)))" for f
  define G :: "'a tensor \<Rightarrow> 'a tensor" where "G f = (P f)\<lparr>shape := ?S3\<rparr>" for f
  define T :: "'a tensor \<Rightarrow> 'a tensor" where
    "T f = tabulate [batch * heads, d, ht * wd]
       (\<lambda>idx. data (G f) ! offset idx (pick [0, 2, 1] (strides ?S3)))" for f
  define M :: "'a tensor" where
    "M = tabulate [batch * heads, ht * wd, ht * wd]
       (\<lambda>idx. \<Sum>m\<leftarrow>[0..<d]. tget (G fmap1) [idx ! 0, idx ! 1, m] * tget (T fmap2) [idx ! 0, m, idx ! 2])"
  define Q :: "'a tensor" where
    "Q = tabulate ?S4' (\<lambda>idx. data M ! offset idx (pick [0, 2, 1, 3] (strides ?S4)))"
  define R :: "'a tensor" where
    "R = tabulate ?S4 (\<lambda>idx. data Q ! offset idx (pick [0, 2, 1, 3] (strides ?S4')))"
  have len: "length (data fmap1) = batch * (heads * d) * ht * wd"
       "length (data fmap2) = batch * (heads * d) * ht * wd"
    using wf1 wf2 s1 s2 by (simp_all add: wf_def mult.assoc)
  have div: "heads * d div heads = d" using hd by simp
  have a: "view ?S5 f = Inr (f\<lparr>shape := ?S5\<rparr>)"
    if "length (data f) = batch * (heads * d) * ht * wd" for f :: "'a tensor"
    using that by (simp add: view_def mult.assoc)
  have b: "permute [0, 1, 3, 4, 2] (f\<lparr>shape := ?S5\<rparr>) = Inr (P f)" for f :: "'a tensor"
    by (simp add: permute_def is_perm_def pick_def P_def)
  have c: "reshape [batch, heads, ht * wd, d] (P f) = Inr ((P f)\<lparr>shape := [batch, heads, ht * wd, d]\<rparr>)"
    for f :: "'a tensor"
    by (simp add: reshape_def view_def P_def tabulate_def mult_ac)
  have d: "reshape ?S3 ((P f)\<lparr>shape := [batch, heads, ht * wd, d]\<rparr>) = Inr (G f)" for f :: "'a tensor"
    by (simp add: reshape_def view_def P_def G_def tabulate_def mult_ac)
  have e: "transpose_t 1 2 (G f) = Inr (T f)" for f :: "'a tensor"
    by (simp add: transpose_t_def G_def T_def permute_def is_perm_def pick_def swap_axes_def)
  have f: "bmm (G fmap1) (T fmap2) = Inr M"
    by (simp add: bmm_def G_def T_def M_def)
  have g: "view ?S4 M = Inr (M\<lparr>shape := ?S4\<rparr>)"
    by (simp add: view_def M_def tabulate_def mult_ac)
  have h: "permute [0, 2, 1, 3] (M\<lparr>shape := ?S4\<rparr>) = Inr Q"
    by (simp add: permute_def is_perm_def pick_def Q_def)
  have i: "reshape [batch * ht * wd, heads, ht, wd] Q = Inr (Q\<lparr>shape := [batch * ht * wd, heads, ht, wd]\<rparr>)"
    by (simp add: reshape_def view_def Q_def tabulate_def mult_ac)
  have j: "reshape ?S4' (Q\<lparr>shape := [batch * ht * wd, heads, ht, wd]\<rparr>) = Inr Q"
    by (simp add: reshape_def view_def Q_def tabulate_def mult_ac)
  have k: "permute [0, 2, 1, 3] Q = Inr R"
    by (simp add: permute_def is_perm_def pick_def Q_def R_def)
  have l: "reshape ?S6 R = Inr (R\<lparr>shape := ?S6\<rparr>)"
    by (simp add: reshape_def view_def R_def tabulate_def mult_ac)
  have res: "corr heads fmap1 fmap2 = Inr (R\<lparr>shape := ?S6\<rparr>)"
  proof -
    have nz: "(heads = 0) = False" using hd by simp
    show ?thesis
      by (simp only: corr_def s1 list.case nz if_False div Let_def a [OF len(1)] a [OF len(2)]
          b c d e f g h i j k l rbind_Inr)
  qed
  have wfR: "wf (R\<lparr>shape := ?S6\<rparr>)"
    by (simp add: wf_def R_def tabulate_def mult_ac)
  have G_entry: "tget (G f) [b * heads + h, i * wd + j, m] = tget f [b, h * d + m, i, j]"
    if "shape f = [batch, heads * d, ht, wd]" "b < batch" "h < heads" "i < ht" "j < wd" "m < d"
    for f :: "'a tensor" and b h i j m
  proof -
    have "tget (G f) [b * heads + h, i * wd + j, m]
        = data (P f) ! ravel ?S3 [b * heads + h, i * wd + j, m]"
      by (simp add: G_def tget_def)
    also have "\<dots> = data (P f) ! ravel [batch, heads, ht, wd, d] [b, h, i, j, m]"
      by (simp add: algebra_simps)
    also have "\<dots> = data f ! offset [b, h, i, j, m] (pick [0, 1, 3, 4, 2] (strides ?S5))"
      unfolding P_def using that by (subst data_nth_tabulate) simp_all
    also have "\<dots> = data f ! ravel [batch, heads * d, ht, wd] [b, h * d + m, i, j]"
      by (simp add: pick_def offset_def algebra_simps)
    finally show ?thesis using that(1) by (simp add: tget_def)
  qed
  have T_entry: "tget (T f) [n, m, q] = tget (G f) [n, q, m]"
    if "n < batch * heads" "m < d" "q < ht * wd" for f :: "'a tensor" and n m q
  proof -
    have "tget (T f) [n, m, q] = data (G f) ! offset [n, m, q] (pick [0, 2, 1] (strides ?S3))"
      unfolding T_def tget_def shape_tabulate using that by (subst data_nth_tabulate) simp_all
    also have "\<dots> = data (G f) ! ravel ?S3 [n, q, m]"
      by (simp add: pick_def offset_def algebra_simps)
    finally show ?thesis by (simp add: tget_def G_def)
  qed
  have entry: "tget (R\<lparr>shape := ?S6\<rparr>) [b, h, i, j, k, l] =
          (\<Sum>m\<leftarrow>[0..<d]. tget fmap1 [b, h * d + m, i, j] * tget fmap2 [b, h * d + m, k, l])"
    if "b < batch" "h < heads" "i < ht" "j < wd" "k < ht" "l < wd" for b h i j k l
  proof -
    have I: "i * wd + j < ht * wd" and K: "k * wd + l < ht * wd" and N: "b * heads + h < batch * heads"
      using that by (simp_all add: mult_add_less)
    have "tget (R\<lparr>shape := ?S6\<rparr>) [b, h, i, j, k, l] = data R ! ravel ?S6 [b, h, i, j, k, l]"
      by (simp add: tget_def)
    also have "\<dots> = data R ! ravel ?S4 [b, h, i * wd + j, k * wd + l]"
      by (simp add: algebra_simps)
    also have "\<dots> = data Q ! offset [b, h, i * wd + j, k * wd + l] (pick [0, 2, 1, 3] (strides ?S4'))"
      unfolding R_def using that I K by (subst data_nth_tabulate) simp_all
    also have "\<dots> = data Q ! ravel ?S4' [b, i * wd + j, h, k * wd + l]"
      by (simp add: pick_def offset_def algebra_simps)
    also have "\<dots> = data M ! offset [b, i * wd + j, h, k * wd + l] (pick [0, 2, 1, 3] (strides ?S4))"
      unfolding Q_def using that I K by (subst data_nth_tabulate) simp_all
    also have "\<dots> = data M ! ravel [batch * heads, ht * wd, ht * wd] [b * heads + h, i * wd + j, k * wd + l]"
      by (simp add: pick_def offset_def algebra_simps)
    also have "\<dots> = (\<Sum>m\<leftarrow>[0..<d]. tget (G fmap1) [b * heads + h, i * wd + j, m]
                  * tget (T fmap2) [b * heads + h, m, k * wd + l])"
      unfolding M_def using N I K by (subst data_nth_tabulate) simp_all
    also have "\<dots> = (\<Sum>m\<leftarrow>[0..<d]. tget fmap1 [b, h * d + m, i, j] * tget fmap2 [b, h * d + m, k, l])"
      using that N I K by (intro sum_list_upt_cong) (simp add: T_entry G_entry s1 s2)
    finally show ?thesis .
  qed
  show ?thesis
    using res wfR entry by (intro exI [of _ "R\<lparr>shape := ?S6\<rparr>"]) simp
qed

lemma wf_scale [simp]: "wf (scale s t) = wf t"
  by (simp add: wf_def scale_def)

lemma shape_scale [simp]: "shape (scale s t) = shape t"
  by (simp add: scale_def)

lemma tget_scale:
  "wf t \<Longrightarrow> valid_index (shape t) idx \<Longrightarrow> tget (scale s t) idx = s * tget t idx"
  using ravel_less [of "shape t" idx] by (simp add: tget_def scale_def wf_def)

lemma corr_entries_dvd:
  fixes fmap1 fmap2 :: "'a::comm_semiring_0 tensor"
  assumes "wf fmap1" "wf fmap2"
    and "shape fmap1 = [batch, channels, ht, wd]"
    and "shape fmap2 = [batch, channels, ht, wd]"
    and "0 < heads" "heads dvd channels"
  shows "\<exists>c. corr heads fmap1 fmap2 = Inr c \<and> wf c \<and> shape c = [batch, heads, ht, wd, ht, wd] \<and>
     (\<forall>b h i j k l. b < batch \<longrightarrow> h < heads \<longrightarrow> i < ht \<longrightarrow> j < wd \<longrightarrow> k < ht \<longrightarrow> l < wd \<longrightarrow>
        tget c [b, h, i, j, k, l] =
          (\<Sum>m\<leftarrow>[0..<channels div heads].
             tget fmap1 [b, h * (channels div heads) + m, i, j] *
             tget fmap2 [b, h * (channels div heads) + m, k, l]))"
proof -
  from assms(5,6) have "channels = heads * (channels div heads)" by simp
  then show ?thesis
    using corr_entries [of fmap1 fmap2 batch heads "channels div heads" ht wd] assms by simp
qed

text \<open>
  Claim C1. For same-shaped feature maps of shape \<open>(batch, channels, ht, wd)\<close> with
  \<open>channels\<close> divisible by the number of heads, \<^verbatim>\<open>corr\<close> returns a tensor
  of shape \<open>(batch, heads, ht, wd, ht, wd)\<close> whose entry at \<open>(b, h, i, j, k, l)\<close>
  is the plain dot product, over the channels \<open>h * d, \<dots>, h * d + d - 1\<close> of head
  \<open>h\<close> (with \<open>d = channels div heads\<close>), of the first map at pixel \<open>(i, j)\<close>
  and the second map at pixel \<open>(k, l)\<close>: nothing is scaled or normalised. When both
  inputs are the same map, the entry at \<open>(b, h, i, j, i, j)\<close> is the self dot product
  of that pixel's per-head feature vector.
\<close>

theorem corr_all_pairs_dot_product:
  fixes fmap1 fmap2 :: "'a::comm_semiring_0 tensor"
  assumes "wf fmap1" "wf fmap2"
    and "shape fmap1 = [batch, channels, ht, wd]"
    and "shape fmap2 = [batch, channels, ht, wd]"
    and "0 < heads" "heads dvd channels"
  shows "\<exists>c. corr heads fmap1 fmap2 = Inr c \<and> wf c \<and> shape c = [batch, heads, ht, wd, ht, wd] \<and>
     (\<forall>b<batch. \<forall>h<heads. \<forall>i<ht. \<forall>j<wd. \<forall>k<ht. \<forall>l<wd.
        tget c [b, h, i, j, k, l] =
          (\<Sum>m\<leftarrow>[0..<channels div heads].
             tget fmap1 [b, h * (channels div heads) + m, i, j] *
             tget fmap2 [b, h * (channels div heads) + m, k, l])) \<and>
     (fmap2 = fmap1 \<longrightarrow>
       (\<forall>b<batch. \<forall>h<heads. \<forall>i<ht. \<forall>j<wd.
          tget c [b, h, i, j, i, j] =
            (\<Sum>m\<leftarrow>[0..<channels div heads].
               tget fmap1 [b, h * (channels div heads) + m, i, j] *
               tget fmap1 [b, h * (channels div heads) + m, i, j])))"
proof -
  from corr_entries_dvd [OF assms] obtain c where
    c: "corr heads fmap1 fmap2 = Inr c" "wf c" "shape c = [batch, heads, ht, wd, ht, wd]"
    and e: "\<And>b h i j k l. b < batch \<Longrightarrow> h < heads \<Longrightarrow> i < ht \<Longrightarrow> j < wd \<Longrightarrow> k < ht \<Longrightarrow> l < wd \<Longrightarrow>
        tget c [b, h, i, j, k, l] =
          (\<Sum>m\<leftarrow>[0..<channels div heads].
             tget fmap1 [b, h * (channels div heads) + m, i, j] *
             tget fmap2 [b, h * (channels div heads) + m, k, l])"
    by blast
  show ?thesis
    by (rule exI [of _ c]) (simp add: c e)
qed

theorem corr_all_pairs_dot_product_witness:
  "\<exists>c. corr 2 \<lparr>shape = [1, 2, 1, 2], data = [1, 2, 3, 4 :: int]\<rparr>
              \<lparr>shape = [1, 2, 1, 2], data = [5, 6, 7, 8]\<rparr> = Inr c \<and>
       shape c = [1, 2, 1, 2, 1, 2] \<and> tget c [0, 1, 0, 1, 0, 0] = 28"
proof -
  let ?f1 = "\<lparr>shape = [1, 2, 1, 2], data = [1, 2, 3, 4 :: int]\<rparr>"
  let ?f2 = "\<lparr>shape = [1, 2, 1, 2], data = [5, 6, 7, 8 :: int]\<rparr>"
  have "wf ?f1" "wf ?f2" "shape ?f1 = [1, 2, 1, 2]" "shape ?f2 = [1, 2, 1, 2]"
       "0 < (2::nat)" "(2::nat) dvd 2"
    by (simp_all add: wf_def)
  from corr_all_pairs_dot_product [OF this] obtain c where
    c: "corr 2 ?f1 ?f2 = Inr c \<and> wf c \<and> shape c = [1, 2, 1, 2, 1, 2] \<and>
     (\<forall>b<1. \<forall>h<2. \<forall>i<1. \<forall>j<2. \<forall>k<1. \<forall>l<2.
        tget c [b, h, i, j, k, l] =
          (\<Sum>m\<leftarrow>[0..<2 div 2].
             tget ?f1 [b, h * (2 div 2) + m, i, j] *
             tget ?f2 [b, h * (2 div 2) + m, k, l])) \<and>
     (?f2 = ?f1 \<longrightarrow>
       (\<forall>b<1. \<forall>h<2. \<forall>i<1. \<forall>j<2.
          tget c [b, h, i, j, i, j] =
            (\<Sum>m\<leftarrow>[0..<2 div 2].
               tget ?f1 [b, h * (2 div 2) + m, i, j] *
               tget ?f1 [b, h * (2 div 2) + m, i, j])))" ..
  note e = c [THEN conjunct2, THEN conjunct2, THEN conjunct2, THEN conjunct1, rule_format, of 0 1 0 1 0 0]
  have "tget c [0, 1, 0, 1, 0, 0] =
      (\<Sum>m\<leftarrow>[0..<2 div 2]. tget ?f1 [0, 1 * (2 div 2) + m, 0, 1] * tget ?f2 [0, 1 * (2 div 2) + m, 0, 0])"
    by (rule e) simp_all
  also have "\<dots> = 28"
    by (simp add: tget_def)
  finally have "tget c [0, 1, 0, 1, 0, 0] = 28" .
  with c show ?thesis by (intro exI [of _ c]) simp
qed

lemma valid_index6:
  "valid_index [a, b, c, d, e, f] idx \<Longrightarrow>
     \<exists>i1 i2 i3 i4 i5 i6. idx = [i1, i2, i3, i4, i5, i6] \<and> i1 < a \<and> i2 < b \<and> i3 < c \<and> i4 < d \<and> i5 < e \<and> i6 < f"
  by (auto simp: valid_index_Cons_iff)

text \<open>
  Claim C8. The correlation is bilinear: for valid feature maps, scaling either input
  by a scalar \<open>s\<close> scales the whole cost volume by \<open>s\<close>.
\<close>

theorem corr_bilinear:
  fixes fmap1 fmap2 :: "'a::comm_semiring_0 tensor"
  assumes "wf fmap1" "wf fmap2"
    and "shape fmap1 = [batch, channels, ht, wd]"
    and "shape fmap2 = [batch, channels, ht, wd]"
    and "0 < heads" "heads dvd channels"
  shows "corr heads (scale s fmap1) fmap2 = rmap (scale s) (corr heads fmap1 fmap2) \<and>
         corr heads fmap1 (scale s fmap2) = rmap (scale s) (corr heads fmap1 fmap2) \<and>
         (\<exists>c. corr heads fmap1 fmap2 = Inr c)"
proof -
  let ?d = "channels div heads"
  let ?S = "[batch, heads, ht, wd, ht, wd]"
  have ch: "channels = heads * ?d" using assms(5,6) by simp
  have vi: "valid_index [batch, channels, ht, wd] [b, h * ?d + m, i, j]"
    if "b < batch" "h < heads" "m < ?d" "i < ht" "j < wd" for b h m i j
  proof -
    have "h * ?d + m < heads * ?d" using that by (simp add: mult_add_less)
    with ch that show ?thesis by simp
  qed
  from corr_entries_dvd [OF assms] obtain c where
    c: "corr heads fmap1 fmap2 = Inr c" "wf c" "shape c = ?S"
    and e: "\<And>b h i j k l. b < batch \<Longrightarrow> h < heads \<Longrightarrow> i < ht \<Longrightarrow> j < wd \<Longrightarrow> k < ht \<Longrightarrow> l < wd \<Longrightarrow>
        tget c [b, h, i, j, k, l] =
          (\<Sum>m\<leftarrow>[0..<?d]. tget fmap1 [b, h * ?d + m, i, j] * tget fmap2 [b, h * ?d + m, k, l])"
    by blast
  from corr_entries_dvd [of "scale s fmap1" fmap2 batch channels ht wd heads] assms obtain c1 where
    c1: "corr heads (scale s fmap1) fmap2 = Inr c1" "wf c1" "shape c1 = ?S"
    and e1: "\<And>b h i j k l. b < batch \<Longrightarrow> h < heads \<Longrightarrow> i < ht \<Longrightarrow> j < wd \<Longrightarrow> k < ht \<Longrightarrow> l < wd \<Longrightarrow>
        tget c1 [b, h, i, j, k, l] =
          (\<Sum>m\<leftarrow>[0..<?d]. tget (scale s fmap1) [b, h * ?d + m, i, j] * tget fmap2 [b, h * ?d + m, k, l])"
    by (simp only: wf_scale shape_scale) blast
  from corr_entries_dvd [of fmap1 "scale s fmap2" batch channels ht wd heads] assms obtain c2 where
    c2: "corr heads fmap1 (scale s fmap2) = Inr c2" "wf c2" "shape c2 = ?S"
    and e2: "\<And>b h i j k l. b < batch \<Longrightarrow> h < heads \<Longrightarrow> i < ht \<Longrightarrow> j < wd \<Longrightarrow> k < ht \<Longrightarrow> l < wd \<Longrightarrow>
        tget c2 [b, h, i, j, k, l] =
          (\<Sum>m\<leftarrow>[0..<?d]. tget fmap1 [b, h * ?d + m, i, j] * tget (scale s fmap2) [b, h * ?d + m, k, l])"
    by (simp only: wf_scale shape_scale) blast
  have s1: "tget (scale s fmap1) [b, h * ?d + m, i, j] = s * tget fmap1 [b, h * ?d + m, i, j]"
    if "b < batch" "h < heads" "m < ?d" "i < ht" "j < wd" for b h m i j
    using tget_scale [OF assms(1), of "[b, h * ?d + m, i, j]" s] vi [OF that] by (simp only: assms(3))
  have s2: "tget (scale s fmap2) [b, h * ?d + m, i, j] = s * tget fmap2 [b, h * ?d + m, i, j]"
    if "b < batch" "h < heads" "m < ?d" "i < ht" "j < wd" for b h m i j
    using tget_scale [OF assms(2), of "[b, h * ?d + m, i, j]" s] vi [OF that] by (simp only: assms(4))
  have sc: "tget (scale s c) idx = s * tget c idx" if "valid_index ?S idx" for idx
    using that c by (simp add: tget_scale)
  have "c1 = scale s c"
  proof (rule tensor_eqI)
    fix idx assume "valid_index (shape c1) idx"
    then have v: "valid_index ?S idx" by (simp add: c1)
    then obtain b h i j k l where idx: "idx = [b, h, i, j, k, l]"
      and r: "b < batch" "h < heads" "i < ht" "j < wd" "k < ht" "l < wd"
      using valid_index6 by blast
    have "tget c1 idx = (\<Sum>m\<leftarrow>[0..<?d]. s * (tget fmap1 [b, h * ?d + m, i, j] * tget fmap2 [b, h * ?d + m, k, l]))"
      unfolding idx e1 [OF r]
      by (intro sum_list_upt_cong) (simp add: s1 r mult.assoc)
    also have "\<dots> = s * tget c idx"
      unfolding idx e [OF r] by (simp add: sum_list_const_mult)
    finally show "tget c1 idx = tget (scale s c) idx" using sc [OF v] by simp
  qed (simp_all add: c c1)
  moreover have "c2 = scale s c"
  proof (rule tensor_eqI)
    fix idx assume "valid_index (shape c2) idx"
    then have v: "valid_index ?S idx" by (simp add: c2)
    then obtain b h i j k l where idx: "idx = [b, h, i, j, k, l]"
      and r: "b < batch" "h < heads" "i < ht" "j < wd" "k < ht" "l < wd"
      using valid_index6 by blast
    have "tget c2 idx = (\<Sum>m\<leftarrow>[0..<?d]. s * (tget fmap1 [b, h * ?d + m, i, j] * tget fmap2 [b, h * ?d + m, k, l]))"
      unfolding idx e2 [OF r]
      by (intro sum_list_upt_cong) (simp add: s2 r mult.left_commute)
    also have "\<dots> = s * tget c idx"
      unfolding idx e [OF r] by (simp add: sum_list_const_mult)
    finally show "tget c2 idx = tget (scale s c) idx" using sc [OF v] by simp
  qed (simp_all add: c c2)
  ultimately show ?thesis by (simp add: c c1 c2 rmap_def)
qed

theorem corr_bilinear_witness:
  "corr 2 (scale 3 \<lparr>shape = [1, 2, 1, 2], data = [1, 2, 3, 4 :: int]\<rparr>)
       \<lparr>shape = [1, 2, 1, 2], data = [5, 6, 7, 8]\<rparr>
     = rmap (scale 3) (corr 2 \<lparr>shape = [1, 2, 1, 2], data = [1, 2, 3, 4]\<rparr>
                              \<lparr>shape = [1, 2, 1, 2], data = [5, 6, 7, 8]\<rparr>) \<and>
   corr 2 \<lparr>shape = [1, 2, 1, 2], data = [1, 2, 3, 4 :: int]\<rparr>
       (scale 3 \<lparr>shape = [1, 2, 1, 2], data = [5, 6, 7, 8]\<rparr>)
     = rmap (scale 3) (corr 2 \<lparr>shape = [1, 2, 1, 2], data = [1, 2, 3, 4]\<rparr>
                              \<lparr>shape = [1, 2, 1, 2], data = [5, 6, 7, 8]\<rparr>) \<and>
   (\<exists>c. corr 2 \<lparr>shape = [1, 2, 1, 2], data = [1, 2, 3, 4 :: int]\<rparr>
                \<lparr>shape = [1, 2, 1, 2], data = [5, 6, 7, 8]\<rparr> = Inr c)"
proof -
  let ?f1 = "\<lparr>shape = [1, 2, 1, 2], data = [1, 2, 3, 4 :: int]\<rparr>"
  let ?f2 = "\<lparr>shape = [1, 2, 1, 2], data = [5, 6, 7, 8 :: int]\<rparr>"
  have "wf ?f1" "wf ?f2" "shape ?f1 = [1, 2, 1, 2]" "shape ?f2 = [1, 2, 1, 2]"
       "0 < (2::nat)" "(2::nat) dvd 2"
    by (simp_all add: wf_def)
  from corr_bilinear [OF this, of 3] show ?thesis .
qed

section \<open>Padding round trip\<close>

lemma valid_index_append:
  "valid_index (s1 @ s2) idx \<longleftrightarrow>
     (\<exists>a b. idx = a @ b \<and> valid_index s1 a \<and> valid_index s2 b)"
  by (auto simp: valid_index_def list_all2_append2 dest: list_all2_lengthD)

lemma valid_index_append_same [simp]:
  "length a = length s1 \<Longrightarrow> valid_index (s1 @ s2) (a @ b) \<longleftrightarrow> valid_index s1 a \<and> valid_index s2 b"
  by (simp add: valid_index_def list_all2_append)

lemma valid_index_lead2:
  assumes "valid_index (lead @ [h, w]) idx"
  obtains li i j where "idx = li @ [i, j]" "valid_index lead li" "i < h" "j < w"
proof -
  from assms obtain a b where "idx = a @ b" "valid_index lead a" "valid_index [h, w] b"
    by (auto simp: valid_index_append)
  moreover from this obtain i j where "b = [i, j]" "i < h" "j < w"
    by (auto simp: valid_index_Cons_iff)
  ultimately show ?thesis using that by blast
qed

lemma butlast2_snoc2 [simp]: "butlast (butlast (xs @ [a, b])) = xs"
  by (simp add: butlast_append)

lemma last_butlast_snoc2 [simp]: "last (butlast (xs @ [a, b])) = a"
  by (simp add: butlast_append)

lemma rev_snoc2: "rev (xs @ [a, b]) = b # a # rev xs"
  by simp

lemma pad_bounds4:
  "pad_bounds (length lead + 2) [l, r, t, b] = replicate (length lead) (0, 0) @ [(t, b), (l, r)]"
  by (simp add: pad_bounds_def)

lemma map2_replicate_zero:
  "map2 (\<lambda>n (lo, hi). int n + lo + hi) s (replicate (length s) (0, 0)) = map int s"
  by (induction s) auto

lemma padded_shape4:
  "padded_shape (lead @ [h, w]) (replicate (length lead) (0, 0) @ [(t, b), (l, r)])
     = map int lead @ [int h + t + b, int w + l + r]"
  by (simp add: padded_shape_def map2_replicate_zero)

lemma map2_source_zero:
  "length li = n \<Longrightarrow> map2 (\<lambda>i (lo, hi). int i - lo) li (replicate n (0, 0)) = map int li"
  by (induction li arbitrary: n) auto

lemma pad_source4:
  "length li = length lead \<Longrightarrow>
     pad_source (li @ [i, j]) (replicate (length lead) (0, 0) @ [(t, b), (l, r)])
       = map int li @ [int i - t, int j - l]"
  by (simp add: pad_source_def map2_source_zero)

lemma clamp_valid:
  "valid_index lead li \<Longrightarrow> map2 (\<lambda>i m. nat (clamp i 0 (int m - 1))) (map int li) lead = li"
proof (induction lead arbitrary: li)
  case Nil
  then show ?case by simp
next
  case (Cons n ns)
  then obtain i "is" where "li = i # is" "i < n" "valid_index ns is"
    by (auto simp: valid_index_Cons_iff)
  with Cons.IH [of "is"] show ?case by (simp add: clamp_def)
qed

lemma replicate_source4:
  "valid_index lead li \<Longrightarrow>
     map2 (\<lambda>i m. nat (clamp i 0 (int m - 1))) (map int li @ [a, c]) (lead @ [h, w])
       = li @ [nat (clamp a 0 (int h - 1)), nat (clamp c 0 (int w - 1))]"
  by (simp add: clamp_valid valid_index_length)

lemma map_nat_int [simp]: "map nat (map int xs) = xs"
  by (induction xs) auto

lemma map_nat_o_int [simp]: "map (nat \<circ> int) xs = xs"
  by (induction xs) auto

lemma list_all_pos_int: "list_all (\<lambda>m. 0 < m) xs \<Longrightarrow> list_all (\<lambda>m. (1::int) \<le> m) (map int xs)"
  by (induction xs) auto

lemma F_pad_replicate4:
  fixes x :: "'a::zero tensor"
  assumes s: "shape x = lead @ [h, w]"
    and n: "length lead = 1 \<or> length lead = 2"
    and pos: "list_all (\<lambda>m. 0 < m) (shape x)"
    and oh: "1 \<le> int h + t + b" and ow: "1 \<le> int w + l + r"
  shows "F_pad x [l, r, t, b] ''replicate'' =
     Inr (tabulate (lead @ [nat (int h + t + b), nat (int w + l + r)])
        (\<lambda>idx. tget x (map2 (\<lambda>i m. nat (clamp i 0 (int m - 1)))
            (pad_source idx (replicate (length lead) (0, 0) @ [(t, b), (l, r)])) (lead @ [h, w]))))"
proof -
  let ?bs = "replicate (length lead) (0, 0) @ [(t, b), (l, r)]"
  let ?k = "length [l, r, t, b] div 2"
  have len: "length (shape x) = length lead + 2" by (simp add: s)
  have pb: "pad_bounds (length (shape x)) [l, r, t, b] = ?bs"
    unfolding len by (rule pad_bounds4)
  have tlpos: "list_all (\<lambda>m. 0 < m) (tl (shape x))"
    using pos by (cases "shape x") auto
  have leadpos: "list_all (\<lambda>m. (1::int) \<le> m) (map int lead)"
    using pos by (intro list_all_pos_int) (simp add: s)
  have c1: "(odd (length [l, r, t, b]) \<or> length (shape x) < ?k) = False"
    by (simp add: len)
  have c2: "(''replicate'' = ''constant'') = False" by simp
  have c3: "(\<not> (1 \<le> ?k \<and> ?k \<le> 3 \<and> (length (shape x) = ?k + 1 \<or> length (shape x) = ?k + 2))) = False"
    using n by (auto simp: len)
  have c4: "(\<not> list_all (\<lambda>m. 0 < m) (if length (shape x) = ?k + 2 then tl (shape x) else shape x)) = False"
    using pos tlpos by simp
  have ps: "padded_shape (shape x) ?bs = map int lead @ [int h + t + b, int w + l + r]"
    unfolding s by (rule padded_shape4)
  have c5a: "list_all (\<lambda>m. 1 \<le> m) (padded_shape (shape x) ?bs)"
    unfolding ps using leadpos oh ow by simp
  have c5: "(\<not> list_all (\<lambda>m. 1 \<le> m) (if length (shape x) = ?k + 2
        then tl (padded_shape (shape x) ?bs) else padded_shape (shape x) ?bs)) = False"
    using c5a by (cases "padded_shape (shape x) ?bs") auto
  have ms: "map nat (padded_shape (shape x) ?bs) = lead @ [nat (int h + t + b), nat (int w + l + r)]"
    unfolding ps by simp
  show ?thesis
    unfolding F_pad_def Let_def pb
    by (simp only: c1 c2 c3 c4 c5 ms if_False if_True refl) (simp only: s)
qed

lemma tget_F_pad_replicate4:
  fixes x :: "'a::zero tensor"
  assumes s: "shape x = lead @ [h, w]"
    and y: "y = tabulate (lead @ [oh, ow])
        (\<lambda>idx. tget x (map2 (\<lambda>i m. nat (clamp i 0 (int m - 1)))
            (pad_source idx (replicate (length lead) (0, 0) @ [(t, b), (l, r)])) (lead @ [h, w])))"
    and v: "valid_index lead li" "i < oh" "j < ow"
  shows "tget y (li @ [i, j]) =
      tget x (li @ [nat (clamp (int i - t) 0 (int h - 1)), nat (clamp (int j - l) 0 (int w - 1))])"
proof -
  have "valid_index (lead @ [oh, ow]) (li @ [i, j])"
    using v by (simp add: valid_index_length)
  then show ?thesis
    unfolding y using v(1)
    by (simp add: tget_tabulate pad_source4 replicate_source4 clamp_valid valid_index_length)
qed

lemma slice_last2_Inr:
  assumes "shape y = lead @ [h, w]"
  shows "slice_last2 y a b c d =
    Inr (tabulate (lead @ [slice_bound h b - slice_bound h a, slice_bound w d - slice_bound w c])
       (\<lambda>idx. tget y (butlast (butlast idx) @ [slice_bound h a + last (butlast idx), slice_bound w c + last idx])))"
  by (simp add: slice_last2_def assms Let_def)

lemma slice_bound_nonneg [simp]: "slice_bound n (int a) = min a n"
  by (simp add: slice_bound_def)

lemma sequence_single [simp]: "sequence [Inr y] = Inr [y]"
  by simp

lemma slice_pad_identity:
  fixes x :: "'a::zero tensor"
  assumes wfx: "wf x" and s: "shape x = lead @ [h, w]"
    and sy: "shape y = lead @ [h + t + b, w + l + r]"
    and ty: "\<And>li i j. valid_index lead li \<Longrightarrow> i < h \<Longrightarrow> j < w \<Longrightarrow>
              tget y (li @ [t + i, l + j]) = tget x (li @ [i, j])"
  shows "slice_last2 y (int t) (int (h + t + b) - int b) (int l) (int (w + l + r) - int r) = Inr x"
proof -
  have b1: "slice_bound (h + t + b) (int t) = t" "slice_bound (w + l + r) (int l) = l"
    "slice_bound (h + t + b) (int (h + t + b) - int b) = h + t"
    "slice_bound (w + l + r) (int (w + l + r) - int r) = w + l"
    by (simp_all add: slice_bound_def)
  let ?z = "tabulate (lead @ [h, w])
       (\<lambda>idx. tget y (butlast (butlast idx) @ [t + last (butlast idx), l + last idx]))"
  have "slice_last2 y (int t) (int (h + t + b) - int b) (int l) (int (w + l + r) - int r) = Inr ?z"
    unfolding slice_last2_Inr [OF sy] b1 by simp
  moreover have "?z = x"
  proof (rule tensor_eqI)
    fix idx assume "valid_index (shape ?z) idx"
    then have v: "valid_index (lead @ [h, w]) idx" by simp
    then obtain li i j where idx: "idx = li @ [i, j]" and r: "valid_index lead li" "i < h" "j < w"
      by (rule valid_index_lead2)
    show "tget ?z idx = tget x idx"
      using v ty [OF r] unfolding idx by (simp add: tget_tabulate)
  qed (simp_all add: wfx s)
  ultimately show ?thesis by simp
qed

lemma pad_unpad:
  fixes x :: "'a::zero tensor"
  assumes wfx: "wf x" and s: "shape x = lead @ [h, w]"
    and n: "length lead = 1 \<or> length lead = 2"
    and pos: "list_all (\<lambda>m. 0 < m) (shape x)"
    and p: "padder_pad p = [int l, int r, int t, int b]"
  shows "\<exists>y. pad p [x] = Inr [y] \<and> unpad p y = Inr x"
proof (cases "l + r + t + b = 0")
  case True
  then have z: "l = 0" "r = 0" "t = 0" "b = 0" by simp_all
  have "pad p [x] = Inr [x]" by (simp add: pad_def p z)
  moreover have "unpad p x = Inr x"
    using slice_pad_identity [OF wfx s, of x 0 0 0 0]
    by (simp add: unpad_def s p z)
  ultimately show ?thesis by blast
next
  case False
  have hw: "0 < h" "0 < w" using pos by (simp_all add: s)
  define y :: "'a tensor" where "y = tabulate (lead @ [h + t + b, w + l + r])
        (\<lambda>idx. tget x (map2 (\<lambda>i m. nat (clamp i 0 (int m - 1)))
            (pad_source idx (replicate (length lead) (0, 0) @ [(int t, int b), (int l, int r)])) (lead @ [h, w])))"
  have fp: "F_pad x [int l, int r, int t, int b] ''replicate'' = Inr y"
    using F_pad_replicate4 [OF s n pos, of "int t" "int b" "int l" "int r"] hw
    by (simp add: y_def nat_add_distrib)
  have "int l + int r + int t + int b \<noteq> 0" using False by linarith
  then have "sum_list (padder_pad p) \<noteq> 0" by (simp add: p)
  then have "pad p [x] = Inr [y]" by (simp add: pad_def p fp)
  moreover have "unpad p y = Inr x"
  proof -
    have sy: "shape y = lead @ [h + t + b, w + l + r]" by (simp add: y_def)
    have "tget y (li @ [t + i, l + j]) = tget x (li @ [i, j])"
      if "valid_index lead li" "i < h" "j < w" for li i j
      using tget_F_pad_replicate4 [OF s y_def that(1), of "t + i" "l + j"] that
      by (simp add: clamp_def)
    from slice_pad_identity [OF wfx s sy this] show ?thesis
      by (simp add: unpad_def sy p)
  qed
  ultimately show ?thesis by blast
qed

text \<open>
  Claim C9. For a non-empty image tensor \<open>x\<close> (3-D or 4-D, the tensors replicate padding
  of two axes is implemented for) with spatial size \<open>(h, w)\<close>: building an
  \<^verbatim>\<open>InputPadder\<close> from the shape of \<open>x\<close>, padding and then unpadding gives
  \<open>x\<close> back. This holds for the default mode \<^verbatim>\<open>sintel\<close> and for every other
  mode, for \<^verbatim>\<open>kitti400\<close> as long as the image is at most 400 rows high.
\<close>

theorem InputPadder_pad_unpad:
  fixes x :: "'a::zero tensor"
  assumes wfx: "wf x" and s: "shape x = lead @ [h, w]"
    and n: "length lead = 1 \<or> length lead = 2"
    and pos: "list_all (\<lambda>m. 0 < m) (shape x)"
    and k: "mode = ''kitti400'' \<Longrightarrow> h \<le> 400"
  shows "\<exists>p y. InputPadder_init (shape x) mode = Inr p \<and> pad p [x] = Inr [y] \<and> unpad p y = Inr x"
proof -
  define ph where "ph = nat ((((int h div 8) + 1) * 8 - int h) mod 8)"
  define pw where "pw = nat ((((int w div 8) + 1) * 8 - int w) mod 8)"
  have iph: "(int h div 8 * 8 + 8 - int h) mod 8 = int ph"
    and ipw: "(int w div 8 * 8 + 8 - int w) mod 8 = int pw"
    by (simp_all add: ph_def pw_def)
  define l r t b where
    "l = (if mode = ''kitti400'' then 0 else pw div 2)"
    and "r = (if mode = ''kitti400'' then 0 else pw - pw div 2)"
    and "t = (if mode = ''sintel'' then ph div 2 else 0)"
    and "b = (if mode = ''sintel'' then ph - ph div 2
              else if mode = ''kitti400'' then 400 - h else ph)"
  define p where "p = \<lparr>padder_ht = h, padder_wd = w, padder_pad = [int l, int r, int t, int b]\<rparr>"
  have "InputPadder_init (shape x) mode = Inr p"
    using k
    by (simp add: InputPadder_init_def s Let_def iph ipw p_def l_def r_def t_def b_def zdiv_int of_nat_diff)
  moreover from pad_unpad [OF wfx s n pos, of p l r t b]
  obtain y where "pad p [x] = Inr [y]" "unpad p y = Inr x"
    by (auto simp: p_def)
  ultimately show ?thesis by blast
qed

theorem InputPadder_pad_unpad_witness:
  "\<exists>p y. InputPadder_init [1, 2, 3] ''sintel'' = Inr p \<and>
      pad p [\<lparr>shape = [1, 2, 3], data = [1, 2, 3, 4, 5, 6 :: int]\<rparr>] = Inr [y] \<and>
      unpad p y = Inr \<lparr>shape = [1, 2, 3], data = [1, 2, 3, 4, 5, 6]\<rparr>"
proof -
  let ?x = "\<lparr>shape = [1, 2, 3], data = [1, 2, 3, 4, 5, 6 :: int]\<rparr>"
  have "wf ?x" "shape ?x = [1] @ [2, 3]" "length [1::nat] = 1 \<or> length [1::nat] = 2"
    "list_all (\<lambda>m. 0 < m) (shape ?x)"
    by (simp_all add: wf_def)
  from InputPadder_pad_unpad [OF this, of "''sintel''"] show ?thesis by simp
qed


section \<open>The samplers and the store\<close>

lemma wf_map_t [simp]: "wf (map_t f t) = wf t"
  by (simp add: wf_def map_t_def)

lemma shape_map_t [simp]: "shape (map_t f t) = shape t"
  by (simp add: map_t_def)

lemma tget_map_t:
  "wf t \<Longrightarrow> valid_index (shape t) idx \<Longrightarrow> tget (map_t f t) idx = f (tget t idx)"
  using ravel_less [of "shape t" idx] by (simp add: tget_def map_t_def wf_def)

lemma valid_index_snoc [simp]:
  "length idx = length lead \<Longrightarrow> valid_index (lead @ [n]) (idx @ [k]) \<longleftrightarrow> valid_index lead idx \<and> k < n"
  by simp

lemma select_last_Inr:
  "shape t = lead @ [n] \<Longrightarrow> k < n \<Longrightarrow>
     select_last t k = Inr (tabulate lead (\<lambda>idx. tget t (idx @ [k])))"
  by (simp add: select_last_def)

lemma assign_last_Inr:
  "shape t = lead @ [n] \<Longrightarrow> k < n \<Longrightarrow> shape v = lead \<Longrightarrow>
     assign_last t k v = Inr (tabulate (lead @ [n])
             (\<lambda>idx. if last idx = k then tget v (butlast idx) else tget t idx))"
  by (simp add: assign_last_def)

lemma bilinear_sampler_store:
  assumes si: "shape (s img) = li @ [H, W]"
    and sc: "shape (s coords) = lead @ [n]" and n: "2 \<le> n"
  shows "snd (bilinear_sampler grid_sample s img coords) =
     s(coords := tabulate (lead @ [n])
        (\<lambda>idx. if last idx = 0
                then scalar_sub (scalar_div (scalar_mul 2 (tget (s coords) idx)) (int W - 1)) 1
                else if last idx = 1
                then scalar_sub (scalar_div (scalar_mul 2 (tget (s coords) idx)) (int H - 1)) 1
                else tget (s coords) idx))"
proof -
  let ?fx = "\<lambda>x. scalar_sub (scalar_div (scalar_mul 2 x) (int W - 1)) 1"
  let ?fy = "\<lambda>y. scalar_sub (scalar_div (scalar_mul 2 y) (int H - 1)) 1"
  let ?c0 = "tabulate lead (\<lambda>idx. tget (s coords) (idx @ [0]))"
  let ?coords1 = "tabulate (lead @ [n])
      (\<lambda>idx. if last idx = 0 then tget (map_t ?fx ?c0) (butlast idx) else tget (s coords) idx)"
  let ?s1 = "s(coords := ?coords1)"
  let ?c1 = "tabulate lead (\<lambda>idx. tget ?coords1 (idx @ [1]))"
  let ?coords2 = "tabulate (lead @ [n])
      (\<lambda>idx. if last idx = 1 then tget (map_t ?fy ?c1) (butlast idx) else tget ?coords1 idx)"
  let ?r = "tabulate (lead @ [n])
        (\<lambda>idx. if last idx = 0 then ?fx (tget (s coords) idx)
                else if last idx = 1 then ?fy (tget (s coords) idx)
                else tget (s coords) idx)"
  have a: "select_last (s coords) 0 = Inr ?c0"
    using n by (intro select_last_Inr [OF sc]) simp
  have b: "assign_last (s coords) 0 (map_t ?fx ?c0) = Inr ?coords1"
    using n by (intro assign_last_Inr [OF sc]) simp_all
  have c: "select_last (?s1 coords) 1 = Inr ?c1"
    unfolding fun_upd_same using n by (intro select_last_Inr [where n = n]) simp_all
  have d: "assign_last (?s1 coords) 1 (map_t ?fy ?c1) = Inr ?coords2"
    unfolding fun_upd_same using n by (intro assign_last_Inr [where n = n]) simp_all
  have "?coords2 = ?r"
  proof (rule tensor_eqI)
    fix idx assume "valid_index (shape ?coords2) idx"
    then have v: "valid_index (lead @ [n]) idx" by simp
    then obtain i k where idx: "idx = i @ [k]" and vi: "valid_index lead i" and k: "k < n"
      by (auto simp: valid_index_append valid_index_Cons_iff)
    have len: "length i = length lead" using vi by (rule valid_index_length)
    have v1: "valid_index (lead @ [n]) (i @ [Suc 0])" using vi n len by simp
    show "tget ?coords2 idx = tget ?r idx"
      using v vi k n len v1 unfolding idx
      by (simp add: tget_tabulate tget_map_t)
  qed simp_all
  moreover have "rev (li @ [H, W]) = W # H # rev li" by simp
  ultimately show ?thesis
    unfolding bilinear_sampler_def si
    by (simp only: list.case a b sum.case Let_def c d snd_conv fun_upd_upd)
qed

lemma indexing_store: "snd (indexing grid_sample s img coords want_mask) = s"
  by (simp add: indexing_def Let_def split: list.splits sum.splits prod.splits)

lemma normalise_finite:
  "n \<noteq> 1 \<Longrightarrow> scalar_sub (scalar_div (scalar_mul 2 (Finite x)) (int n - 1)) 1
     = Finite (2 * x / real_of_int (int n - 1) - 1)"
  by simp

lemma normalise_size_one:
  "scalar_sub (scalar_div (scalar_mul 2 (Finite x)) (int 1 - 1)) 1
     = (if 0 < x then PInf else if x < 0 then NInf else NaN)"
  by simp

lemma bilinear_sampler_width_one:
  "tget (snd (bilinear_sampler (\<lambda>m i g. Inr i)
            (\<lambda>a. if a = 0 then \<lparr>shape = [1, 1, 3, 1], data = replicate 3 (Finite 0)\<rparr>
                  else \<lparr>shape = [1, 1, 1, 2], data = [Finite 4, Finite 2]\<rparr>) 0 1) 1)
         [0, 0, 0, 0] = PInf"
proof -
  let ?s = "\<lambda>a::nat. if a = 0 then \<lparr>shape = [1, 1, 3, 1], data = replicate 3 (Finite 0)\<rparr>
                  else \<lparr>shape = [1, 1, 1, 2], data = [Finite 4, Finite 2]\<rparr>"
  have h: "shape (?s 0) = [1, 1] @ [3, 1]" "shape (?s 1) = [1, 1, 1] @ [2]" "(2::nat) \<le> 2"
    by simp_all
  show ?thesis
    unfolding bilinear_sampler_store [OF h] fun_upd_same
    by (subst tget_tabulate) (simp_all add: tget_def)
qed

text \<open>
  Claim C10. \<^verbatim>\<open>bilinear_sampler\<close> writes into its \<^verbatim>\<open>coords\<close> argument: for an
  image of size \<open>(H, W)\<close> and coordinates whose last axis holds at least \<open>x\<close> and
  \<open>y\<close>, after the call the caller's tensor holds the floating-point value of
  \<open>2 * x / (W - 1) - 1\<close> in place of every \<open>x\<close> and of \<open>2 * y / (H - 1) - 1\<close> in
  place of every \<open>y\<close>, whatever \<^verbatim>\<open>grid_sample\<close> does afterwards, and nothing else
  in the store changes. For a finite \<open>x\<close> and \<open>W \<noteq> 1\<close> that value is the number
  \<open>2 * x / (W - 1) - 1\<close>; for \<open>W = 1\<close> the division is by zero and the value is an
  infinity of the sign of \<open>x\<close>, or NaN for \<open>x = 0\<close>; likewise for \<open>y\<close> and \<open>H\<close>.
  \<^verbatim>\<open>indexing\<close> leaves the whole store, so its \<^verbatim>\<open>coords\<close>, as it was.
\<close>

theorem bilinear_sampler_mutates_coords:
  assumes "shape (s img) = li @ [H, W]"
    and "shape (s coords) = lead @ [n]" and "2 \<le> n"
  shows "(\<forall>a. a \<noteq> coords \<longrightarrow> snd (bilinear_sampler grid_sample s img coords) a = s a) \<and>
    shape (snd (bilinear_sampler grid_sample s img coords) coords) = shape (s coords) \<and>
    (\<forall>i. valid_index lead i \<longrightarrow>
       tget (snd (bilinear_sampler grid_sample s img coords) coords) (i @ [0])
         = scalar_sub (scalar_div (scalar_mul 2 (tget (s coords) (i @ [0]))) (int W - 1)) 1 \<and>
       tget (snd (bilinear_sampler grid_sample s img coords) coords) (i @ [1])
         = scalar_sub (scalar_div (scalar_mul 2 (tget (s coords) (i @ [1]))) (int H - 1)) 1 \<and>
       (\<forall>x. tget (s coords) (i @ [0]) = Finite x \<longrightarrow>
          tget (snd (bilinear_sampler grid_sample s img coords) coords) (i @ [0])
            = (if W \<noteq> 1 then Finite (2 * x / real_of_int (int W - 1) - 1)
               else if 0 < x then PInf else if x < 0 then NInf else NaN)) \<and>
       (\<forall>y. tget (s coords) (i @ [1]) = Finite y \<longrightarrow>
          tget (snd (bilinear_sampler grid_sample s img coords) coords) (i @ [1])
            = (if H \<noteq> 1 then Finite (2 * y / real_of_int (int H - 1) - 1)
               else if 0 < y then PInf else if y < 0 then NInf else NaN)) \<and>
       (\<forall>k. 2 \<le> k \<longrightarrow> k < n \<longrightarrow>
          tget (snd (bilinear_sampler grid_sample s img coords) coords) (i @ [k])
            = tget (s coords) (i @ [k]))) \<and>
    snd (indexing grid_sample s img coords want_mask) = s"
proof -
  let ?new = "snd (bilinear_sampler grid_sample s img coords)"
  note st = bilinear_sampler_store [OF assms, of grid_sample]
  have e: "tget (?new coords) (i @ [k]) =
      (if k = 0 then scalar_sub (scalar_div (scalar_mul 2 (tget (s coords) (i @ [k]))) (int W - 1)) 1
       else if k = 1 then scalar_sub (scalar_div (scalar_mul 2 (tget (s coords) (i @ [k]))) (int H - 1)) 1
       else tget (s coords) (i @ [k]))"
    if "valid_index lead i" "k < n" for i k
  proof -
    have "valid_index (lead @ [n]) (i @ [k])"
      using that by (simp add: valid_index_length)
    then show ?thesis unfolding st by (simp add: tget_tabulate)
  qed
  have 1: "?new a = s a" if "a \<noteq> coords" for a
    unfolding st using that by simp
  have 2: "shape (?new coords) = shape (s coords)"
    unfolding st by (simp add: assms)
  have 3: "tget (?new coords) (i @ [0])
         = scalar_sub (scalar_div (scalar_mul 2 (tget (s coords) (i @ [0]))) (int W - 1)) 1"
    if "valid_index lead i" for i
    using e [OF that, of 0] assms(3) by simp
  have 4: "tget (?new coords) (i @ [1])
         = scalar_sub (scalar_div (scalar_mul 2 (tget (s coords) (i @ [1]))) (int H - 1)) 1"
    if "valid_index lead i" for i
    using e [OF that, of 1] assms(3) by simp
  have 5: "tget (?new coords) (i @ [0])
            = (if W \<noteq> 1 then Finite (2 * x / real_of_int (int W - 1) - 1)
               else if 0 < x then PInf else if x < 0 then NInf else NaN)"
    if "valid_index lead i" "tget (s coords) (i @ [0]) = Finite x" for i x
    unfolding 3 [OF that(1)] that(2) by simp
  have 6: "tget (?new coords) (i @ [1])
            = (if H \<noteq> 1 then Finite (2 * y / real_of_int (int H - 1) - 1)
               else if 0 < y then PInf else if y < 0 then NInf else NaN)"
    if "valid_index lead i" "tget (s coords) (i @ [1]) = Finite y" for i y
    unfolding 4 [OF that(1)] that(2) by simp
  have 7: "tget (?new coords) (i @ [k]) = tget (s coords) (i @ [k])"
    if "valid_index lead i" "2 \<le> k" "k < n" for i k
    using e [OF that(1,3)] that(2) by simp
  have 8: "snd (indexing grid_sample s img coords want_mask) = s"
    by (rule indexing_store)
  show ?thesis
    using 1 2 3 4 5 6 7 8 by (intro conjI allI impI) blast+
qed

theorem bilinear_sampler_mutates_coords_witness:
  "tget (snd (bilinear_sampler (\<lambda>m i g. Inr i)
            (\<lambda>a. if a = 0 then \<lparr>shape = [1, 1, 3, 5], data = replicate 15 (Finite 0)\<rparr>
                  else \<lparr>shape = [1, 1, 1, 2], data = [Finite 4, Finite 2]\<rparr>) 0 1) 1)
         ([0, 0, 0] @ [0]) = Finite 1 \<and>
   tget (snd (bilinear_sampler (\<lambda>m i g. Inr i)
            (\<lambda>a. if a = 0 then \<lparr>shape = [1, 1, 3, 5], data = replicate 15 (Finite 0)\<rparr>
                  else \<lparr>shape = [1, 1, 1, 2], data = [Finite 4, Finite 2]\<rparr>) 0 1) 1)
         ([0, 0, 0] @ [1]) = Finite 1 \<and>
   snd (indexing (\<lambda>m i g. Inr i)
            (\<lambda>a. if a = 0 then \<lparr>shape = [1, 1, 3, 5], data = replicate 15 (Finite 0)\<rparr>
                  else \<lparr>shape = [1, 1, 1, 2], data = [Finite 4, Finite 2]\<rparr>) 0 1 False)
     = (\<lambda>a. if a = 0 then \<lparr>shape = [1, 1, 3, 5], data = replicate 15 (Finite 0)\<rparr>
                  else \<lparr>shape = [1, 1, 1, 2], data = [Finite 4, Finite 2]\<rparr>)"
proof -
  let ?s = "\<lambda>a::nat. if a = 0 then \<lparr>shape = [1, 1, 3, 5], data = replicate 15 (Finite 0)\<rparr>
                  else \<lparr>shape = [1, 1, 1, 2], data = [Finite 4, Finite 2]\<rparr>"
  have h: "shape (?s 0) = [1, 1] @ [3, 5]" "shape (?s 1) = [1, 1, 1] @ [2]" "(2::nat) \<le> 2"
    by simp_all
  note th = bilinear_sampler_mutates_coords [OF h, of "\<lambda>m i g. Inr i" False]
  have v: "valid_index [1, 1, 1] [0, 0, 0]" by simp
  from th [THEN conjunct2, THEN conjunct2, THEN conjunct1, rule_format, OF v]
       th [THEN conjunct2, THEN conjunct2, THEN conjunct2]
  show ?thesis by (simp add: tget_def)
qed

section \<open>The layers: what succeeds and what raises\<close>

lemma call_coords_grid5 [simp]: "call_coords_grid [a, b, c, d, e] = Inl TypeError"
  by (simp add: call_coords_grid_def split: pyarg.splits)

lemma rbind_eq_Inr: "rbind m f = Inr y \<longleftrightarrow> (\<exists>x. m = Inr x \<and> f x = Inr y)"
  by (cases m) simp_all

lemma rbind_raises: "(\<And>x. \<exists>e. f x = Inl e) \<Longrightarrow> \<exists>e. rbind m f = Inl e"
  by (cases m) simp_all

lemma PatchEmbed_forward_raises: "\<exists>e. PatchEmbed_forward pos self x = Inl e"
  unfolding PatchEmbed_forward_def Let_def
  by (auto split: list.splits intro!: rbind_raises)

lemma LocallyGrouped_forward_raises: "\<exists>e. LocallyGroupedAttnRPEContext_forward pos self x sz context = Inl e"
  unfolding LocallyGroupedAttnRPEContext_forward_def Let_def
  by (auto split: list.splits prod.splits intro!: rbind_raises)

lemma GlobalSubSample_forward_raises: "\<exists>e. GlobalSubSampleAttnRPEContext_forward pos self x sz context = Inl e"
  unfolding GlobalSubSampleAttnRPEContext_forward_def Let_def
  by (auto split: list.splits prod.splits intro!: rbind_raises)

lemma wf_shape_update: "wf (t\<lparr>shape := s\<rparr>) \<longleftrightarrow> length (data t) = prod_list s"
  by (simp add: wf_def)

lemma view_ok:
  "wf t \<Longrightarrow> prod_list s = prod_list (shape t) \<Longrightarrow>
     \<exists>y. view s t = Inr y \<and> shape y = s \<and> wf y"
  by (simp add: view_def wf_def)

lemma reshape_ok:
  "wf t \<Longrightarrow> prod_list s = prod_list (shape t) \<Longrightarrow>
     \<exists>y. reshape s t = Inr y \<and> shape y = s \<and> wf y"
  by (simp add: reshape_def view_ok)

lemma permute_ok:
  "is_perm ps (length (shape t)) \<Longrightarrow>
     \<exists>y. permute ps t = Inr y \<and> shape y = pick ps (shape t) \<and> wf y"
  by (simp add: permute_def)

lemma transpose_t_ok:
  "d0 < length (shape t) \<Longrightarrow> d1 < length (shape t) \<Longrightarrow>
     is_perm (swap_axes (length (shape t)) d0 d1) (length (shape t)) \<Longrightarrow>
     \<exists>y. transpose_t d0 d1 t = Inr y \<and>
         shape y = pick (swap_axes (length (shape t)) d0 d1) (shape t) \<and> wf y"
  by (simp add: transpose_t_def permute_ok)

lemma Linear_forward_ok:
  "shape x = lead @ [n] \<Longrightarrow> in_features l = n \<Longrightarrow>
     \<exists>y. Linear_forward l x = Inr y \<and> shape y = lead @ [out_features l] \<and> wf y"
  by (simp add: Linear_forward_def)


lemma Conv2d_forward_ok:
  "shape x = [B, C, H, W] \<Longrightarrow> in_channels c = C \<Longrightarrow> 0 < out_channels c \<Longrightarrow> 0 < stride c \<Longrightarrow>
     kernel_size c \<le> H + 2 * padding c \<Longrightarrow> kernel_size c \<le> W + 2 * padding c \<Longrightarrow>
     \<exists>y. Conv2d_forward c x = Inr y \<and> wf y \<and>
       shape y = [B, out_channels c, (H + 2 * padding c - kernel_size c) div stride c + 1,
                  (W + 2 * padding c - kernel_size c) div stride c + 1]"
  by (simp add: Conv2d_forward_def Let_def)

lemma wf_map_t' [simp]: "wf (map_t f t) = wf t"
  by (simp add: wf_def map_t_def)

lemma shape_map_t' [simp]: "shape (map_t f t) = shape t"
  by (simp add: map_t_def)

lemma shape_ReLU [simp]: "shape (ReLU x) = shape x"
  by (simp add: ReLU_def)

lemma shape_GELU [simp]: "shape (GELU x) = shape x"
  by (simp add: GELU_def)


lemma DropPath_id [simp]: "DropPath p x = x"
  by (simp add: DropPath_def)

lemma F_pad_constant4:
  fixes x :: "'a::zero tensor"
  assumes "shape x = [B, C, H, W]"
  shows "\<exists>y. F_pad x [0, int pr, 0, int pb] ''constant'' = Inr y \<and>
             shape y = [B, C, H + pb, W + pr] \<and> wf y"
  using assms
  by (simp add: F_pad_def Let_def pad_bounds_def padded_shape_def nat_add_distrib)

lemma F_pad_constant6:
  fixes x :: "'a::zero tensor"
  assumes "shape x = [B, H, W, C]"
  shows "\<exists>y. F_pad x [0, 0, 0, int pr, 0, int pb] ''constant'' = Inr y \<and>
             shape y = [B, H + pb, W + pr, C] \<and> wf y"
  using assms
  by (simp add: F_pad_def Let_def pad_bounds_def padded_shape_def nat_add_distrib)

lemma repeat_t_ok4:
  "shape t = [a, b, c, d] \<Longrightarrow>
     \<exists>y. repeat_t [r, 1, 1, 1] t = Inr y \<and> shape y = [r * a, b, c, d] \<and> wf y"
  by (simp add: repeat_t_def Let_def)

lemma torch_cat_last4:
  "shape a = [B, H, W, C] \<Longrightarrow> shape b = [B, H, W, D] \<Longrightarrow>
     \<exists>y. torch_cat a b (- 1) = Inr y \<and> shape y = [B, H, W, C + D] \<and> wf y"
  by (simp add: torch_cat_def norm_dim_def)

lemma select0_ok:
  "shape t = n # s \<Longrightarrow> 0 < n \<Longrightarrow> \<exists>y. select0 t = Inr y \<and> shape y = s"
  by (simp add: select0_def)

lemma list_ex_map_int [simp]: "list_ex (\<lambda>s. s < - 1) (map int xs) = False"
  by (induction xs) auto

lemma count_list_map_int [simp]: "count_list (map int xs) (- 1) = 0"
  by (induction xs) auto

lemma filter_map_int [simp]: "filter (\<lambda>s. s \<noteq> - 1) (map int xs) = map int xs"
  by (induction xs) auto

lemma map_infer_map_int [simp]: "map (\<lambda>s. if s = - 1 then k else nat s) (map int xs) = xs"
  by (induction xs) auto

lemma map_infer_o_int [simp]: "map ((\<lambda>s. if s = - 1 then k else nat s) \<circ> int) xs = xs"
  by (induction xs) auto

lemma prod_list_nat_int [simp]: "prod_list (map nat (map int xs)) = prod_list xs"
  by (induction xs) auto

lemma infer_size_minus1:
  assumes "n = prod_list pre * m * prod_list post" "prod_list pre * prod_list post \<noteq> 0"
  shows "infer_size (map int pre @ [- 1] @ map int post) n = Inr (pre @ [m] @ post)"
proof -
  let ?k = "prod_list pre * prod_list post"
  have n: "n = m * ?k" using assms(1) by (simp add: mult_ac)
  have "n mod ?k = 0" "n div ?k = m" using assms(2) unfolding n by simp_all
  then show ?thesis
    using assms(2) by (simp add: infer_size_def Let_def)
qed

lemma view_i_minus1:
  assumes "wf t" "prod_list (shape t) = prod_list pre * m * prod_list post"
    "prod_list pre * prod_list post \<noteq> 0"
  shows "\<exists>y. view_i (map int pre @ [- 1] @ map int post) t = Inr y \<and>
              shape y = pre @ [m] @ post \<and> wf y"
proof -
  have "length (data t) = prod_list pre * m * prod_list post"
    using assms(1,2) by (simp add: wf_def)
  from infer_size_minus1 [OF this assms(3)] show ?thesis
    using assms by (simp add: view_i_def wf_def)
qed

lemma attach_context_ok:
  assumes wfx: "wf x" and sx: "shape x = [B, H * W, C]"
    and sc: "shape c = [Bc, 256, H, W]" and bc: "0 < Bc" "Bc dvd B"
    and pos: "0 < B" "0 < H" "0 < W"
    and lin: "in_features proj = 256"
  shows "\<exists>x' x_qk. attach_context proj x B H W C (Some c) = Inr (x', x_qk) \<and>
           shape x' = [B, H, W, C] \<and> wf x' \<and>
           shape x_qk = [B, H, W, C + out_features proj] \<and> wf x_qk"
proof -
  have fd: "floordiv B Bc = Inr (B div Bc)" using bc by (simp add: floordiv_def)
  have bb: "B div Bc * Bc = B" using bc by simp
  from repeat_t_ok4 [OF sc, of "B div Bc"] obtain c1 where
    c1: "repeat_t [B div Bc, 1, 1, 1] c = Inr c1" "shape c1 = [B, 256, H, W]" "wf c1"
    by (auto simp: bb)
  have "\<exists>y. view_i (map int [B] @ [- 1] @ map int [H * W]) c1 = Inr y \<and>
              shape y = [B] @ [256] @ [H * W] \<and> wf y"
    using pos by (intro view_i_minus1) (simp_all add: c1)
  then obtain c2 where
    c2: "view_i [int B, - 1, int (H * W)] c1 = Inr c2" "shape c2 = [B, 256, H * W]" "wf c2"
    by auto
  from permute_ok [of "[0, 2, 1]" c2] obtain c3 where
    c3: "permute [0, 2, 1] c2 = Inr c3" "shape c3 = [B, H * W, 256]" "wf c3"
    by (auto simp: c2 is_perm_def pick_def)
  from Linear_forward_ok [of c3 "[B, H * W]" 256 proj] obtain c4 where
    c4: "Linear_forward proj c3 = Inr c4" "shape c4 = [B, H * W, out_features proj]" "wf c4"
    by (auto simp: c3 lin)
  have "\<exists>y. view_i (map int [B, H, W] @ [- 1] @ map int []) c4 = Inr y \<and>
              shape y = [B, H, W] @ [out_features proj] @ [] \<and> wf y"
    using pos by (intro view_i_minus1) (simp_all add: c4 mult_ac)
  then obtain c5 where
    c5: "view_i [int B, int H, int W, - 1] c4 = Inr c5"
      "shape c5 = [B, H, W, out_features proj]" "wf c5"
    by auto
  from view_ok [OF wfx, of "[B, H, W, C]"] obtain x1 where
    x1: "view [B, H, W, C] x = Inr x1" "shape x1 = [B, H, W, C]" "wf x1"
    by (auto simp: sx mult_ac)
  from torch_cat_last4 [OF x1(2) c5(2)] obtain xq where
    xq: "torch_cat x1 c5 (- 1) = Inr xq" "shape xq = [B, H, W, C + out_features proj]" "wf xq"
    by auto
  have "attach_context proj x B H W C (Some c) = Inr (x1, xq)"
    by (simp only: attach_context_def option.case sc list.case fd rbind_Inr
          c1(1) c2(1) c3(1) c4(1) c5(1) x1(1) xq(1))
  then show ?thesis
    using x1 xq by simp
qed

lemma pad_up_multiple:
  assumes "0 < (k::nat)"
  shows "k dvd n + (k - n mod k) mod k"
proof (cases "n mod k = 0")
  case True
  then show ?thesis by (simp add: dvd_eq_mod_eq_0)
next
  case False
  then have lt: "n mod k < k" "0 < n mod k" using assms by simp_all
  then have "(k - n mod k) mod k = k - n mod k" by simp
  moreover have "n + (k - n mod k) = k * (n div k) + k"
  proof -
    have "n = k * (n div k) + n mod k" by simp
    then show ?thesis using lt by linarith
  qed
  ultimately show ?thesis by simp
qed

lemma pad_up_ge:
  assumes "0 < (k::nat)" "0 < n"
  shows "k \<le> n + (k - n mod k) mod k"
proof -
  from pad_up_multiple [OF assms(1), of n] have "k dvd n + (k - n mod k) mod k" .
  moreover have "0 < n + (k - n mod k) mod k" using assms(2) by simp
  ultimately show ?thesis by (rule dvd_imp_le)
qed

lemma conv622_ok:
  assumes sx: "shape x = [B, C, 2 * h, 2 * w]" and k: "0 < h" "0 < w"
    and c: "in_channels c = C" "kernel_size c = 6" "stride c = 2" "padding c = 2"
    and oc: "0 < out_channels c"
  shows "\<exists>y. Conv2d_forward c x = Inr y \<and> shape y = [B, out_channels c, h, w] \<and> wf y"
proof -
  have a: "(2 * h + 2 * 2 - 6) div 2 + 1 = h" "(2 * w + 2 * 2 - 6) div 2 + 1 = w"
    using k by simp_all
  have b: "\<not> 2 * h + 2 * 2 < 6" "\<not> 2 * w + 2 * 2 < 6" "out_channels c \<noteq> 0" "(2::nat) \<noteq> 0"
    using k oc by simp_all
  show ?thesis
    unfolding Conv2d_forward_def sx list.case Let_def c
    by (simp only: a b refl simp_thms if_False) simp
qed

lemma pe_proj_ok:
  assumes sx: "shape x = [B, C, 8 * hk, 8 * wk]" and k: "0 < hk" "0 < wk" and e: "4 \<le> e"
  shows "\<exists>y. pe_proj (PatchEmbed_init \<theta> C e) x = Inr y \<and> shape y = [B, e, hk, wk] \<and> wf y"
proof -
  let ?P = "PatchEmbed_init \<theta> C e"
  have e4: "0 < e div 4" "0 < e div 2" "0 < e" using e by (simp_all add: div_greater_zero_iff)
  have sx': "shape x = [B, C, 2 * (4 * hk), 2 * (4 * wk)]" by (simp add: sx)
  from conv622_ok [OF sx', of "pe_proj0 ?P"] k e4 obtain y0 where
    y0: "Conv2d_forward (pe_proj0 ?P) x = Inr y0" "shape y0 = [B, e div 4, 4 * hk, 4 * wk]"
    by (auto simp: PatchEmbed_init_def nn_Conv2d_def)
  have s0: "shape (ReLU y0) = [B, e div 4, 2 * (2 * hk), 2 * (2 * wk)]" by (simp add: y0)
  from conv622_ok [OF s0, of "pe_proj2 ?P"] k e4 obtain y2 where
    y2: "Conv2d_forward (pe_proj2 ?P) (ReLU y0) = Inr y2" "shape y2 = [B, e div 2, 2 * hk, 2 * wk]"
    by (auto simp: PatchEmbed_init_def nn_Conv2d_def)
  have s2: "shape (ReLU y2) = [B, e div 2, 2 * hk, 2 * wk]" by (simp add: y2)
  from conv622_ok [OF s2, of "pe_proj4 ?P"] k e4 obtain y4 where
    y4: "Conv2d_forward (pe_proj4 ?P) (ReLU y2) = Inr y4" "shape y4 = [B, e, hk, wk]" "wf y4"
    by (auto simp: PatchEmbed_init_def nn_Conv2d_def)
  show ?thesis
    by (simp only: pe_proj_def y0(1) y2(1) y4(1) rbind_Inr) (simp add: y4)
qed

lemma pymod_pos: "0 < b \<Longrightarrow> pymod a b = Inr (a mod b)"
  by (simp add: pymod_def)

lemma PatchEmbed_forward_TypeError:
  assumes sx: "shape x = [B, C, H, W]" and hw: "0 < H" "0 < W" and e: "4 \<le> e"
  shows "PatchEmbed_forward pos (PatchEmbed_init \<theta> C e) x = Inl TypeError"
proof -
  let ?P = "PatchEmbed_init \<theta> C e"
  let ?pr = "(8 - W mod 8) mod 8" and ?pb = "(8 - H mod 8) mod 8"
  have ps: "pe_patch_size ?P = 8" by (simp add: PatchEmbed_init_def)
  have pm: "pymod W 8 = Inr (W mod 8)" "pymod H 8 = Inr (H mod 8)"
    by (simp_all add: pymod_def)
  from F_pad_constant4 [OF sx, of ?pr ?pb] obtain y where
    y: "F_pad x [0, int ?pr, 0, int ?pb] ''constant'' = Inr y" "shape y = [B, C, H + ?pb, W + ?pr]"
    by blast
  have "8 dvd H + ?pb" "8 dvd W + ?pr" by (simp_all add: pad_up_multiple)
  then obtain hk wk where k: "H + ?pb = 8 * hk" "W + ?pr = 8 * wk" by (auto simp: dvd_def)
  have "8 \<le> H + ?pb" "8 \<le> W + ?pr" using hw by (simp_all add: pad_up_ge)
  then have kp: "0 < hk" "0 < wk" unfolding k by simp_all
  have sy: "shape y = [B, C, 8 * hk, 8 * wk]" using y(2) k by simp
  from pe_proj_ok [OF sy kp e, of \<theta>] obtain z where
    z: "pe_proj ?P y = Inr z" by blast
  show ?thesis
    by (simp only: PatchEmbed_forward_def sx list.case Let_def ps pm rbind_Inr y(1) z
          call_coords_grid5 rbind_Inl)
qed

lemma PatchEmbed_forward_small_embed_dim:
  assumes sx: "shape x = [B, C, H, W]" and e: "e < 4"
  shows "PatchEmbed_forward pos (PatchEmbed_init \<theta> C e) x = Inl RuntimeError"
proof -
  let ?P = "PatchEmbed_init \<theta> C e"
  let ?pr = "(8 - W mod 8) mod 8" and ?pb = "(8 - H mod 8) mod 8"
  have ps: "pe_patch_size ?P = 8" by (simp add: PatchEmbed_init_def)
  have pm: "pymod W 8 = Inr (W mod 8)" "pymod H 8 = Inr (H mod 8)"
    by (simp_all add: pymod_def)
  from F_pad_constant4 [OF sx, of ?pr ?pb] obtain y where
    y: "F_pad x [0, int ?pr, 0, int ?pb] ''constant'' = Inr y" "shape y = [B, C, H + ?pb, W + ?pr]"
    by blast
  have "Conv2d_forward (pe_proj0 ?P) y = Inl RuntimeError"
    using e by (simp add: Conv2d_forward_def y(2) PatchEmbed_init_def nn_Conv2d_def)
  then have z: "pe_proj ?P y = Inl RuntimeError" by (simp add: pe_proj_def)
  show ?thesis
    by (simp only: PatchEmbed_forward_def sx list.case Let_def ps pm rbind_Inr y(1) z rbind_Inl)
qed

lemma GlobalSubSample_init_fields:
  assumes "GlobalSubSampleAttnRPEContext_init \<theta> n_dim heads ad pd sr vc = Inr self"
  shows "gs_sr_ratio self = sr" "gs_vert_c_dim self = vc"
    "in_features (gs_context_proj self) = 256" "out_features (gs_context_proj self) = vc"
    "gs_num_heads self = heads" "gs_dim self = n_dim" "0 < heads" "heads dvd n_dim"
  using assms
  by (auto simp: GlobalSubSampleAttnRPEContext_init_def rbind_eq_Inr nn_Linear_def
      assert_heads_def pymod_def head_scale_def floordiv_def dvd_eq_mod_eq_0
      split: if_splits)

lemma view_i_3:
  assumes "wf t" "prod_list (shape t) = a * m * b" "0 < a" "0 < b"
  shows "\<exists>y. view_i [int a, - 1, int b] t = Inr y \<and> shape y = [a, m, b] \<and> wf y"
  using view_i_minus1 [of t "[a]" m "[b]"] assms by simp

lemma GlobalSubSample_forward_TypeError:
  assumes init: "GlobalSubSampleAttnRPEContext_init \<theta> n_dim heads ad pd sr vc = Inr self"
    and wfx: "wf x" and sx: "shape x = [B, H * W, C]"
    and sc: "shape c = [Bc, 256, H, W]" and bc: "0 < Bc" "Bc dvd B"
    and pos: "0 < B" "0 < H" "0 < W" "0 < C" and sr: "0 < sr"
  shows "GlobalSubSampleAttnRPEContext_forward ps self x (H, W) (Some c) = Inl TypeError"
proof -
  note fl = GlobalSubSample_init_fields [OF init]
  let ?pr = "(sr - W mod sr) mod sr" and ?pb = "(sr - H mod sr) mod sr"
  from attach_context_ok [OF wfx sx sc bc pos(1-3) fl(3)] obtain x1 xq where
    a: "attach_context (gs_context_proj self) x B H W C (Some c) = Inr (x1, xq)"
    and x1: "shape x1 = [B, H, W, C]"
    and xq: "shape xq = [B, H, W, C + vc]"
    by (auto simp: fl)
  have pm: "pymod W sr = Inr (W mod sr)" "pymod H sr = Inr (H mod sr)"
    using sr by (simp_all add: pymod_def)
  from F_pad_constant6 [OF x1, of ?pr ?pb] obtain y where
    y: "F_pad x1 [0, 0, 0, int ?pr, 0, int ?pb] ''constant'' = Inr y"
    "shape y = [B, H + ?pb, W + ?pr, C]" "wf y"
    by blast
  from F_pad_constant6 [OF xq, of ?pr ?pb] obtain yq where
    yq: "F_pad xq [0, 0, 0, int ?pr, 0, int ?pb] ''constant'' = Inr yq"
    "shape yq = [B, H + ?pb, W + ?pr, C + vc]" "wf yq"
    by blast
  from view_i_3 [OF y(3), of B "(H + ?pb) * (W + ?pr)" C] obtain v where
    v: "view_i [int B, - 1, int C] y = Inr v"
    using pos by (auto simp: y(2))
  from view_i_3 [OF yq(3), of B "(H + ?pb) * (W + ?pr)" "C + vc"] obtain vq where
    vq: "view_i [int B, - 1, int (C + vc)] yq = Inr vq"
    using pos by (auto simp: yq(2))
  show ?thesis
    by (simp only: GlobalSubSampleAttnRPEContext_forward_def sx list.case Let_def prod.case
          fl(1,2) a pm rbind_Inr y(1,2) yq(1) v vq call_coords_grid5 rbind_Inl)
qed

lemma LocallyGrouped_init_fields:
  assumes "LocallyGroupedAttnRPEContext_init \<theta> n_dim heads ad pd ws vc = Inr self"
  shows "lg_ws self = ws" "lg_vert_c_dim self = vc"
    "in_features (lg_context_proj self) = 256" "out_features (lg_context_proj self) = vc"
    "lg_num_heads self = heads" "lg_dim self = n_dim" "0 < heads" "heads dvd n_dim"
    "in_features (lg_v self) = n_dim" "out_features (lg_v self) = n_dim" "ws \<noteq> 1"
  using assms
  by (auto simp: LocallyGroupedAttnRPEContext_init_def rbind_eq_Inr nn_Linear_def
      assert_heads_def pymod_def head_scale_def floordiv_def dvd_eq_mod_eq_0
      split: if_splits)

lemma window_heads_ok:
  assumes wfx: "wf x" and sx: "shape x = [B, h, w, ws, ws, C]"
    and lin: "in_features l = C" "out_features l = C"
    and hd: "0 < heads" "heads dvd C"
  shows "\<exists>y. window_heads l x B (h * w) (ws * ws) heads C = Inr y"
proof -
  from Linear_forward_ok [of x "[B, h, w, ws, ws]" C l] obtain y1 where
    y1: "Linear_forward l x = Inr y1" "shape y1 = [B, h, w, ws, ws, C]" "wf y1"
    by (auto simp: sx lin)
  have fd: "floordiv C heads = Inr (C div heads)" using hd by (simp add: floordiv_def)
  have c: "heads * (C div heads) = C" using hd by simp
  have "prod_list [B, h * w, ws * ws, 1, heads, C div heads] = B * h * w * ws * ws * (heads * (C div heads))"
    by simp
  also have "\<dots> = prod_list (shape y1)" unfolding c by (simp add: y1)
  finally have "\<exists>y. reshape [B, h * w, ws * ws, 1, heads, C div heads] y1 = Inr y \<and>
      shape y = [B, h * w, ws * ws, 1, heads, C div heads] \<and> wf y"
    by (intro reshape_ok y1)
  then obtain y2 where
    y2: "reshape [B, h * w, ws * ws, 1, heads, C div heads] y1 = Inr y2"
    "shape y2 = [B, h * w, ws * ws, 1, heads, C div heads]"
    by blast
  from permute_ok [of "[3, 0, 1, 4, 2, 5]" y2] obtain y3 where
    y3: "permute [3, 0, 1, 4, 2, 5] y2 = Inr y3"
    "shape y3 = [1, B, h * w, heads, ws * ws, C div heads]"
    by (auto simp: y2 is_perm_def pick_def)
  from select0_ok [OF y3(2)] obtain y4 where y4: "select0 y3 = Inr y4" by auto
  show ?thesis
    by (simp only: window_heads_def y1(1) fd y2(1) y3(1) y4 rbind_Inr) simp
qed

lemma split_windows_ok:
  assumes wfy: "wf y" and sy: "shape y = [B, h * ws, w * ws, C]"
  shows "\<exists>r t. reshape [B, h, ws, w, ws, C] y = Inr r \<and> transpose_t 2 3 r = Inr t \<and>
     shape t = [B, h, w, ws, ws, C] \<and> wf t"
proof -
  from reshape_ok [OF wfy, of "[B, h, ws, w, ws, C]"] obtain r where
    r: "reshape [B, h, ws, w, ws, C] y = Inr r" "shape r = [B, h, ws, w, ws, C]" "wf r"
    by (auto simp: sy mult_ac)
  have sw: "swap_axes (length (shape r)) 2 3 = [0, 1, 3, 2, 4, 5]"
    by (simp add: r swap_axes_def)
  from transpose_t_ok [of 2 r 3] obtain t where
    "transpose_t 2 3 r = Inr t" "shape t = [B, h, w, ws, ws, C]" "wf t"
    unfolding sw by (auto simp: r is_perm_def pick_def)
  with r show ?thesis by blast
qed

lemma LocallyGrouped_forward_TypeError:
  assumes init: "LocallyGroupedAttnRPEContext_init \<theta> n_dim heads ad pd ws vc = Inr self"
    and wfx: "wf x" and sx: "shape x = [B, H * W, n_dim]"
    and sc: "shape c = [Bc, 256, H, W]" and bc: "0 < Bc" "Bc dvd B"
    and pos: "0 < B" "0 < H" "0 < W" and ws: "0 < ws"
  shows "LocallyGroupedAttnRPEContext_forward ps self x (H, W) (Some c) = Inl TypeError"
proof -
  note fl = LocallyGrouped_init_fields [OF init]
  let ?pr = "(ws - W mod ws) mod ws" and ?pb = "(ws - H mod ws) mod ws"
  let ?Hp = "H + ?pb" and ?Wp = "W + ?pr"
  let ?h = "?Hp div ws" and ?w = "?Wp div ws"
  from attach_context_ok [OF wfx sx sc bc pos(1-3) fl(3)] obtain x1 xq where
    a: "attach_context (lg_context_proj self) x B H W n_dim (Some c) = Inr (x1, xq)"
    and x1: "shape x1 = [B, H, W, n_dim]"
    and xq: "shape xq = [B, H, W, n_dim + vc]"
    by (auto simp: fl)
  have pm: "pymod W ws = Inr (W mod ws)" "pymod H ws = Inr (H mod ws)"
    using ws by (simp_all add: pymod_def)
  from F_pad_constant6 [OF x1, of ?pr ?pb] obtain y where
    y: "F_pad x1 [0, 0, 0, int ?pr, 0, int ?pb] ''constant'' = Inr y"
    "shape y = [B, ?Hp, ?Wp, n_dim]" "wf y"
    by blast
  from F_pad_constant6 [OF xq, of ?pr ?pb] obtain yq where
    yq: "F_pad xq [0, 0, 0, int ?pr, 0, int ?pb] ''constant'' = Inr yq"
    "shape yq = [B, ?Hp, ?Wp, n_dim + vc]" "wf yq"
    by blast
  have m: "?h * ws = ?Hp" "?w * ws = ?Wp"
    using pad_up_multiple [OF ws, of H] pad_up_multiple [OF ws, of W] by simp_all
  have sy: "shape y = [B, ?h * ws, ?w * ws, n_dim]"
    and syq: "shape yq = [B, ?h * ws, ?w * ws, n_dim + vc]"
    unfolding m by (rule y yq)+
  from split_windows_ok [OF y(3) sy] obtain r t where
    r: "reshape [B, ?h, ws, ?w, ws, n_dim] y = Inr r" and t: "transpose_t 2 3 r = Inr t"
    and st: "shape t = [B, ?h, ?w, ws, ws, n_dim]" "wf t"
    by blast
  from split_windows_ok [OF yq(3) syq] obtain rq tq where
    rq: "reshape [B, ?h, ws, ?w, ws, n_dim + vc] yq = Inr rq" and tq: "transpose_t 2 3 rq = Inr tq"
    by blast
  from window_heads_ok [OF st(2,1) fl(9,10) fl(7,8)] obtain v where
    v: "window_heads (lg_v self) t B (?h * ?w) (ws * ws) heads n_dim = Inr v"
    by blast
  show ?thesis
    by (simp only: LocallyGroupedAttnRPEContext_forward_def sx list.case Let_def prod.case
          fl(1,2,5) a pm rbind_Inr y(1,2) yq(1) r t rq tq v call_coords_grid5 rbind_Inl)
qed









lemma assert_heads_ok: "0 < heads \<Longrightarrow> heads dvd n \<Longrightarrow> assert_heads n heads = Inr ()"
  by (simp add: assert_heads_def pymod_def dvd_eq_mod_eq_0)

lemma assert_heads_fails:
  "0 < heads \<Longrightarrow> \<not> heads dvd n \<Longrightarrow> assert_heads n heads = Inl (AssertionError (head_msg n heads))"
  by (simp add: assert_heads_def pymod_def dvd_eq_mod_eq_0)

lemma head_scale_ok:
  "0 < heads \<Longrightarrow> heads dvd n \<Longrightarrow> 0 < n \<Longrightarrow> \<exists>sc. head_scale n heads = Inr sc"
  by (auto simp: head_scale_def floordiv_def elim!: dvdE)

lemma SelfAttentionLayer_init_ok:
  "0 < heads \<Longrightarrow> heads dvd n \<Longrightarrow> 0 < n \<Longrightarrow> \<exists>l. SelfAttentionLayer_init \<theta> n heads pd dr = Inr l"
  using head_scale_ok [of heads n]
  by (auto simp: SelfAttentionLayer_init_def assert_heads_ok)

lemma CrossAttentionLayer_init_ok:
  "0 < heads \<Longrightarrow> heads dvd qk \<Longrightarrow> heads dvd v \<Longrightarrow> 0 < qk \<Longrightarrow>
     \<exists>l. CrossAttentionLayer_init \<theta> qk v qd td heads pd dr = Inr l"
  using head_scale_ok [of heads qk]
  by (auto simp: CrossAttentionLayer_init_def assert_heads_ok)

lemma LocallyGrouped_init_ok:
  "ws \<noteq> 1 \<Longrightarrow> 0 < heads \<Longrightarrow> heads dvd n \<Longrightarrow> 0 < n \<Longrightarrow>
     \<exists>l. LocallyGroupedAttnRPEContext_init \<theta> n heads ad pd ws vc = Inr l"
  using head_scale_ok [of heads n]
  by (auto simp: LocallyGroupedAttnRPEContext_init_def assert_heads_ok)

lemma GlobalSubSample_init_ok:
  "0 < heads \<Longrightarrow> heads dvd n \<Longrightarrow> 0 < n \<Longrightarrow>
     \<exists>l. GlobalSubSampleAttnRPEContext_init \<theta> n heads ad pd sr vc = Inr l"
  using head_scale_ok [of heads n]
  by (auto simp: GlobalSubSampleAttnRPEContext_init_def assert_heads_ok)

lemma rmap_Inr [simp]: "rmap f (Inr x) = Inr (f x)"
  by (simp add: rmap_def)

lemma rmap_Inl [simp]: "rmap f (Inl e) = Inl e"
  by (simp add: rmap_def)

lemma Block_init_ok:
  assumes "0 < heads" "heads dvd n" "0 < n"
  shows "\<exists>b. Block_init \<theta> n heads mr dp ad dpath sr ws vc = Inr b"
proof (cases "ws = 1")
  case True
  obtain g where g: "GlobalSubSampleAttnRPEContext_init (sub \<theta> ''attn'') n heads ad dp sr vc = Inr g"
    using GlobalSubSample_init_ok [OF assms] by blast
  show ?thesis by (simp add: Block_init_def True g)
next
  case False
  obtain l where l: "LocallyGroupedAttnRPEContext_init (sub \<theta> ''attn'') n heads ad dp ws vc = Inr l"
    using LocallyGrouped_init_ok [OF False assms] by blast
  show ?thesis using False by (simp add: Block_init_def l)
qed

lemma VerticalSelfAttentionLayer_init_ok:
  assumes "0 < heads" "heads dvd n" "0 < n"
  shows "\<exists>l. VerticalSelfAttentionLayer_init \<theta> n c heads dr = Inr l"
proof -
  from head_scale_ok [OF assms] obtain sc where sc: "head_scale n heads = Inr sc" by blast
  from Block_init_ok [OF assms] obtain b1 where
    b1: "Block_init (sub \<theta> ''local_block'') n heads 4 dr 0 0 4 7 (vert_c_dim c) = Inr b1" by blast
  from Block_init_ok [OF assms] obtain b2 where
    b2: "Block_init (sub \<theta> ''global_block'') n heads 4 dr 0 0 4 1 (vert_c_dim c) = Inr b2" by blast
  show ?thesis
    by (simp only: VerticalSelfAttentionLayer_init_def Let_def sc b1 b2 rbind_Inr) simp
qed

lemma sequence_map_ok:
  "(\<And>x. \<exists>y. f x = Inr y) \<Longrightarrow> \<exists>ys. sequence (map f xs) = Inr ys \<and> length ys = length xs"
proof (induction xs)
  case Nil
  then show ?case by simp
next
  case (Cons a xs)
  from Cons.prems obtain y where "f a = Inr y" by blast
  moreover from Cons obtain ys where "sequence (map f xs) = Inr ys" "length ys = length xs" by blast
  ultimately show ?case by simp
qed

lemma CostPerceiverEncoder_init_ok:
  assumes "8 dvd cost_latent_dim c" "0 < cost_latent_dim c"
  shows "\<exists>self. CostPerceiverEncoder_init \<theta> c = Inr self"
proof -
  let ?D = "cost_latent_dim c"
  have h: "0 < (8::nat)" by simp
  from CrossAttentionLayer_init_ok [OF h assms(1) assms(1) assms(2)] obtain il where
    il: "CrossAttentionLayer_init (sub \<theta> ''input_layer'') ?D ?D ?D (cost_latent_input_dim c * 2) 8 0
           (dropout c) = Inr il" by blast
  from sequence_map_ok [of "\<lambda>idx. SelfAttentionLayer_init (sub \<theta> (''encoder_layers.'' @ str_nat idx))
      ?D 8 0 (dropout c)" "[0..<encoder_depth c]"]
  obtain el where
    el: "sequence (map (\<lambda>idx. SelfAttentionLayer_init (sub \<theta> (''encoder_layers.'' @ str_nat idx))
      ?D 8 0 (dropout c)) [0..<encoder_depth c]) = Inr el"
    using SelfAttentionLayer_init_ok [OF h assms] by blast
  from sequence_map_ok [of "\<lambda>idx. VerticalSelfAttentionLayer_init
      (sub \<theta> (''vertical_encoder_layers.'' @ str_nat idx)) ?D c 8 (dropout c)" "[0..<encoder_depth c]"]
  obtain vl where
    vl: "sequence (map (\<lambda>idx. VerticalSelfAttentionLayer_init
      (sub \<theta> (''vertical_encoder_layers.'' @ str_nat idx)) ?D c 8 (dropout c)) [0..<encoder_depth c]) = Inr vl"
    using VerticalSelfAttentionLayer_init_ok [OF h assms] by blast
  show ?thesis
    by (simp only: CostPerceiverEncoder_init_def Let_def il el vl rbind_Inr) simp
qed

lemma MemoryEncoder_init_ok:
  assumes "8 dvd cost_latent_dim c" "0 < cost_latent_dim c" "TwinsSVTLarge (pretrain c) = Inr f"
  shows "\<exists>self. MemoryEncoder_init TwinsSVTLarge \<theta> c = Inr self"
proof -
  from CostPerceiverEncoder_init_ok [OF assms(1,2)] obtain e where
    "CostPerceiverEncoder_init (sub \<theta> ''cost_perceiver_encoder'') c = Inr e" by blast
  then show ?thesis
    by (simp add: MemoryEncoder_init_def assms(3) Let_def)
qed

lemma CostPerceiverEncoder_init_fields:
  assumes "CostPerceiverEncoder_init \<theta> c = Inr self"
  shows "cpe_patch_embed self = PatchEmbed_init (sub \<theta> ''patch_embed'') (cost_heads_num c) (cost_latent_input_dim c)"
    "cpe_cost_heads_num self = cost_heads_num c"
    "cpe_cost_latent_token_num self = cost_latent_token_num c"
    "cpe_latent_tokens self = new_param \<theta> ''latent_tokens'' [1, cost_latent_token_num c, cost_latent_dim c]"
    "CrossAttentionLayer_init (sub \<theta> ''input_layer'') (cost_latent_dim c) (cost_latent_dim c)
       (cost_latent_dim c) (cost_latent_input_dim c * 2) 8 0 (dropout c) = Inr (cpe_input_layer self)"
    "length (cpe_encoder_layers self) = encoder_depth c"
    "length (cpe_vertical_encoder_layers self) = encoder_depth c"
proof -
  from assms obtain il el vl where
    il: "CrossAttentionLayer_init (sub \<theta> ''input_layer'') (cost_latent_dim c) (cost_latent_dim c)
       (cost_latent_dim c) (cost_latent_input_dim c * 2) 8 0 (dropout c) = Inr il"
    and el: "sequence (map (\<lambda>idx. SelfAttentionLayer_init (sub \<theta> (''encoder_layers.'' @ str_nat idx))
      (cost_latent_dim c) 8 0 (dropout c)) [0..<encoder_depth c]) = Inr el"
    and vl: "sequence (map (\<lambda>idx. VerticalSelfAttentionLayer_init
      (sub \<theta> (''vertical_encoder_layers.'' @ str_nat idx)) (cost_latent_dim c) c 8 (dropout c))
        [0..<encoder_depth c]) = Inr vl"
    and self: "self = \<lparr>cpe_cfg = c, cpe_patch_size = 8, cpe_cost_heads_num = cost_heads_num c,
           cpe_cost_latent_token_num = cost_latent_token_num c,
           cpe_patch_embed = PatchEmbed_init (sub \<theta> ''patch_embed'') (cost_heads_num c) (cost_latent_input_dim c),
           cpe_depth = encoder_depth c,
           cpe_latent_tokens = new_param \<theta> ''latent_tokens'' [1, cost_latent_token_num c, cost_latent_dim c],
           cpe_input_layer = il,
           cpe_encoder_layers = el,
           cpe_vertical_encoder_layers = vl\<rparr>"
    unfolding CostPerceiverEncoder_init_def Let_def rbind_eq_Inr by auto
  have len: "length ys = length xs" if "sequence (map f xs) = Inr ys" for f :: "nat \<Rightarrow> error + 'b" and xs ys
    using that
  proof (induction xs arbitrary: ys)
    case Nil
    then show ?case by simp
  next
    case (Cons a xs)
    then show ?case by (auto simp: rbind_eq_Inr)
  qed
  show "cpe_patch_embed self = PatchEmbed_init (sub \<theta> ''patch_embed'') (cost_heads_num c) (cost_latent_input_dim c)"
    "cpe_cost_heads_num self = cost_heads_num c"
    "cpe_cost_latent_token_num self = cost_latent_token_num c"
    "cpe_latent_tokens self = new_param \<theta> ''latent_tokens'' [1, cost_latent_token_num c, cost_latent_dim c]"
    by (simp_all add: self)
  show "CrossAttentionLayer_init (sub \<theta> ''input_layer'') (cost_latent_dim c) (cost_latent_dim c)
       (cost_latent_dim c) (cost_latent_input_dim c * 2) 8 0 (dropout c) = Inr (cpe_input_layer self)"
    by (simp add: self il)
  show "length (cpe_encoder_layers self) = encoder_depth c"
    using len [OF el] by (simp add: self)
  show "length (cpe_vertical_encoder_layers self) = encoder_depth c"
    using len [OF vl] by (simp add: self)
qed

lemma CostPerceiverEncoder_forward_TypeError:
  assumes init: "CostPerceiverEncoder_init \<theta> c = Inr self"
    and wfc: "wf cv" and sc: "shape cv = [B, cost_heads_num c, H1, W1, H2, W2]"
    and hw: "0 < H2" "0 < W2" and e4: "4 \<le> cost_latent_input_dim c"
  shows "CostPerceiverEncoder_forward ps self cv context = Inl TypeError"
proof -
  note fl = CostPerceiverEncoder_init_fields [OF init]
  from permute_ok [of "[0, 2, 3, 1, 4, 5]" cv] obtain cm where
    cm: "permute [0, 2, 3, 1, 4, 5] cv = Inr cm" "shape cm = [B, H1, W1, cost_heads_num c, H2, W2]" "wf cm"
    by (auto simp: sc is_perm_def pick_def)
  from view_ok [OF cm(3), of "[B * H1 * W1, cost_heads_num c, H2, W2]"] obtain x where
    x: "view [B * H1 * W1, cost_heads_num c, H2, W2] cm = Inr x"
    "shape x = [B * H1 * W1, cost_heads_num c, H2, W2]"
    by (auto simp: cm(2) mult_ac)
  note pe = PatchEmbed_forward_TypeError [OF x(2) hw e4, of ps "sub \<theta> ''patch_embed''"]
  show ?thesis
    by (simp only: CostPerceiverEncoder_forward_def sc list.case cm(1) fl(1,2) x(1) pe rbind_Inr rbind_Inl)
qed

lemma attn_forward_raises: "\<exists>e. attn_forward ps a x sz context = Inl e"
  by (cases a) (simp_all add: attn_forward_def GlobalSubSample_forward_raises LocallyGrouped_forward_raises)

lemma rbind_first_raises: "\<exists>e. m = Inl e \<Longrightarrow> \<exists>e. rbind m f = Inl e"
  by auto

lemma Block_forward_raises: "\<exists>e. Block_forward ps b x sz context = Inl e"
  unfolding Block_forward_def
  by (rule rbind_raises, rule rbind_first_raises, rule attn_forward_raises)

lemma VerticalSelfAttentionLayer_forward_raises:
  "\<exists>e. VerticalSelfAttentionLayer_forward ps l x sz context = Inl e"
  unfolding VerticalSelfAttentionLayer_forward_def
  by (rule rbind_first_raises, rule Block_forward_raises)

lemma encoder_stack_raises:
  assumes "layers \<noteq> []"
  shows "\<exists>e. encoder_stack ps layers B H1 W1 T context x = Inl e"
proof -
  from assms obtain layer vert rest where l: "layers = (layer, vert) # rest"
    by (cases layers) auto
  show ?thesis
    unfolding l encoder_stack.simps
    by (rule rbind_raises, rule rbind_raises, rule rbind_raises, rule rbind_raises,
        rule rbind_first_raises, rule VerticalSelfAttentionLayer_forward_raises)
qed

lemma encoder_stack_empty: "encoder_stack ps [] B H1 W1 T context x = Inr x"
  by simp


section \<open>The network: constructors and forward passes\<close>

lemma shape_zeros [simp]: "shape (zeros s) = s"
  by (simp add: zeros_def)

lemma wf_zeros [simp]: "wf (zeros s)"
  by (simp add: zeros_def wf_def)

lemma projr_init: "m = Inr x \<Longrightarrow> m = Inr (projr m)"
  by simp

lemma not_isl_Inr: "m = Inr x \<Longrightarrow> \<not> isl m"
  by simp

text \<open>
  Claim C3, as amended. None of \<^verbatim>\<open>PatchEmbed.forward\<close>,
  \<^verbatim>\<open>LocallyGroupedAttnRPEContext.forward\<close> and
  \<^verbatim>\<open>GlobalSubSampleAttnRPEContext.forward\<close> ever returns: each raises on every
  input. Whenever the statements before the first call of \<^verbatim>\<open>coords_grid\<close>
  succeed, the exception is the \<^verbatim>\<open>TypeError\<close> of that call, which passes five
  positional arguments to a function of four parameters. This is so
  \<^item> for \<^verbatim>\<open>PatchEmbed(in_chans, embed_dim)\<close> with \<open>in_chans \<ge> 1\<close> and
    \<open>embed_dim \<ge> 4\<close>, on every input of shape \<open>(B, in_chans, H, W)\<close> with
    \<open>B, H, W \<ge> 1\<close>;
  \<^item> for every constructed \<^verbatim>\<open>LocallyGroupedAttnRPEContext\<close> of dimension \<open>dim\<close>
    with window size \<open>ws \<ge> 1\<close>, on tokens of shape \<open>(B, H * W, dim)\<close> with size
    \<open>(H, W)\<close> and a context of shape \<open>(Bc, 256, H, W)\<close>, where
    \<open>B, H, W, Bc \<ge> 1\<close> and \<open>Bc\<close> divides \<open>B\<close>;
  \<^item> for every constructed \<^verbatim>\<open>GlobalSubSampleAttnRPEContext\<close> with
    \<open>sr_ratio \<ge> 1\<close>, on tokens of shape \<open>(B, H * W, C)\<close> with \<open>C \<ge> 1\<close>, size
    \<open>(H, W)\<close> and a context as before.

  On other inputs an earlier statement may raise another exception first.
\<close>

theorem forwards_never_return:
  "(\<exists>err. PatchEmbed_forward ps pe x = Inl err) \<and>
   (\<exists>err. LocallyGroupedAttnRPEContext_forward ps lg t sz ctx = Inl err) \<and>
   (\<exists>err. GlobalSubSampleAttnRPEContext_forward ps gs t sz ctx = Inl err) \<and>
   (shape x = [B, C, H, W] \<longrightarrow> 0 < B \<longrightarrow> 0 < C \<longrightarrow> 0 < H \<longrightarrow> 0 < W \<longrightarrow> 4 \<le> embed_dim \<longrightarrow>
      PatchEmbed_forward ps (PatchEmbed_init \<theta> C embed_dim) x = Inl TypeError) \<and>
   (LocallyGroupedAttnRPEContext_init \<theta> n_dim heads ad pd ws vc = Inr lg \<longrightarrow>
      wf t \<longrightarrow> shape t = [Bt, Ht * Wt, n_dim] \<longrightarrow> shape c = [Bc, 256, Ht, Wt] \<longrightarrow>
      0 < Bc \<longrightarrow> Bc dvd Bt \<longrightarrow> 0 < Bt \<longrightarrow> 0 < Ht \<longrightarrow> 0 < Wt \<longrightarrow> 0 < ws \<longrightarrow>
      LocallyGroupedAttnRPEContext_forward ps lg t (Ht, Wt) (Some c) = Inl TypeError) \<and>
   (GlobalSubSampleAttnRPEContext_init \<theta> n_dim heads ad pd sr vc = Inr gs \<longrightarrow>
      wf t \<longrightarrow> shape t = [Bt, Ht * Wt, Ct] \<longrightarrow> shape c = [Bc, 256, Ht, Wt] \<longrightarrow>
      0 < Bc \<longrightarrow> Bc dvd Bt \<longrightarrow> 0 < Bt \<longrightarrow> 0 < Ht \<longrightarrow> 0 < Wt \<longrightarrow> 0 < Ct \<longrightarrow> 0 < sr \<longrightarrow>
      GlobalSubSampleAttnRPEContext_forward ps gs t (Ht, Wt) (Some c) = Inl TypeError)"
proof (intro conjI impI)
  show "\<exists>err. PatchEmbed_forward ps pe x = Inl err" by (rule PatchEmbed_forward_raises)
  show "\<exists>err. LocallyGroupedAttnRPEContext_forward ps lg t sz ctx = Inl err"
    by (rule LocallyGrouped_forward_raises)
  show "\<exists>err. GlobalSubSampleAttnRPEContext_forward ps gs t sz ctx = Inl err"
    by (rule GlobalSubSample_forward_raises)
next
  assume "shape x = [B, C, H, W]" "0 < H" "0 < W" "4 \<le> embed_dim"
  then show "PatchEmbed_forward ps (PatchEmbed_init \<theta> C embed_dim) x = Inl TypeError"
    by (rule PatchEmbed_forward_TypeError)
next
  assume "LocallyGroupedAttnRPEContext_init \<theta> n_dim heads ad pd ws vc = Inr lg"
    "wf t" "shape t = [Bt, Ht * Wt, n_dim]" "shape c = [Bc, 256, Ht, Wt]"
    "0 < Bc" "Bc dvd Bt" "0 < Bt" "0 < Ht" "0 < Wt" "0 < ws"
  then show "LocallyGroupedAttnRPEContext_forward ps lg t (Ht, Wt) (Some c) = Inl TypeError"
    by (rule LocallyGrouped_forward_TypeError)
next
  assume "GlobalSubSampleAttnRPEContext_init \<theta> n_dim heads ad pd sr vc = Inr gs"
    "wf t" "shape t = [Bt, Ht * Wt, Ct]" "shape c = [Bc, 256, Ht, Wt]"
    "0 < Bc" "Bc dvd Bt" "0 < Bt" "0 < Ht" "0 < Wt" "0 < Ct" "0 < sr"
  then show "GlobalSubSampleAttnRPEContext_forward ps gs t (Ht, Wt) (Some c) = Inl TypeError"
    by (rule GlobalSubSample_forward_TypeError)
qed

theorem forwards_never_return_witness:
  "PatchEmbed_forward sample_pos (PatchEmbed_init zero_init 1 64) (zeros [1, 1, 8, 8]) = Inl TypeError \<and>
   LocallyGroupedAttnRPEContext_forward sample_pos
      (projr (LocallyGroupedAttnRPEContext_init zero_init 8 8 0 0 7 0))
      (zeros [1, 1, 8]) (1, 1) (Some (zeros [1, 256, 1, 1])) = Inl TypeError \<and>
   GlobalSubSampleAttnRPEContext_forward sample_pos
      (projr (GlobalSubSampleAttnRPEContext_init zero_init 8 8 0 0 4 0))
      (zeros [1, 1, 8]) (1, 1) (Some (zeros [1, 256, 1, 1])) = Inl TypeError"
proof -
  let ?lg = "projr (LocallyGroupedAttnRPEContext_init zero_init 8 8 0 0 7 0)"
  let ?gs = "projr (GlobalSubSampleAttnRPEContext_init zero_init 8 8 0 0 4 0)"
  have lg: "LocallyGroupedAttnRPEContext_init zero_init 8 8 0 0 7 0 = Inr ?lg"
    using LocallyGrouped_init_ok [of 7 8 8 zero_init 0 0 0] by auto
  have gs: "GlobalSubSampleAttnRPEContext_init zero_init 8 8 0 0 4 0 = Inr ?gs"
    using GlobalSubSample_init_ok [of 8 8 zero_init 0 0 4 0] by auto
  note th = forwards_never_return [where ps = sample_pos and x = "zeros [1, 1, 8, 8]"
      and B = 1 and C = 1 and H = 8 and W = 8 and \<theta> = zero_init and embed_dim = 64
      and n_dim = 8 and heads = 8 and ad = 0 and pd = 0 and ws = 7 and vc = 0 and lg = ?lg
      and t = "zeros [1, 1, 8]" and Bt = 1 and Ht = 1 and Wt = 1 and Ct = 8
      and c = "zeros [1, 256, 1, 1]" and Bc = 1 and sr = 4 and gs = ?gs]
  have 1: "PatchEmbed_forward sample_pos (PatchEmbed_init zero_init 1 64) (zeros [1, 1, 8, 8]) = Inl TypeError"
    using th [THEN conjunct2, THEN conjunct2, THEN conjunct2, THEN conjunct1] by simp
  have 2: "LocallyGroupedAttnRPEContext_forward sample_pos ?lg
      (zeros [1, 1, 8]) (1, 1) (Some (zeros [1, 256, 1, 1])) = Inl TypeError"
    using th [THEN conjunct2, THEN conjunct2, THEN conjunct2, THEN conjunct2, THEN conjunct1] lg
    by simp
  have 3: "GlobalSubSampleAttnRPEContext_forward sample_pos ?gs
      (zeros [1, 1, 8]) (1, 1) (Some (zeros [1, 256, 1, 1])) = Inl TypeError"
    using th [THEN conjunct2, THEN conjunct2, THEN conjunct2, THEN conjunct2, THEN conjunct2] gs
    by simp
  from 1 2 3 show ?thesis by blast
qed

theorem forward_without_context_counterexample:
  "LocallyGroupedAttnRPEContext_forward sample_pos
      (projr (LocallyGroupedAttnRPEContext_init zero_init 8 8 0 0 7 0))
      (zeros [1, 1, 8]) (1, 1) None = Inl AttributeError"
  by (simp add: LocallyGroupedAttnRPEContext_forward_def attach_context_def Let_def)

text \<open>
  Claim C2, as amended. Local-window attention cannot be constructed with window size
  \<open>ws = 1\<close>: the first statement of \<^verbatim>\<open>LocallyGroupedAttnRPEContext.__init__\<close> is
  \<^verbatim>\<open>assert ws != 1\<close>, so the constructor raises \<^verbatim>\<open>AssertionError\<close> whatever the
  other arguments are. A \<^verbatim>\<open>Block\<close> that is constructed holds the global-subsampled
  attention, with the block's subsample ratio, exactly when \<open>ws = 1\<close>, and the
  local-window attention, with that window size, otherwise.
\<close>

theorem local_window_one_rejected:
  "LocallyGroupedAttnRPEContext_init \<theta> n_dim heads ad pd 1 vc = Inl (AssertionError []) \<and>
   (Block_init \<theta>' n_dim' heads' mr dp ad' dpath sr ws vc' = Inr b \<longrightarrow>
      (case blk_attn b of
         GSA g \<Rightarrow> ws = 1 \<and> gs_sr_ratio g = sr
       | LSA l \<Rightarrow> ws \<noteq> 1 \<and> lg_ws l = ws))"
proof (intro conjI impI)
  show "LocallyGroupedAttnRPEContext_init \<theta> n_dim heads ad pd 1 vc = Inl (AssertionError [])"
    by (simp add: LocallyGroupedAttnRPEContext_init_def)
next
  assume b: "Block_init \<theta>' n_dim' heads' mr dp ad' dpath sr ws vc' = Inr b"
  show "case blk_attn b of
         GSA g \<Rightarrow> ws = 1 \<and> gs_sr_ratio g = sr
       | LSA l \<Rightarrow> ws \<noteq> 1 \<and> lg_ws l = ws"
  proof (cases "ws = 1")
    case True
    with b obtain g where
      g: "GlobalSubSampleAttnRPEContext_init (sub \<theta>' ''attn'') n_dim' heads' ad' dp sr vc' = Inr g"
      and a: "blk_attn b = GSA g"
      by (auto simp: Block_init_def rbind_eq_Inr rmap_def split: sum.splits)
    from GlobalSubSample_init_fields(1) [OF g] a True show ?thesis by simp
  next
    case False
    with b obtain l where
      l: "LocallyGroupedAttnRPEContext_init (sub \<theta>' ''attn'') n_dim' heads' ad' dp ws vc' = Inr l"
      and a: "blk_attn b = LSA l"
      by (auto simp: Block_init_def rbind_eq_Inr rmap_def split: sum.splits)
    from LocallyGrouped_init_fields(1) [OF l] a False show ?thesis by simp
  qed
qed

theorem local_window_one_rejected_witness:
  "LocallyGroupedAttnRPEContext_init zero_init 8 8 0 0 1 0 = Inl (AssertionError []) \<and>
   (case blk_attn (projr (Block_init zero_init 8 8 4 0 0 0 4 1 0)) of
      GSA g \<Rightarrow> gs_sr_ratio g = 4
    | LSA l \<Rightarrow> False)"
proof -
  let ?b = "projr (Block_init zero_init 8 8 4 0 0 0 4 1 0)"
  have b: "Block_init zero_init 8 8 4 0 0 0 4 1 0 = Inr ?b"
    using Block_init_ok [of 8 8 zero_init 4 0 0 0 4 1 0] by auto
  note th = local_window_one_rejected [where \<theta> = zero_init and n_dim = 8 and heads = 8
      and ad = 0 and pd = 0 and vc = 0 and \<theta>' = zero_init and n_dim' = 8 and heads' = 8
      and mr = 4 and dp = 0 and ad' = 0 and dpath = 0 and sr = 4 and ws = 1 and vc' = 0
      and b = ?b]
  from th [THEN conjunct2, rule_format, OF b]
  have "case blk_attn ?b of GSA g \<Rightarrow> gs_sr_ratio g = 4 | LSA l \<Rightarrow> False"
    by (simp split: spatial_attn.splits)
  with th [THEN conjunct1] show ?thesis by blast
qed

theorem local_window_one_counterexample:
  "LocallyGroupedAttnRPEContext_init zero_init 8 8 0 0 1 0 = Inl (AssertionError [])"
  by (simp add: LocallyGroupedAttnRPEContext_init_def)

lemma SelfAttentionLayer_init_asserts:
  "0 < heads \<Longrightarrow> \<not> heads dvd n \<Longrightarrow>
     SelfAttentionLayer_init \<theta> n heads pd dr = Inl (AssertionError (head_msg n heads))"
  by (simp add: SelfAttentionLayer_init_def assert_heads_fails)

text \<open>
  Claim C4. The head count of the correlation is never checked at construction: with
  \<^verbatim>\<open>cost_heads_num = 3\<close> and feature maps of 4 channels \<^verbatim>\<open>MemoryEncoder\<close> is
  constructed, and \<^verbatim>\<open>corr\<close> then floor-divides the channel count, \<open>4 // 3 = 1\<close>,
  and fails only in the forward pass, at its first \<^verbatim>\<open>view\<close>, with the
  \<^verbatim>\<open>RuntimeError\<close> of a shape that does not fit the data; on feature maps with no
  pixel that \<^verbatim>\<open>view\<close> succeeds and \<^verbatim>\<open>corr\<close> returns a volume of 3 heads.
\<close>

theorem corr_heads_unchecked:
  "\<not> isl (MemoryEncoder_init sample_backbone zero_init uneven_cfg) \<and>
   \<not> cost_heads_num uneven_cfg dvd encoder_latent_dim uneven_cfg \<and>
   corr (cost_heads_num uneven_cfg) (zeros [1, encoder_latent_dim uneven_cfg, 1, 1])
        (zeros [1, encoder_latent_dim uneven_cfg, 1, 1]) = Inl RuntimeError \<and>
   rmap shape (corr (cost_heads_num uneven_cfg) (zeros [1, encoder_latent_dim uneven_cfg, 0, 0])
        (zeros [1, encoder_latent_dim uneven_cfg, 0, 0])) = Inr [1, 3, 0, 0, 0, 0]"
proof (intro conjI)
  have "\<exists>self. MemoryEncoder_init sample_backbone zero_init uneven_cfg = Inr self"
    by (rule MemoryEncoder_init_ok [where f = Inr]) (simp_all add: uneven_cfg_def sample_backbone_def)
  then show "\<not> isl (MemoryEncoder_init sample_backbone zero_init uneven_cfg)" by auto
  show "\<not> cost_heads_num uneven_cfg dvd encoder_latent_dim uneven_cfg"
    by (simp add: uneven_cfg_def)
  show "corr (cost_heads_num uneven_cfg) (zeros [1, encoder_latent_dim uneven_cfg, 1, 1])
        (zeros [1, encoder_latent_dim uneven_cfg, 1, 1]) = Inl RuntimeError"
    by (simp add: uneven_cfg_def corr_def zeros_def view_def)
  show "rmap shape (corr (cost_heads_num uneven_cfg) (zeros [1, encoder_latent_dim uneven_cfg, 0, 0])
        (zeros [1, encoder_latent_dim uneven_cfg, 0, 0])) = Inr [1, 3, 0, 0, 0, 0]"
    by (simp add: uneven_cfg_def corr_def zeros_def view_def reshape_def permute_def is_perm_def
        pick_def transpose_t_def swap_axes_def bmm_def tabulate_def Let_def upt_rec)
qed

text \<open>
  Claim C5. \<^verbatim>\<open>CostPerceiverEncoder.forward\<close> never reaches its encoder stack: on a
  constructed encoder and a cost volume of shape \<open>(1, 1, 1, 1, 8, 8)\<close> with a context
  of shape \<open>(1, 256, 1, 1)\<close> it raises the \<^verbatim>\<open>TypeError\<close> of the five-argument call of
  \<^verbatim>\<open>coords_grid\<close> in \<^verbatim>\<open>PatchEmbed.forward\<close>, so no token tensor enters or leaves
  the stack.
\<close>

theorem encoder_stack_unreached:
  "\<not> isl (CostPerceiverEncoder_init zero_init sample_cfg) \<and>
   CostPerceiverEncoder_forward sample_pos (projr (CostPerceiverEncoder_init zero_init sample_cfg))
      (zeros [1, 1, 1, 1, 8, 8]) (Some (zeros [1, 256, 1, 1])) = Inl TypeError"
proof -
  have "\<exists>self. CostPerceiverEncoder_init zero_init sample_cfg = Inr self"
    by (rule CostPerceiverEncoder_init_ok) (simp_all add: sample_cfg_def)
  then obtain self where s: "CostPerceiverEncoder_init zero_init sample_cfg = Inr self" ..
  have "CostPerceiverEncoder_forward sample_pos self (zeros [1, 1, 1, 1, 8, 8])
          (Some (zeros [1, 256, 1, 1])) = Inl TypeError"
    by (rule CostPerceiverEncoder_forward_TypeError [OF s, where B = 1 and ?H1.0 = 1 and ?W1.0 = 1
          and ?H2.0 = 8 and ?W2.0 = 8]) (simp_all add: sample_cfg_def)
  with s show ?thesis by simp
qed



text \<open>
  Claim C7. On a cost map whose height and width are multiples of the patch size,
  \<open>(1, 1, 16, 16)\<close>, \<^verbatim>\<open>PatchEmbed.forward\<close> produces no token grid at all: it raises
  the \<^verbatim>\<open>TypeError\<close> of the five-argument call of \<^verbatim>\<open>coords_grid\<close>.
\<close>

theorem patch_embed_no_tokens:
  "PatchEmbed_forward sample_pos (PatchEmbed_init zero_init 1 64) (zeros [1, 1, 16, 16]) = Inl TypeError"
  by (rule PatchEmbed_forward_TypeError [where B = 1 and H = 16 and W = 16]) simp_all


end
